theory Spec2Isabelle
  imports
    Main
    "HOL-Library.AList"
    "HOL-Library.Char_ord"
    "HOL-Library.List_Lexorder"
    "HOL-Library.Monad_Syntax"
    "HOL-Library.Product_Lexorder"
    "HOL-Library.Sublist"
    "HOL-Library.Word"
begin

section \<open>Python values\<close>

text \<open>
  The migrator \<^verbatim>\<open>lingsync2old.py\<close> works on the values that \<^verbatim>\<open>json.load\<close> returns:
  \<^verbatim>\<open>None\<close>, booleans, integers, unicode strings, lists and dicts. A dict is kept as
  an association list in the order of its keys; a key is looked up at its first entry.
  A string is a list of code points; the model has the code points below 256.
  Two Python values are compared with HOL's equality, so two dicts are equal when they
  hold the same entries in the same order: every payload of one resource type is built
  from the same schema by the same sequence of assignments.
\<close>

datatype pyval =
    PNone
  | PBool bool
  | PInt int
  | PStr string
  | PList "pyval list"
  | PDict "(string \<times> pyval) list"

type_synonym pydict = "(string \<times> pyval) list"

text \<open>Truth value testing, as \<^verbatim>\<open>if x:\<close> does it.\<close>

fun truthy :: "pyval \<Rightarrow> bool" where
  "truthy PNone = False"
| "truthy (PBool b) = b"
| "truthy (PInt i) = (i \<noteq> 0)"
| "truthy (PStr s) = (s \<noteq> [])"
| "truthy (PList xs) = (xs \<noteq> [])"
| "truthy (PDict d) = (d \<noteq> [])"

text \<open>\<^verbatim>\<open>d.get(k)\<close>, \<^verbatim>\<open>d[k]\<close> (\<open>None\<close> is the KeyError) and \<^verbatim>\<open>d[k] = v\<close>.\<close>

definition dict_get :: "pydict \<Rightarrow> string \<Rightarrow> pyval" where
  "dict_get d k = (case map_of d k of None \<Rightarrow> PNone | Some v \<Rightarrow> v)"

definition dict_item :: "pydict \<Rightarrow> string \<Rightarrow> pyval option" where
  "dict_item d k = map_of d k"

definition dict_set :: "pydict \<Rightarrow> string \<Rightarrow> pyval \<Rightarrow> pydict" where
  "dict_set d k v = AList.update k v d"

text \<open>
  \<^verbatim>\<open>x.get(k)\<close> and \<^verbatim>\<open>x[k]\<close> on a value that may not be a dict: the method is
  missing on every other type (AttributeError), and a string key indexes a dict only
  (TypeError). \<open>None\<close> is the exception.
\<close>

definition py_get :: "pyval \<Rightarrow> string \<Rightarrow> pyval option" where
  "py_get x k = (case x of PDict d \<Rightarrow> Some (dict_get d k) | _ \<Rightarrow> None)"

definition py_item :: "pyval \<Rightarrow> string \<Rightarrow> pyval option" where
  "py_item x k = (case x of PDict d \<Rightarrow> dict_item d k | _ \<Rightarrow> None)"

text \<open>
  \<^verbatim>\<open>for x in v\<close>: a list yields its elements, a string its characters, a dict its keys;
  nothing else is iterable.
\<close>

definition py_iter :: "pyval \<Rightarrow> pyval list option" where
  "py_iter v = (case v of
      PList xs \<Rightarrow> Some xs
    | PStr s \<Rightarrow> Some (map (\<lambda>c. PStr [c]) s)
    | PDict d \<Rightarrow> Some (map (\<lambda>kv. PStr (fst kv)) d)
    | _ \<Rightarrow> None)"

text \<open>\<^verbatim>\<open>len(v)\<close> and the slice \<^verbatim>\<open>v[:n]\<close>.\<close>

definition py_len :: "pyval \<Rightarrow> nat option" where
  "py_len v = (case v of
      PStr s \<Rightarrow> Some (length s)
    | PList xs \<Rightarrow> Some (length xs)
    | PDict d \<Rightarrow> Some (length d)
    | _ \<Rightarrow> None)"

definition py_slice_to :: "nat \<Rightarrow> pyval \<Rightarrow> pyval option" where
  "py_slice_to n v = (case v of
      PStr s \<Rightarrow> Some (PStr (take n s))
    | PList xs \<Rightarrow> Some (PList (take n xs))
    | _ \<Rightarrow> None)"

subsection \<open>Strings\<close>

text \<open>
  The typographic quotes U+2018 and U+2019 of the messages lie outside the code points
  of the model; they are written as the two characters 0x91 and 0x92.
\<close>

definition lsquo :: string where "lsquo = [CHR 0x91]"
definition rsquo :: string where "rsquo = [CHR 0x92]"
definition nl2 :: string where "nl2 = [CHR 0x0A, CHR 0x0A]"
definition dquote :: string where "dquote = [CHR 0x22]"

text \<open>The characters that \<^verbatim>\<open>unicode.strip()\<close> and \<^verbatim>\<open>unicode.split()\<close> take as white space.\<close>

definition is_space :: "char \<Rightarrow> bool" where
  "is_space c = (c \<in> set [CHR 0x09, CHR 0x0A, CHR 0x0B, CHR 0x0C, CHR 0x0D, CHR 0x1C,
      CHR 0x1D, CHR 0x1E, CHR 0x1F, CHR 0x20, CHR 0x85, CHR 0xA0])"

definition strip :: "string \<Rightarrow> string" where
  "strip s = rev (dropWhile is_space (rev (dropWhile is_space s)))"

fun split_acc :: "string \<Rightarrow> string \<Rightarrow> string list" where
  "split_acc cur [] = (if cur = [] then [] else [cur])"
| "split_acc cur (c # cs) =
     (if is_space c then (if cur = [] then split_acc [] cs else cur # split_acc [] cs)
      else split_acc (cur @ [c]) cs)"

definition split_ws :: "string \<Rightarrow> string list" where
  "split_ws s = split_acc [] s"

text \<open>\<^verbatim>\<open>sep.join(xs)\<close> on strings, and on values (a TypeError unless each is a string).\<close>

fun join :: "string \<Rightarrow> string list \<Rightarrow> string" where
  "join sep [] = []"
| "join sep [x] = x"
| "join sep (x # y # ys) = x @ sep @ join sep (y # ys)"

fun the_strings :: "pyval list \<Rightarrow> string list option" where
  "the_strings [] = Some []"
| "the_strings (PStr s # vs) = map_option ((#) s) (the_strings vs)"
| "the_strings (_ # vs) = None"

definition join_vals :: "string \<Rightarrow> pyval list \<Rightarrow> string option" where
  "join_vals sep vs = map_option (join sep) (the_strings vs)"

text \<open>
  \<^verbatim>\<open>u'%s' % v\<close>: a string stands for itself; for any other value the text is what
  Python's \<^verbatim>\<open>unicode(v)\<close> gives, which the functions below take as the parameter
  \<open>uni\<close>.
\<close>

definition fmt :: "(pyval \<Rightarrow> string) \<Rightarrow> pyval \<Rightarrow> string" where
  "fmt uni v = (case v of PStr s \<Rightarrow> s | _ \<Rightarrow> uni v)"

text \<open>\<^verbatim>\<open>my_strip\<close>: strip a string, return anything else as it is.\<close>

definition my_strip :: "pyval \<Rightarrow> pyval" where
  "my_strip thing = (case thing of PStr s \<Rightarrow> PStr (strip s) | _ \<Rightarrow> thing)"

text \<open>
  \<^verbatim>\<open>punctuate_period_safe\<close> reads \<^verbatim>\<open>string[-1]\<close>: an IndexError on an empty string or
  list, a KeyError on a dict, a TypeError on the other types.
\<close>

definition punctuate_period_safe :: "(pyval \<Rightarrow> string) \<Rightarrow> pyval \<Rightarrow> pyval option" where
  "punctuate_period_safe uni v = (case v of
      PStr s \<Rightarrow>
        (if s = [] then None
         else if last s \<in> set ''?.!'' then Some (PStr s)
         else Some (PStr (s @ ''.'')))
    | PList xs \<Rightarrow>
        (if xs = [] then None
         else if last xs \<in> set [PStr ''?'', PStr ''.'', PStr ''!''] then Some (PList xs)
         else Some (PStr (uni (PList xs) @ ''.'')))
    | _ \<Rightarrow> None)"

section \<open>Conversion results and the staged data\<close>

text \<open>
  The dict that every \<^verbatim>\<open>process_lingsync_*\<close> function returns. Its \<^verbatim>\<open>warnings\<close>
  entry is a dict of two lists; the \<^verbatim>\<open>language\<close> entry exists for sessions only.
\<close>

record oldobj =
  originaldoc :: pydict
  lingsync_type :: string
  old_resource :: string
  old_value :: pyval
  old_auxiliary_resources :: "(string \<times> pyval list) list"
  warnings_general :: "string list"
  warnings_docspecific :: "string list"
  language :: "pyval option"

type_synonym old_data = "string \<Rightarrow> pyval list option"
type_synonym warnings = "string \<Rightarrow> string set option"

definition FAKE_EMAIL :: string where
  "FAKE_EMAIL = ''fakeemail@gmail.com''"

definition old_schemata_user :: pydict where
  "old_schemata_user =
    [(''username'', PStr ''''), (''password'', PStr ''''), (''password_confirm'', PStr ''''),
     (''first_name'', PStr ''''), (''last_name'', PStr ''''), (''email'', PStr ''''),
     (''affiliation'', PStr ''''), (''role'', PStr ''''), (''markup_language'', PStr ''''),
     (''page_content'', PStr ''''), (''input_orthography'', PNone),
     (''output_orthography'', PNone)]"

definition old_schemata_speaker :: pydict where
  "old_schemata_speaker =
    [(''first_name'', PStr ''''), (''last_name'', PStr ''''), (''dialect'', PStr ''''),
     (''page_content'', PStr ''''), (''markup_language'', PStr '''')]"

definition old_schemata_tag :: pydict where
  "old_schemata_tag = [(''name'', PStr ''''), (''description'', PStr '''')]"

subsection \<open>\<^verbatim>\<open>update_state\<close>\<close>

text \<open>\<^verbatim>\<open>if val not in xs: xs.append(val)\<close>.\<close>

definition append_new :: "pyval list \<Rightarrow> pyval \<Rightarrow> pyval list" where
  "append_new xs v = (if v \<in> set xs then xs else xs @ [v])"

definition setdefault_list :: "old_data \<Rightarrow> string \<Rightarrow> pyval list" where
  "setdefault_list od k = (case od k of None \<Rightarrow> [] | Some xs \<Rightarrow> xs)"

definition add_auxiliary :: "old_data \<Rightarrow> string \<times> pyval list \<Rightarrow> old_data" where
  "add_auxiliary od aux = od(fst aux \<mapsto> foldl append_new (setdefault_list od (fst aux)) (snd aux))"

definition add_warnings :: "warnings \<Rightarrow> string \<Rightarrow> string list \<Rightarrow> warnings" where
  "add_warnings w k msgs = w(k \<mapsto> (case w k of None \<Rightarrow> {} | Some s \<Rightarrow> s) \<union> set msgs)"

text \<open>
  \<^verbatim>\<open>update_state\<close> first changes \<^verbatim>\<open>old_data\<close> in place: the value of the result is
  appended to the list of its resource unless it is there already, and so are the
  auxiliary resources. That part is \<open>update_old_data\<close>. It then records the warnings;
  the key of the document's own warnings reads \<^verbatim>\<open>originaldoc['_id']\<close>, a KeyError
  (\<open>None\<close>) on a document without identifier.
\<close>

definition update_old_data :: "oldobj \<Rightarrow> old_data \<Rightarrow> old_data" where
  "update_old_data old_object od =
    (let od1 = (if old_resource old_object \<noteq> []
                then od(old_resource old_object \<mapsto>
                  append_new (setdefault_list od (old_resource old_object)) (old_value old_object))
                else od)
     in foldl add_auxiliary od1 (old_auxiliary_resources old_object))"

definition update_state ::
  "(pyval \<Rightarrow> string) \<Rightarrow> oldobj \<Rightarrow> old_data \<Rightarrow> warnings \<Rightarrow> (old_data \<times> warnings) option" where
  "update_state uni old_object od w =
    (let od2 = update_old_data old_object od;
         w2 = (if warnings_general old_object \<noteq> []
               then (\<lambda>w1. add_warnings w1 ''general'' (warnings_general old_object))
               else (\<lambda>w1. w1))
     in if warnings_docspecific old_object \<noteq> [] then
          (case dict_item (originaldoc old_object) ''_id'' of
             None \<Rightarrow> None
           | Some i \<Rightarrow>
               Some (od2, w2 (add_warnings w
                 (''OLD '' @ old_resource old_object @ '' resource generated from LingSync ''
                    @ lingsync_type old_object @ '' '' @ fmt uni i)
                 (warnings_docspecific old_object))))
        else Some (od2, w2 w))"

section \<open>Users\<close>

definition user_known_attrs :: "string list" where
  "user_known_attrs =
    [''_id'', ''_rev'', ''authUrl'', ''collection'', ''gravatar'', ''id'', ''username'',
     ''firstname'', ''lastname'', ''description'', ''markAsNeedsToBeSaved'',
     ''researchInterest'', ''email'', ''subtitle'', ''affiliation'']"

definition labelled :: "(pyval \<Rightarrow> string) \<Rightarrow> string \<Rightarrow> pyval \<Rightarrow> pyval list option" where
  "labelled uni label v =
    (if truthy v
     then map_option (\<lambda>p. [PStr (label @ fmt uni p)]) (punctuate_period_safe uni v)
     else Some [])"

definition process_lingsync_user :: "(pyval \<Rightarrow> string) \<Rightarrow> pydict \<Rightarrow> oldobj option" where
  "process_lingsync_user uni doc =
    (let user_id = dict_get doc ''_id'';
         docspecific = map (\<lambda>k. lsquo @ k @ rsquo @ '' not a recognized attribute in user ''
                              @ fmt uni user_id)
                         (filter (\<lambda>k. k \<notin> set user_known_attrs) (map fst doc));
         ls_username = my_strip (dict_get doc ''username'');
         ls_firstname = my_strip (dict_get doc ''firstname'');
         ls_lastname = my_strip (dict_get doc ''lastname'');
         ls_description = my_strip (dict_get doc ''description'');
         ls_researchInterest = my_strip (dict_get doc ''researchInterest'');
         ls_email = my_strip (dict_get doc ''email'');
         ls_affiliation = my_strip (dict_get doc ''affiliation'');
         oldobj = \<lparr> originaldoc = doc, lingsync_type = ''user'', old_resource = ''users'',
                    old_value = PNone, old_auxiliary_resources = [],
                    warnings_general = [], warnings_docspecific = docspecific,
                    language = None \<rparr>
     in if truthy ls_username then
          (case labelled uni ''Research interest: '' ls_researchInterest of
             None \<Rightarrow> None
           | Some interest \<Rightarrow>
           (case labelled uni ''Affiliation: '' ls_affiliation of
             None \<Rightarrow> None
           | Some affiliation \<Rightarrow>
           (case join_vals nl2
                   ((if truthy ls_description then [ls_description] else [])
                      @ interest @ affiliation) of
             None \<Rightarrow> None
           | Some content \<Rightarrow>
               (let old_first_name = (if truthy ls_firstname then ls_firstname else ls_username);
                    old_last_name = (if truthy ls_lastname then ls_lastname else ls_username);
                    old_email = (if truthy ls_email then ls_email else PStr FAKE_EMAIL);
                    general = (if truthy ls_email then []
                       else [''Created a user (with username '' @ fmt uni ls_username
                         @ '') with a fake email: '' @ FAKE_EMAIL
                         @ ''. Please fix manually, i.e., from within the Dative/OLD interface.'']);
                    u0 = (if strip content \<noteq> []
                          then dict_set old_schemata_user ''page_content'' (PStr (strip content))
                          else old_schemata_user);
                    u1 = dict_set u0 ''username'' ls_username;
                    u2 = dict_set u1 ''first_name'' old_first_name;
                    u3 = dict_set u2 ''last_name'' old_last_name;
                    u4 = dict_set u3 ''email'' old_email;
                    u5 = dict_set u4 ''role'' (PStr ''administrator'')
                in Some (oldobj \<lparr> old_value := PDict u5, warnings_general := general \<rparr>)))))
        else Some oldobj)"

section \<open>Dates\<close>

text \<open>
  \<^verbatim>\<open>datetime.datetime.strptime\<close> compiles its format to a regular expression, takes
  the first match that the backtracking matcher finds at the start of the string, and
  raises a ValueError when there is none, when the match leaves text over, or when the
  numbers are no date. \<^verbatim>\<open>%Y\<close> is \<^verbatim>\<open>\d\d\d\d\<close>, \<^verbatim>\<open>%m\<close> is
  \<^verbatim>\<open>1[0-2]|0[1-9]|[1-9]\<close> and \<^verbatim>\<open>%d\<close> is \<^verbatim>\<open>3[01]|[12]\d|0[1-9]|[1-9]| [1-9]\<close>.
  A matcher returns every way to match a prefix, in the order in which backtracking
  tries them, each with the number read and the rest of the text.
\<close>

definition digit_val :: "char \<Rightarrow> nat option" where
  "digit_val c = map_of (zip ''0123456789'' [0, 1, 2, 3, 4, 5, 6, 7, 8, 9]) c"

text \<open>One character of the class \<open>cls\<close>, read as a digit.\<close>

definition re_class :: "string \<Rightarrow> string \<Rightarrow> (nat \<times> string) list" where
  "re_class cls s = (case s of
      [] \<Rightarrow> []
    | c # rest \<Rightarrow> (if c \<in> set cls then (case digit_val c of None \<Rightarrow> [(0, rest)] | Some v \<Rightarrow> [(v, rest)]) else []))"

text \<open>Two characters in a row, of the classes \<open>a\<close> and \<open>b\<close>, read as a two-digit number.\<close>

definition re_two :: "string \<Rightarrow> string \<Rightarrow> string \<Rightarrow> (nat \<times> string) list" where
  "re_two a b s = [(10 * x + y, r2). (x, r1) \<leftarrow> re_class a s, (y, r2) \<leftarrow> re_class b r1]"

definition re_lit :: "char \<Rightarrow> string \<Rightarrow> string list" where
  "re_lit c s = (case s of [] \<Rightarrow> [] | x # rest \<Rightarrow> (if x = c then [rest] else []))"

definition re_Y :: "string \<Rightarrow> (nat \<times> string) list" where
  "re_Y s = [(100 * hi + lo, r2). (hi, r1) \<leftarrow> re_two ''0123456789'' ''0123456789'' s,
                                  (lo, r2) \<leftarrow> re_two ''0123456789'' ''0123456789'' r1]"

definition re_m :: "string \<Rightarrow> (nat \<times> string) list" where
  "re_m s = re_two ''1'' ''012'' s @ re_two ''0'' ''123456789'' s @ re_class ''123456789'' s"

definition re_d :: "string \<Rightarrow> (nat \<times> string) list" where
  "re_d s = re_two ''3'' ''01'' s @ re_two ''12'' ''0123456789'' s
      @ re_two ''0'' ''123456789'' s @ re_class ''123456789'' s
      @ re_two '' '' ''123456789'' s"

definition is_leap :: "nat \<Rightarrow> bool" where
  "is_leap y = (y mod 4 = 0 \<and> (y mod 100 \<noteq> 0 \<or> y mod 400 = 0))"

definition days_in_month :: "nat \<Rightarrow> nat \<Rightarrow> nat" where
  "days_in_month y m =
    (if m = 2 then (if is_leap y then 29 else 28)
     else if m \<in> set [4, 6, 9, 11] then 30 else 31)"

text \<open>What the \<^verbatim>\<open>datetime\<close> constructor accepts: the years 1 to 9999.\<close>

definition valid_date :: "nat \<Rightarrow> nat \<Rightarrow> nat \<Rightarrow> bool" where
  "valid_date y m d =
    (1 \<le> y \<and> y \<le> 9999 \<and> 1 \<le> m \<and> m \<le> 12 \<and> 1 \<le> d \<and> d \<le> days_in_month y m)"

definition first_full_match :: "((nat \<times> nat \<times> nat) \<times> string) list \<Rightarrow> (nat \<times> nat \<times> nat) option" where
  "first_full_match ms = (case ms of
      [] \<Rightarrow> None
    | ((y, m, d), rest) # _ \<Rightarrow>
        (if rest \<noteq> [] then None else if valid_date y m d then Some (y, m, d) else None))"

text \<open>\<^verbatim>\<open>strptime(s, '%Y-%m-%d')\<close> and \<^verbatim>\<open>strptime(s, '%m/%d/%Y')\<close>, as year, month, day.\<close>

definition strptime_Ymd :: "string \<Rightarrow> (nat \<times> nat \<times> nat) option" where
  "strptime_Ymd s = first_full_match
    [((y, m, d), r5). (y, r1) \<leftarrow> re_Y s, r2 \<leftarrow> re_lit CHR ''-'' r1, (m, r3) \<leftarrow> re_m r2,
                      r4 \<leftarrow> re_lit CHR ''-'' r3, (d, r5) \<leftarrow> re_d r4]"

definition strptime_mdY :: "string \<Rightarrow> (nat \<times> nat \<times> nat) option" where
  "strptime_mdY s = first_full_match
    [((y, m, d), r5). (m, r1) \<leftarrow> re_m s, r2 \<leftarrow> re_lit CHR ''/'' r1, (d, r3) \<leftarrow> re_d r2,
                      r4 \<leftarrow> re_lit CHR ''/'' r3, (y, r5) \<leftarrow> re_Y r4]"

text \<open>\<^verbatim>\<open>str(n)\<close> for a natural number, and \<^verbatim>\<open>s.zfill(w)\<close> for a string without sign.\<close>

definition digit_char :: "nat \<Rightarrow> char" where
  "digit_char n = ''0123456789'' ! n"

fun str_nat :: "nat \<Rightarrow> string" where
  "str_nat n = (if n < 10 then [digit_char n] else str_nat (n div 10) @ [digit_char (n mod 10)])"

declare str_nat.simps [simp del]

definition zfill :: "nat \<Rightarrow> string \<Rightarrow> string" where
  "zfill w s = replicate (w - length s) CHR ''0'' @ s"

text \<open>
  The two nested \<^verbatim>\<open>try\<close> blocks of the date code, shared by datums and sessions:
  the date as the code writes it, or \<open>None\<close> when neither format parses (anything
  that is not a string makes \<^verbatim>\<open>strptime\<close> raise a TypeError, which the handlers
  catch as well).
\<close>

definition parse_date :: "pyval \<Rightarrow> (nat \<times> nat \<times> nat) option" where
  "parse_date v = (case v of
      PStr s \<Rightarrow> (case strptime_Ymd s of Some t \<Rightarrow> Some t | None \<Rightarrow> strptime_mdY s)
    | _ \<Rightarrow> None)"

definition date_string :: "nat \<times> nat \<times> nat \<Rightarrow> string" where
  "date_string t = (case t of (y, m, d) \<Rightarrow>
      zfill 2 (str_nat m) @ ''/'' @ zfill 2 (str_nat d) @ ''/'' @ str_nat y)"

section \<open>Field lists\<close>

text \<open>
  \<^verbatim>\<open>[f for f in fields if f['label'] == attr]\<close>: every element is indexed with
  \<^verbatim>\<open>'label'\<close>, so one element that is no dict, or has no label, raises.
\<close>

fun matching_fields :: "string \<Rightarrow> pyval list \<Rightarrow> pyval list option" where
  "matching_fields attr [] = Some []"
| "matching_fields attr (f # fs) = do {
     l \<leftarrow> py_item f ''label'';
     rest \<leftarrow> matching_fields attr fs;
     Some (if l = PStr attr then f # rest else rest) }"

definition get_dict_from_session_fields :: "string \<Rightarrow> pyval \<Rightarrow> pyval option" where
  "get_dict_from_session_fields attr session_fields = do {
     fs \<leftarrow> py_iter session_fields;
     val_list \<leftarrow> matching_fields attr fs;
     Some (case val_list of [] \<Rightarrow> PNone | v # _ \<Rightarrow> v) }"

definition get_val_from_session_fields :: "string \<Rightarrow> pyval \<Rightarrow> pyval option" where
  "get_val_from_session_fields attr session_fields = do {
     val_dict \<leftarrow> get_dict_from_session_fields attr session_fields;
     if truthy val_dict then py_get val_dict ''value'' else Some val_dict }"

definition get_dict_from_datum_fields :: "string \<Rightarrow> pyval \<Rightarrow> pyval option" where
  "get_dict_from_datum_fields attr datum_fields = do {
     fs \<leftarrow> py_iter datum_fields;
     val_list \<leftarrow> matching_fields attr fs;
     Some (case val_list of [] \<Rightarrow> PNone | v # _ \<Rightarrow> v) }"

definition get_val_from_datum_fields :: "string \<Rightarrow> pyval \<Rightarrow> pyval option" where
  "get_val_from_datum_fields attr datum_fields = do {
     val_dict \<leftarrow> get_dict_from_datum_fields attr datum_fields;
     if truthy val_dict then py_get val_dict ''value'' else Some val_dict }"

text \<open>
  The loops that warn about an unrecognized attribute of a document and about an
  unrecognized label of a field list; \<open>what\<close> is the end of the message.
\<close>

definition unknown_attrs :: "string list \<Rightarrow> string \<Rightarrow> pydict \<Rightarrow> string list" where
  "unknown_attrs known what doc =
    map (\<lambda>k. lsquo @ k @ rsquo @ what) (filter (\<lambda>k. k \<notin> set known) (map fst doc))"

fun unknown_labels ::
  "(pyval \<Rightarrow> string) \<Rightarrow> string list \<Rightarrow> string \<Rightarrow> pyval list \<Rightarrow> string list option" where
  "unknown_labels uni known what [] = Some []"
| "unknown_labels uni known what (obj # objs) = do {
     l \<leftarrow> py_item obj ''label'';
     rest \<leftarrow> unknown_labels uni known what objs;
     Some ((if l \<in> PStr ` set known then [] else [lsquo @ fmt uni l @ rsquo @ what]) @ rest) }"

section \<open>Speakers from consultant strings\<close>

text \<open>
  The characters below 256 that \<^verbatim>\<open>unicode.upper()\<close> and \<^verbatim>\<open>unicode.lower()\<close>
  change. \<^verbatim>\<open>s.upper() == s\<close> holds when no character of \<open>s\<close> changes under
  \<^verbatim>\<open>upper\<close>; \<^verbatim>\<open>s == s.lower().capitalize()\<close> holds when the first character is
  an upper-case letter or has no case, and no later character has a lower case.
\<close>

definition upper_changes :: "char \<Rightarrow> bool" where
  "upper_changes c = ((CHR ''a'' \<le> c \<and> c \<le> CHR ''z'') \<or> c = CHR 0xB5
      \<or> (CHR 0xE0 \<le> c \<and> c \<le> CHR 0xF6) \<or> CHR 0xF8 \<le> c)"

definition lower_changes :: "char \<Rightarrow> bool" where
  "lower_changes c = ((CHR ''A'' \<le> c \<and> c \<le> CHR ''Z'') \<or> (CHR 0xC0 \<le> c \<and> c \<le> CHR 0xD6)
      \<or> (CHR 0xD8 \<le> c \<and> c \<le> CHR 0xDE))"

definition is_all_caps :: "string \<Rightarrow> bool" where
  "is_all_caps s = (filter upper_changes s = [])"

definition is_capitalized :: "string \<Rightarrow> bool" where
  "is_capitalized s = (case s of
      [] \<Rightarrow> True
    | c # cs \<Rightarrow> (if lower_changes c then True else \<not> upper_changes c)
               \<and> filter lower_changes cs = [])"

text \<open>\<^verbatim>\<open>v.split()\<close>: only a string has the method.\<close>

definition py_split :: "pyval \<Rightarrow> string list option" where
  "py_split v = (case v of PStr s \<Rightarrow> Some (split_ws s) | _ \<Rightarrow> None)"

text \<open>The speaker made of one token of the consultants string.\<close>

definition speaker_of_token :: "pyval \<Rightarrow> string \<Rightarrow> pyval" where
  "speaker_of_token dialect consultant =
    (let s1 = (if is_all_caps consultant
               then dict_set (dict_set old_schemata_speaker ''first_name'' (PStr (take 1 consultant)))
                      ''last_name'' (PStr (drop 1 consultant))
               else dict_set (dict_set old_schemata_speaker ''first_name'' (PStr consultant))
                      ''last_name'' (PStr consultant))
     in PDict (if truthy dialect then dict_set s1 ''dialect'' dialect else s1))"

text \<open>The user made of a bare user name (the elicitor of a session or of a datum).\<close>

definition elicitor_of :: "pyval \<Rightarrow> pyval" where
  "elicitor_of user =
    PDict (dict_set (dict_set (dict_set (dict_set (dict_set old_schemata_user
      ''username'' user) ''first_name'' user) ''last_name'' user)
      ''email'' (PStr FAKE_EMAIL)) ''role'' (PStr ''administrator''))"

section \<open>Sessions\<close>

definition session_known_fields :: "string list" where
  "session_known_fields =
    [''goal'', ''consultants'', ''dialect'', ''language'', ''dateElicited'', ''user'',
     ''dateSEntered'', ''participants'', ''DateSessionEntered'', ''dateSessionEntered'']"

definition session_known_attrs :: "string list" where
  "session_known_attrs =
    [''_id'', ''_rev'', ''collection'', ''comments'', ''dateCreated'', ''dateModified'',
     ''lastModifiedBy'', ''pouchname'', ''sessionFields'', ''title'', ''timestamp'', ''api'',
     ''dbname'', ''fieldDBtype'', ''fields'', ''modifiedByUser'', ''version'', ''dialect'',
     ''language'', ''trashed'', ''trashedReason'']"

definition old_schemata_collection :: pydict where
  "old_schemata_collection =
    [(''title'', PStr ''''), (''type'', PStr ''''), (''url'', PStr ''''),
     (''description'', PStr ''''), (''markup_language'', PStr ''''), (''contents'', PStr ''''),
     (''contents_unpacked'', PStr ''''), (''speaker'', PNone), (''source'', PNone),
     (''elicitor'', PNone), (''date_elicited'', PStr ''''), (''tags'', PList []),
     (''files'', PList [])]"

text \<open>The title of the collection and the warnings of that step.\<close>

definition session_title ::
  "(pyval \<Rightarrow> string) \<Rightarrow> pyval \<Rightarrow> pyval \<Rightarrow> pyval \<Rightarrow> (pyval \<times> string list) option" where
  "session_title uni session_id goal date_session_elicited = do {
     no_goal \<leftarrow> (if \<not> truthy goal then Some True else map_option (\<lambda>n. n = 0) (py_len goal));
     if no_goal then do {
       has_date \<leftarrow> (if truthy date_session_elicited
                     then map_option (\<lambda>n. 0 < n) (py_len date_session_elicited) else Some False);
       Some (if has_date
         then (PStr (''Elicitation Session on '' @ fmt uni date_session_elicited),
               [''Session '' @ fmt uni session_id @ '' has no goal so its date elicited is being''
                  @ '' used for title of the the OLD collection built from it.''])
         else (PStr (''Elicitation Session '' @ fmt uni session_id),
               [''Session '' @ fmt uni session_id @ '' has no goal so its date elicited is being''
                  @ '' used for title of the the OLD collection built from it.'',
                ''Session '' @ fmt uni session_id @ '' has no date elicited so its id is being''
                  @ '' used for the title of the OLD collection built from it.''])) }
     else do {
       n \<leftarrow> py_len goal;
       if 255 < n then do {
         title \<leftarrow> py_slice_to 255 goal;
         Some (title, [''The goal '' @ dquote @ fmt uni goal @ dquote @ '' of session '' @ fmt uni session_id
                         @ '' is too long and will be truncated.'']) }
       else Some (goal, []) } }"

text \<open>
  The paragraphs of the description. They are joined and stored only when the session
  has comments: the assignment stands inside \<^verbatim>\<open>if ls_comments:\<close>.
  \<^verbatim>\<open>lingsync_comments2old_description\<close> takes the length of the comments and returns
  the empty string.
\<close>

definition session_description ::
  "(pyval \<Rightarrow> string) \<Rightarrow> pydict \<Rightarrow> pyval \<Rightarrow> pyval \<Rightarrow> pyval \<Rightarrow> pyval \<Rightarrow> pyval \<Rightarrow> pyval \<Rightarrow> pyval \<Rightarrow> pyval list option" where
  "session_description uni doc session_id goal consultants lang dialect date_session_elicited user = do {
     g \<leftarrow> labelled uni ''Goal: '' goal;
     c \<leftarrow> labelled uni ''Consultants: '' consultants;
     l \<leftarrow> labelled uni ''Language: '' lang;
     d \<leftarrow> labelled uni ''Dialect: '' dialect;
     e \<leftarrow> labelled uni ''Elicitation session date: '' date_session_elicited;
     let creation_metadata = strip (join '' ''
       ((if truthy user \<and> truthy (dict_get doc ''dateCreated'')
         then [''Session created in LingSync by '' @ fmt uni user @ '' on ''
               @ fmt uni (dict_get doc ''dateCreated'') @ ''.''] else [])
        @ (if truthy (dict_get doc ''lastModifiedBy'') \<and> truthy (dict_get doc ''dateModified'')
           then [''Session last modified in LingSync by '' @ fmt uni (dict_get doc ''lastModifiedBy'')
                 @ '' on '' @ fmt uni (dict_get doc ''dateModified'') @ ''.''] else [])));
     Some ([PStr (''This collection was created from a LingSync session with id ''
              @ fmt uni session_id @ ''.'')] @ g @ c @ l @ d @ e
           @ (if creation_metadata \<noteq> [] then [PStr creation_metadata] else [])) }"

definition process_lingsync_session :: "(pyval \<Rightarrow> string) \<Rightarrow> pydict \<Rightarrow> oldobj option option" where
  "process_lingsync_session uni doc = do {
     session_id \<leftarrow> dict_item doc ''_id'';
     let session_fields = (if truthy (dict_get doc ''sessionFields'')
                           then dict_get doc ''sessionFields'' else dict_get doc ''fields'');
     if \<not> truthy session_fields then Some None
     else if dict_get doc ''trashed'' = PStr ''deleted'' then Some None
     else do {
       fs \<leftarrow> py_iter session_fields;
       label_warnings \<leftarrow> unknown_labels uni session_known_fields
         ('' not a recognized label in fields for session '' @ fmt uni session_id) fs;
       goal \<leftarrow> get_val_from_session_fields ''goal'' session_fields;
       consultants \<leftarrow> get_val_from_session_fields ''consultants'' session_fields;
       date_session_elicited \<leftarrow> get_val_from_session_fields ''dateElicited'' session_fields;
       user \<leftarrow> get_val_from_session_fields ''user'' session_fields;
       dialect_field \<leftarrow> get_val_from_session_fields ''dialect'' session_fields;
       let dialect = (if truthy dialect_field then dialect_field else dict_get doc ''dialect'');
       language_field \<leftarrow> get_val_from_session_fields ''language'' session_fields;
       let lang = (if truthy language_field then language_field else dict_get doc ''language'');
       (title, title_warnings) \<leftarrow> session_title uni session_id goal date_session_elicited;
       description \<leftarrow> session_description uni doc session_id goal consultants lang dialect
         date_session_elicited user;
       described \<leftarrow> (if truthy (dict_get doc ''comments'') then do {
           _ \<leftarrow> py_len (dict_get doc ''comments'');
           text \<leftarrow> join_vals nl2 description;
           Some [PStr text] }
         else Some []);
       tokens \<leftarrow> (if truthy consultants then py_split consultants else Some []);
       let speakers = map (speaker_of_token dialect) tokens;
       let c1 = dict_set (dict_set old_schemata_collection ''type'' (PStr ''elicitation''))
                  ''title'' title;
       let c2 = (case described of [] \<Rightarrow> c1 | t # _ \<Rightarrow> dict_set c1 ''description'' t);
       let c3 = (case speakers of [] \<Rightarrow> c2 | sp # _ \<Rightarrow> dict_set c2 ''speaker'' sp);
       let c4 = (if truthy user then dict_set c3 ''elicitor'' (elicitor_of user) else c3);
       let c5 = (if truthy date_session_elicited
                 then (case parse_date date_session_elicited of
                         None \<Rightarrow> c4
                       | Some t \<Rightarrow> dict_set c4 ''date_elicited'' (PStr (date_string t)))
                 else c4);
       Some (Some \<lparr>
         originaldoc = doc, lingsync_type = ''session'', old_resource = ''collections'',
         old_value = PDict (dict_set c5 ''__lingsync_session_id'' session_id),
         old_auxiliary_resources =
           (if speakers \<noteq> [] then [(''speakers'', speakers)] else [])
           @ (if truthy user then [(''users'', [elicitor_of user])] else []),
         warnings_general = [],
         warnings_docspecific =
           unknown_attrs session_known_attrs
             ('' not a recognized attribute in session '' @ fmt uni session_id) doc
           @ label_warnings @ title_warnings
           @ (if 1 < length speakers
              then [''Session '' @ fmt uni session_id @ '' has more than one consultant listed. Since''
                @ '' OLD collections only allow one speaker, we are just going to''
                @ '' associate the first speaker to the OLD collection created form this''
                @ '' LingSync session. The additional LingSync speakers will still be''
                @ '' created as OLD speakers, however.'']
              else []),
         language = (if truthy lang then Some lang else None) \<rparr>) } }"

section \<open>Datums\<close>

definition datum_known_fields :: "string list" where
  "datum_known_fields =
    [''judgement'', ''morphemes'', ''utterance'', ''gloss'', ''translation'',
     ''validationStatus'', ''tags'', ''syntacticCategory'', ''syntacticTreeLatex'',
     ''enteredByUser'', ''modifiedByUser'', ''comments'', ''markAsNeedsToBeSaved'',
     ''checked'', ''notes'', ''phonetic'']"

definition datum_known_attrs :: "string list" where
  "datum_known_attrs =
    [''_id'', ''_rev'', ''audioVideo'', ''collection'', ''comments'', ''dateEntered'',
     ''dateModified'', ''datumFields'', ''datumTags'', ''images'', ''jsonType'', ''pouchname'',
     ''session'', ''timestamp'', ''trashed'', ''api'', ''dateCreated'', ''dbname'',
     ''fieldDBtype'', ''version'']"

definition known_audio_video_attrs :: "string list" where
  "known_audio_video_attrs =
    [''_id'', ''dateCreated'', ''URL'', ''api'', ''checksum'', ''dbname'', ''description'',
     ''fieldDBtype'', ''fileBaseName'', ''filename'', ''mtime'', ''name'', ''pouchname'',
     ''praatAudioExtension'', ''resultInfo'', ''resultStatus'', ''script'', ''serviceVersion'',
     ''size'', ''syllablesAndUtterances'', ''textGridInfo'', ''textGridStatus'', ''textgrid'',
     ''trashed'', ''type'', ''uploadInfo'', ''version'', ''webResultInfo'', ''webResultStatus'']"

definition old_allowed_file_types :: "string list" where
  "old_allowed_file_types =
    [''application/pdf'', ''image/gif'', ''image/jpeg'', ''image/png'', ''audio/mpeg'',
     ''audio/ogg'', ''audio/x-wav'', ''video/mpeg'', ''video/mp4'', ''video/ogg'',
     ''video/quicktime'', ''video/x-ms-wmv'']"

definition old_schemata_form :: pydict where
  "old_schemata_form =
    [(''transcription'', PStr ''''), (''phonetic_transcription'', PStr ''''),
     (''narrow_phonetic_transcription'', PStr ''''), (''morpheme_break'', PStr ''''),
     (''grammaticality'', PStr ''''), (''morpheme_gloss'', PStr ''''),
     (''translations'', PList []), (''comments'', PStr ''''), (''speaker_comments'', PStr ''''),
     (''syntax'', PStr ''''), (''semantics'', PStr ''''), (''status'', PStr ''''),
     (''elicitation_method'', PNone), (''syntactic_category'', PNone), (''speaker'', PNone),
     (''elicitor'', PNone), (''verifier'', PNone), (''source'', PNone), (''tags'', PList []),
     (''files'', PList []), (''date_elicited'', PStr '''')]"

definition old_schemata_file :: pydict where
  "old_schemata_file =
    [(''description'', PStr ''''), (''utterance_type'', PStr ''''), (''speaker'', PNone),
     (''elicitor'', PNone), (''tags'', PList []), (''forms'', PList []),
     (''date_elicited'', PStr ''''), (''base64_encoded_file'', PStr ''''),
     (''filename'', PStr ''''), (''name'', PStr ''''), (''MIME_type'', PStr '''')]"

text \<open>\<^verbatim>\<open>x.get(k, default)\<close> on a value that may not be a dict.\<close>

definition py_get_default :: "pyval \<Rightarrow> string \<Rightarrow> pyval \<Rightarrow> pyval option" where
  "py_get_default x k dflt = (case x of
      PDict d \<Rightarrow> Some (case map_of d k of None \<Rightarrow> dflt | Some v \<Rightarrow> v)
    | _ \<Rightarrow> None)"

text \<open>\<^verbatim>\<open>v.strip()\<close>: only a string has the method.\<close>

definition py_strip :: "pyval \<Rightarrow> pyval option" where
  "py_strip v = (case v of PStr s \<Rightarrow> Some (PStr (strip s)) | _ \<Rightarrow> None)"

subsection \<open>Date elicited\<close>

text \<open>
  The date of a datum is the \<^verbatim>\<open>dateElicited\<close> field of the session that the datum
  carries. The step returns the raw value, the flag
  \<^verbatim>\<open>date_datum_elicited_unparseable\<close>, the date when one was read, and the warnings.
\<close>

definition unparseable_date_warning :: "(pyval \<Rightarrow> string) \<Rightarrow> pyval \<Rightarrow> pyval \<Rightarrow> string" where
  "unparseable_date_warning uni date_session_elicited datum_id =
    ''Unable to parse '' @ fmt uni date_session_elicited
      @ '' to an OLD-compatible date in MM/DD/YYYY format for datum ''
      @ fmt uni datum_id @ ''.''"

definition datum_date ::
  "(pyval \<Rightarrow> string) \<Rightarrow> pyval \<Rightarrow> pyval
     \<Rightarrow> (pyval \<times> bool \<times> (nat \<times> nat \<times> nat) option \<times> string list) option" where
  "datum_date uni datum_id ls_session =
    (if truthy ls_session then do {
       session_fields \<leftarrow> py_get_default ls_session ''sessionFields'' (PList []);
       date_session_elicited \<leftarrow> get_val_from_session_fields ''dateElicited'' session_fields;
       Some (if truthy date_session_elicited
         then (case parse_date date_session_elicited of
                 Some t \<Rightarrow> (date_session_elicited, False, Some t, [])
               | None \<Rightarrow> (date_session_elicited, True, None,
                   [unparseable_date_warning uni date_session_elicited datum_id]))
         else (date_session_elicited, False, None, [])) }
     else Some (PNone, False, None, []))"

subsection \<open>Files\<close>

text \<open>
  \<^verbatim>\<open>mimetypes.guess_type(url)[0]\<close> is the parameter \<open>guess\<close>: the MIME type as a
  string, \<^verbatim>\<open>None\<close> when the extension is unknown, and no value when the call raises.
\<close>

definition old_file_of ::
  "(pyval \<Rightarrow> string) \<Rightarrow> pyval \<Rightarrow> pydict \<Rightarrow> pyval \<Rightarrow> pyval option" where
  "old_file_of uni datum_id av mime_type = do {
     described \<leftarrow> (if truthy (dict_get av ''description'')
                    then map_option (\<lambda>d. [d]) (py_strip (dict_get av ''description''))
                    else Some []);
     description \<leftarrow> join_vals nl2
       ([PStr (''This file was generated from the LingSync audio/video file stored at ''
           @ fmt uni (dict_get av ''URL'') @ ''.'')]
        @ described
        @ (if truthy (dict_get av ''dateCreated'')
           then [PStr (''This file was created on LingSync at ''
                   @ fmt uni (dict_get av ''dateCreated'') @ ''.'')]
           else []));
     named \<leftarrow> (if truthy (dict_get av ''filename'')
               then map_option (\<lambda>n. [n]) (py_strip (dict_get av ''filename''))
               else Some []);
     let f1 = dict_set (dict_set old_schemata_file ''MIME_type'' mime_type)
                ''description'' (PStr description);
     let f2 = (case named of [] \<Rightarrow> f1 | n # _ \<Rightarrow> dict_set f1 ''filename'' n);
     let f3 = dict_set (dict_set f2 ''__lingsync_datum_id'' datum_id)
                ''__lingsync_file_url'' (dict_get av ''URL'');
     let f4 = (if truthy (dict_get av ''size'')
               then dict_set f3 ''__lingsync_file_size'' (dict_get av ''size'') else f3);
     Some (PDict (if truthy (dict_get av ''type'')
                  then dict_set f4 ''__lingsync_MIME_type'' (dict_get av ''type'') else f4)) }"

fun audio_video_loop ::
  "(pyval \<Rightarrow> string) \<Rightarrow> (pyval \<Rightarrow> pyval option) \<Rightarrow> pyval \<Rightarrow> pyval list
     \<Rightarrow> (pyval list \<times> string list) option" where
  "audio_video_loop uni guess datum_id [] = Some ([], [])"
| "audio_video_loop uni guess datum_id (x # xs) =
    (case x of
       PDict av \<Rightarrow>
         (if truthy (dict_get av ''URL'') \<and> dict_get av ''trashed'' \<noteq> PStr ''deleted'' then do {
            mime_type \<leftarrow> guess (dict_get av ''URL'');
            if \<not> truthy mime_type \<or> mime_type \<notin> PStr ` set old_allowed_file_types
            then audio_video_loop uni guess datum_id xs
            else do {
              old_file \<leftarrow> old_file_of uni datum_id av mime_type;
              (files, ws) \<leftarrow> audio_video_loop uni guess datum_id xs;
              Some (old_file # files,
                    map ((@) ''Attribute '')
                      (unknown_attrs known_audio_video_attrs
                         ('' is not recognized in the `audioVideo` value of datum ''
                            @ fmt uni datum_id) av) @ ws) } }
          else audio_video_loop uni guess datum_id xs)
     | _ \<Rightarrow> audio_video_loop uni guess datum_id xs)"

definition datum_files ::
  "(pyval \<Rightarrow> string) \<Rightarrow> (pyval \<Rightarrow> pyval option) \<Rightarrow> pyval \<Rightarrow> pyval
     \<Rightarrow> (pyval list \<times> string list) option" where
  "datum_files uni guess datum_id ls_audioVideo = (case ls_audioVideo of
      PList avs \<Rightarrow> audio_video_loop uni guess datum_id avs
    | _ \<Rightarrow> Some ([], []))"

subsection \<open>Tags\<close>

definition tag_named :: "pyval \<Rightarrow> pyval" where
  "tag_named name = PDict (dict_set old_schemata_tag ''name'' name)"

definition datum_field_tags :: "(pyval \<Rightarrow> string) \<Rightarrow> pyval \<Rightarrow> pyval \<Rightarrow> pyval list \<times> string list" where
  "datum_field_tags uni datum_id ls_tags =
    (if truthy ls_tags then (case ls_tags of
        PStr s \<Rightarrow> (map (\<lambda>t. tag_named (PStr t)) (split_ws s), [])
      | _ \<Rightarrow> ([], [''Unable to use value '' @ lsquo @ uni ls_tags @ rsquo
                      @ '' from datumField tags of datum '' @ fmt uni datum_id]))
     else ([], []))"

fun datum_tags_loop :: "(pyval \<Rightarrow> string) \<Rightarrow> pyval \<Rightarrow> pyval list \<Rightarrow> pyval list \<times> string list" where
  "datum_tags_loop uni datum_id [] = ([], [])"
| "datum_tags_loop uni datum_id (t # ts) =
    (case datum_tags_loop uni datum_id ts of (tags, ws) \<Rightarrow>
      (case t of
         PDict d \<Rightarrow>
           (if truthy (dict_get d ''tag'') then (tag_named (dict_get d ''tag'') # tags, ws)
            else (tags, (''Tag object '' @ lsquo @ uni t @ rsquo
                    @ '' from datum.datumTags of datum '' @ fmt uni datum_id
                    @ '' has no `tag` attribute and cannot be used.'') # ws))
       | _ \<Rightarrow> (tags, (''Unable to use tag '' @ lsquo @ uni t @ rsquo
                    @ '' from datum.datumTags of datum '' @ fmt uni datum_id) # ws)))"

definition datum_attr_tags :: "(pyval \<Rightarrow> string) \<Rightarrow> pyval \<Rightarrow> pyval \<Rightarrow> pyval list \<times> string list" where
  "datum_attr_tags uni datum_id ls_datumTags =
    (if truthy ls_datumTags then (case ls_datumTags of
        PList ts \<Rightarrow> datum_tags_loop uni datum_id ts
      | _ \<Rightarrow> ([], [''Unable to use value '' @ lsquo @ uni ls_datumTags @ rsquo
                      @ '' from datum.datumTags of datum '' @ fmt uni datum_id]))
     else ([], []))"

subsection \<open>Speakers\<close>

text \<open>
  Two capitalized words are one speaker with a first and a last name (the dialect is
  not stored in that case); anything else is one speaker for each word.
\<close>

definition datum_speakers :: "pyval \<Rightarrow> pyval list option" where
  "datum_speakers ls_session =
    (if truthy ls_session then do {
       sf \<leftarrow> py_get ls_session ''sessionFields'';
       session_fields \<leftarrow> (if truthy sf then Some sf
                           else py_get_default ls_session ''fields'' (PList []));
       consultants \<leftarrow> get_val_from_session_fields ''consultants'' session_fields;
       dialect_field \<leftarrow> get_val_from_session_fields ''dialect'' session_fields;
       dialect \<leftarrow> (if truthy dialect_field then Some dialect_field
                    else py_get ls_session ''dialect'');
       if truthy consultants then do {
         consultants_list \<leftarrow> py_split consultants;
         Some (case consultants_list of
             [a, b] \<Rightarrow>
               (if is_capitalized a \<and> is_capitalized b
                then [PDict (dict_set (dict_set old_schemata_speaker ''first_name'' (PStr a))
                               ''last_name'' (PStr b))]
                else map (speaker_of_token dialect) consultants_list)
           | _ \<Rightarrow> map (speaker_of_token dialect) consultants_list) }
       else Some [] }
     else Some [])"

definition speaker_str :: "(pyval \<Rightarrow> string) \<Rightarrow> pyval \<Rightarrow> string" where
  "speaker_str uni s = (case s of
      PDict d \<Rightarrow> fmt uni (dict_get d ''first_name'') @ '' '' @ fmt uni (dict_get d ''last_name'')
    | _ \<Rightarrow> [])"

definition punctuate :: "string \<Rightarrow> string" where
  "punctuate s = (if s \<noteq> [] \<and> last s \<in> set ''?.!'' then s else s @ ''.'')"

definition datum_speakers_notes ::
  "(pyval \<Rightarrow> string) \<Rightarrow> pyval \<Rightarrow> pyval list \<Rightarrow> string list \<times> string list" where
  "datum_speakers_notes uni datum_id speakers =
    (if 1 < length speakers
     then ([''Datum '' @ fmt uni datum_id @ '' has more than one''
              @ '' consultant listed. Since OLD forms only allow one speaker, we''
              @ '' are just going to associate the first speaker to the OLD form''
              @ '' created form this LingSync datum. The additional LingSync''
              @ '' speakers will still be created as OLD speakers, however, and''
              @ '' ALL LingSync consultants will be documented in the form''
              @ [CHR 0x27] @ ''s'' @ '' comments field.''],
           [punctuate (''Consultants: '' @ join '', '' (map (speaker_str uni) speakers))])
     else ([], []))"

subsection \<open>Length-bounded fields\<close>

text \<open>
  Transcription, from the utterance: the placeholder when there is none, the first 255
  characters when it is longer. The result is the value, the flag
  \<^verbatim>\<open>ls_utterance_too_long\<close> and the warnings; the warning for the placeholder is
  commented out in the source.
\<close>

definition PLACEHOLDER :: string where
  "PLACEHOLDER = ''PLACEHOLDER''"

definition datum_transcription ::
  "(pyval \<Rightarrow> string) \<Rightarrow> pyval \<Rightarrow> pyval \<Rightarrow> (pyval \<times> bool \<times> string list) option" where
  "datum_transcription uni datum_id ls_utterance =
    (if \<not> truthy ls_utterance then Some (PStr PLACEHOLDER, False, [])
     else do {
       n \<leftarrow> py_len ls_utterance;
       if 255 < n then do {
         t \<leftarrow> py_slice_to 255 ls_utterance;
         Some (t, True, [''The utterance '' @ dquote @ fmt uni ls_utterance @ dquote
                 @ '' of datum '' @ fmt uni datum_id @ '' is too long and will be truncated.'']) }
       else Some (ls_utterance, False, []) })"

text \<open>
  The pattern of the morpheme break, the phonetic transcription, the gloss and the
  syntax: nothing is stored for an empty value; a value longer than \<open>limit\<close> is cut to
  its first \<open>keep\<close> characters, with the warning \<open>msg\<close>. The result is the value to
  store (if any), the flag and the warnings.
\<close>

definition bounded_field ::
  "nat \<Rightarrow> nat \<Rightarrow> string \<Rightarrow> pyval \<Rightarrow> (pyval option \<times> bool \<times> string list) option" where
  "bounded_field limit keep msg v =
    (if truthy v then do {
       n \<leftarrow> py_len v;
       if limit < n then do {
         t \<leftarrow> py_slice_to keep v;
         Some (Some t, True, [msg]) }
       else Some (Some v, False, []) }
     else Some (None, False, []))"

definition store :: "string \<Rightarrow> pyval option \<Rightarrow> pydict \<Rightarrow> pydict" where
  "store k v form = (case v of None \<Rightarrow> form | Some x \<Rightarrow> dict_set form k x)"

definition datum_morphemes ::
  "(pyval \<Rightarrow> string) \<Rightarrow> pyval \<Rightarrow> pyval \<Rightarrow> (pyval option \<times> bool \<times> string list) option" where
  "datum_morphemes uni datum_id ls_morphemes =
    bounded_field 255 255
      (''The morphemes '' @ dquote @ fmt uni ls_morphemes @ dquote @ '' of datum ''
         @ fmt uni datum_id @ '' is too long and will be truncated.'') ls_morphemes"

definition datum_phonetic ::
  "(pyval \<Rightarrow> string) \<Rightarrow> pyval \<Rightarrow> pyval \<Rightarrow> (pyval option \<times> bool \<times> string list) option" where
  "datum_phonetic uni datum_id ls_phonetic =
    bounded_field 255 255
      (''The phonetic value '' @ dquote @ fmt uni ls_phonetic @ dquote @ '' of datum ''
         @ fmt uni datum_id @ '' is too long and will be truncated.'') ls_phonetic"

definition datum_gloss ::
  "(pyval \<Rightarrow> string) \<Rightarrow> pyval \<Rightarrow> pyval \<Rightarrow> (pyval option \<times> bool \<times> string list) option" where
  "datum_gloss uni datum_id ls_gloss =
    bounded_field 255 255
      (''The gloss '' @ dquote @ fmt uni ls_gloss @ dquote @ '' of datum ''
         @ fmt uni datum_id @ '' is too long and will be truncated.'') ls_gloss"

text \<open>The syntax is tested against 1023 characters and cut to \<^verbatim>\<open>[:255]\<close>.\<close>

definition datum_syntax ::
  "(pyval \<Rightarrow> string) \<Rightarrow> pyval \<Rightarrow> pyval \<Rightarrow> (pyval option \<times> bool \<times> string list) option" where
  "datum_syntax uni datum_id ls_syntacticTreeLatex =
    bounded_field 1023 255
      (''The syntacticTreeLatex '' @ dquote @ fmt uni ls_syntacticTreeLatex @ dquote
         @ '' of datum '' @ fmt uni datum_id @ '' is too long and will be truncated.'')
      ls_syntacticTreeLatex"

subsection \<open>Grammaticality\<close>

definition grammaticality_markers :: "pyval list" where
  "grammaticality_markers = [PStr ''*'', PStr ''?'', PStr ''#'', PStr ''!'']"

definition grammaticality_warning :: string where
  "grammaticality_warning =
    ''You have some grammaticality values''
      @ '' that contain more than three characters, suggesting that''
      @ '' these values are comments and not true grammaticalities. We''
      @ '' have tried to separate the true grammaticalities from the''
      @ '' comments. Search for '' @ dquote
      @ ''Comment from LingSync judgement field:'' @ dquote
      @ '' in the comments field of forms in the resulting OLD database.''"

text \<open>
  The result is the grammaticality to store (if any), the general warnings and the
  comments of the step.
\<close>

definition datum_grammaticality ::
  "(pyval \<Rightarrow> string) \<Rightarrow> pyval \<Rightarrow> (pyval option \<times> string list \<times> string list) option" where
  "datum_grammaticality uni ls_judgement =
    (if truthy ls_judgement then do {
       n \<leftarrow> py_len ls_judgement;
       if 3 < n then do {
         chars \<leftarrow> py_iter ls_judgement;
         grammaticality_prefix \<leftarrow>
           join_vals [] (takeWhile (\<lambda>char. char \<in> set grammaticality_markers) chars);
         Some (Some (PStr grammaticality_prefix), [grammaticality_warning],
               [punctuate (''Comment from LingSync judgement field: '' @ fmt uni ls_judgement)]) }
       else Some (Some ls_judgement, [], []) }
     else Some (None, [], []))"

subsection \<open>Comments\<close>

text \<open>
  \<^verbatim>\<open>process_lingsync_comments_val\<close>. The human-readable form of a timestamp depends on
  the time zone of the machine: \<^verbatim>\<open>timestamp2human\<close> is the parameter \<open>ts\<close>, with no
  value where the function returns \<^verbatim>\<open>None\<close>. The branch for a comment that is no dict
  or has no text reads the name \<^verbatim>\<open>datum_id\<close>, which this function does not have: a
  NameError.
\<close>

definition human :: "(pyval \<Rightarrow> string option) \<Rightarrow> string \<Rightarrow> string \<Rightarrow> pyval \<Rightarrow> string" where
  "human ts opening closing v =
    (if truthy v then (case ts v of
        None \<Rightarrow> []
      | Some h \<Rightarrow> (if h \<noteq> [] then opening @ h @ closing else []))
     else [])"

fun comments_loop ::
  "(pyval \<Rightarrow> string) \<Rightarrow> (pyval \<Rightarrow> string option) \<Rightarrow> pyval list \<Rightarrow> string list option" where
  "comments_loop uni ts [] = Some []"
| "comments_loop uni ts (comment_obj # rest) =
    (case comment_obj of
       PDict c \<Rightarrow>
         (if truthy (dict_get c ''text'') then do {
            text \<leftarrow> punctuate_period_safe uni (dict_get c ''text'');
            more \<leftarrow> comments_loop uni ts rest;
            Some ((''Comment ''
                @ (if truthy (dict_get c ''username'')
                   then '' by '' @ fmt uni (dict_get c ''username'') else [])
                @ human ts '' on '' [] (dict_get c ''dateCreated'')
                @ human ts '' (last modified '' '')'' (dict_get c ''timestampModified'')
                @ '': '' @ fmt uni text) # more) }
          else None)
     | _ \<Rightarrow> None)"

definition process_lingsync_comments_val ::
  "(pyval \<Rightarrow> string) \<Rightarrow> (pyval \<Rightarrow> string option) \<Rightarrow> pyval \<Rightarrow> string list option" where
  "process_lingsync_comments_val uni ts ls_comments = (case ls_comments of
      PList cs \<Rightarrow> comments_loop uni ts cs
    | PStr s \<Rightarrow>
        (if strip s \<noteq> []
         then map_option (\<lambda>p. [''Comment: '' @ fmt uni p]) (punctuate_period_safe uni ls_comments)
         else Some [])
    | _ \<Rightarrow> Some [])"

definition comments_of ::
  "(pyval \<Rightarrow> string) \<Rightarrow> (pyval \<Rightarrow> string option) \<Rightarrow> pyval \<Rightarrow> string list option" where
  "comments_of uni ts ls_comments =
    (if truthy ls_comments then process_lingsync_comments_val uni ts ls_comments else Some [])"

text \<open>The paragraph on who created and modified the datum.\<close>

definition datum_metadata ::
  "(pyval \<Rightarrow> string) \<Rightarrow> pydict \<Rightarrow> pyval \<Rightarrow> string \<Rightarrow> pyval \<Rightarrow> pyval \<Rightarrow> bool \<Rightarrow> pyval \<Rightarrow> string list" where
  "datum_metadata uni doc datum_id lingsync_db_name ls_enteredByUser ls_modifiedByUser
      date_datum_elicited_unparseable date_session_elicited =
    (let old_form_creation_metadata = strip (join '' ''
       ((if truthy ls_enteredByUser \<and> truthy (dict_get doc ''dateEntered'')
         then [''This form was created from LingSync datum '' @ fmt uni datum_id
                 @ '' (in corpus '' @ lingsync_db_name @ ''), which was created by ''
                 @ fmt uni ls_enteredByUser @ '' on '' @ fmt uni (dict_get doc ''dateEntered'')
                 @ ''.'']
         else [])
        @ (if truthy ls_modifiedByUser \<and> truthy (dict_get doc ''dateModified'')
           then [''The datum was last modified in LingSync by '' @ fmt uni ls_modifiedByUser
                   @ '' on '' @ fmt uni (dict_get doc ''dateModified'') @ ''.'']
           else [])
        @ (if date_datum_elicited_unparseable
           then [''The datum was elicited on '' @ fmt uni date_session_elicited @ ''.'']
           else [])))
     in if old_form_creation_metadata \<noteq> [] then [old_form_creation_metadata] else [])"

text \<open>
  The paragraph that repeats, in full, the values that were cut, and the syntactic
  category.
\<close>

definition untruncated :: "(pyval \<Rightarrow> string) \<Rightarrow> bool \<Rightarrow> string \<Rightarrow> pyval \<Rightarrow> string list option" where
  "untruncated uni too_long label v =
    (if too_long
     then map_option (\<lambda>p. [label @ lsquo @ fmt uni p @ rsquo]) (punctuate_period_safe uni v)
     else Some [])"

definition datum_errored_data ::
  "(pyval \<Rightarrow> string) \<Rightarrow> bool \<Rightarrow> pyval \<Rightarrow> bool \<Rightarrow> pyval \<Rightarrow> bool \<Rightarrow> pyval \<Rightarrow> bool \<Rightarrow> pyval
     \<Rightarrow> pyval \<Rightarrow> bool \<Rightarrow> pyval \<Rightarrow> string list option" where
  "datum_errored_data uni ls_utterance_too_long ls_utterance ls_morphemes_too_long ls_morphemes
      ls_phonetic_too_long ls_phonetic ls_gloss_too_long ls_gloss ls_syntacticCategory
      ls_syntacticTreeLatex_too_long ls_syntacticTreeLatex = do {
     u \<leftarrow> untruncated uni ls_utterance_too_long
            ''LingSync datum utterance value without truncation: '' ls_utterance;
     m \<leftarrow> untruncated uni ls_morphemes_too_long
            ''LingSync morphemes value without truncation: '' ls_morphemes;
     p \<leftarrow> untruncated uni ls_phonetic_too_long
            ''LingSync phonetic value without truncation: '' ls_phonetic;
     g \<leftarrow> untruncated uni ls_gloss_too_long
            ''LingSync datum gloss value without truncation: '' ls_gloss;
     s \<leftarrow> untruncated uni ls_syntacticTreeLatex_too_long
            ''LingSync datum syntacticTreeLatex value without truncation: ''
            ls_syntacticTreeLatex;
     let old_form_errored_data = strip (join '' ''
       (u @ m @ p @ g
        @ (if truthy ls_syntacticCategory
           then [''LingSync syntacticCategory value: '' @ lsquo @ fmt uni ls_syntacticCategory
                   @ rsquo]
           else [])
        @ s));
     Some (if old_form_errored_data \<noteq> [] then [old_form_errored_data] else []) }"

subsection \<open>The conversion of a datum\<close>

text \<open>The two general warnings about an elicitor made of the \<^verbatim>\<open>enteredByUser\<close> field.\<close>

definition elicitor_warnings :: "(pyval \<Rightarrow> string) \<Rightarrow> pyval \<Rightarrow> string list" where
  "elicitor_warnings uni ls_enteredByUser =
    (if truthy ls_enteredByUser
     then [''Form elicitor values are being supplied by''
             @ '' datum.session.enteredByUser values. This may be inaccurate. Change''
             @ '' as needed in the Dative/OLD interface.'',
           ''Created a user (with username '' @ fmt uni ls_enteredByUser @ '') with a''
             @ '' fake email: '' @ FAKE_EMAIL @ ''. Please fix manually, i.e., from within the''
             @ '' Dative/OLD interface.'']
     else [])"

definition process_lingsync_datum ::
  "(pyval \<Rightarrow> string) \<Rightarrow> (pyval \<Rightarrow> string option) \<Rightarrow> (pyval \<Rightarrow> pyval option) \<Rightarrow> pydict
     \<Rightarrow> pyval list \<Rightarrow> string \<Rightarrow> oldobj option" where
  "process_lingsync_datum uni ts guess doc collections lingsync_db_name = do {
     datum_id \<leftarrow> dict_item doc ''_id'';
     datum_fields \<leftarrow> dict_item doc ''datumFields'';
     fs \<leftarrow> py_iter datum_fields;
     label_warnings \<leftarrow> unknown_labels uni datum_known_fields
       ('' not a recognized label in fields for datum '' @ fmt uni datum_id) fs;
     ls_judgement \<leftarrow> get_val_from_datum_fields ''judgement'' datum_fields;
     ls_morphemes \<leftarrow> get_val_from_datum_fields ''morphemes'' datum_fields;
     ls_utterance \<leftarrow> get_val_from_datum_fields ''utterance'' datum_fields;
     ls_gloss \<leftarrow> get_val_from_datum_fields ''gloss'' datum_fields;
     ls_translation \<leftarrow> get_val_from_datum_fields ''translation'' datum_fields;
     ls_validationStatus \<leftarrow> get_val_from_datum_fields ''validationStatus'' datum_fields;
     ls_tags \<leftarrow> get_val_from_datum_fields ''tags'' datum_fields;
     ls_syntacticTreeLatex \<leftarrow> get_val_from_datum_fields ''syntacticTreeLatex'' datum_fields;
     let ls_session = dict_get doc ''session'';
     (date_session_elicited, date_datum_elicited_unparseable, date_elicited, date_warnings)
       \<leftarrow> datum_date uni datum_id ls_session;
     (files, file_warnings) \<leftarrow> datum_files uni guess datum_id (dict_get doc ''audioVideo'');
     let image_warnings = (if truthy (dict_get doc ''images'')
       then [''Datum '' @ fmt uni datum_id @ '' has an `images` attribute that has been ignored.'']
       else []);
     let field_tags = fst (datum_field_tags uni datum_id ls_tags);
     let field_tag_warnings = snd (datum_field_tags uni datum_id ls_tags);
     let attr_tags = fst (datum_attr_tags uni datum_id (dict_get doc ''datumTags''));
     let attr_tag_warnings = snd (datum_attr_tags uni datum_id (dict_get doc ''datumTags''));
     speakers \<leftarrow> datum_speakers ls_session;
     let speaker_warnings = fst (datum_speakers_notes uni datum_id speakers);
     let speaker_comments = snd (datum_speakers_notes uni datum_id speakers);
     ls_enteredByUser \<leftarrow> get_val_from_datum_fields ''enteredByUser'' datum_fields;
     let status_tags = (if truthy ls_validationStatus \<and> ls_validationStatus \<noteq> PStr ''Checked''
       then [PStr (''validation status: '' @ fmt uni ls_validationStatus)] else []);
     let status_warnings = (if truthy ls_validationStatus \<and> ls_validationStatus \<noteq> PStr ''Checked''
       then [''Unrecognized validationStatus '' @ lsquo @ fmt uni ls_validationStatus @ rsquo
               @ '' in datum '' @ fmt uni datum_id] else []);
     (old_transcription, ls_utterance_too_long, utterance_warnings)
       \<leftarrow> datum_transcription uni datum_id ls_utterance;
     (morpheme_break, ls_morphemes_too_long, morphemes_warnings)
       \<leftarrow> datum_morphemes uni datum_id ls_morphemes;
     ls_phonetic \<leftarrow> get_val_from_datum_fields ''phonetic'' datum_fields;
     (phonetic_transcription, ls_phonetic_too_long, phonetic_warnings)
       \<leftarrow> datum_phonetic uni datum_id ls_phonetic;
     (grammaticality, judgement_warnings, judgement_comments)
       \<leftarrow> datum_grammaticality uni ls_judgement;
     (morpheme_gloss, ls_gloss_too_long, gloss_warnings) \<leftarrow> datum_gloss uni datum_id ls_gloss;
     let old_translation_transcription =
       (if truthy ls_translation then ls_translation else PStr PLACEHOLDER);
     (syntax, ls_syntacticTreeLatex_too_long, syntax_warnings)
       \<leftarrow> datum_syntax uni datum_id ls_syntacticTreeLatex;
     ls_modifiedByUser \<leftarrow> get_val_from_datum_fields ''modifiedByUser'' datum_fields;
     let metadata_comments = datum_metadata uni doc datum_id lingsync_db_name ls_enteredByUser
       ls_modifiedByUser date_datum_elicited_unparseable date_session_elicited;
     ls_comments \<leftarrow> get_val_from_datum_fields ''comments'' datum_fields;
     field_comments \<leftarrow> comments_of uni ts ls_comments;
     attr_comments \<leftarrow> comments_of uni ts (dict_get doc ''comments'');
     ls_notes \<leftarrow> get_val_from_datum_fields ''notes'' datum_fields;
     notes \<leftarrow> (if truthy ls_notes
       then map_option (\<lambda>p. [''LingSync notes: '' @ fmt uni p]) (punctuate_period_safe uni ls_notes)
       else Some []);
     ls_syntacticCategory \<leftarrow> get_val_from_datum_fields ''syntacticCategory'' datum_fields;
     errored \<leftarrow> datum_errored_data uni ls_utterance_too_long ls_utterance ls_morphemes_too_long
       ls_morphemes ls_phonetic_too_long ls_phonetic ls_gloss_too_long ls_gloss
       ls_syntacticCategory ls_syntacticTreeLatex_too_long ls_syntacticTreeLatex;
     let old_comments = strip (join nl2 (speaker_comments @ judgement_comments
       @ metadata_comments @ field_comments @ attr_comments @ notes @ errored));
     let old_tags = field_tags @ attr_tags @ status_tags;
     session_id \<leftarrow> (if truthy ls_session then map_option Some (py_item ls_session ''_id'')
                     else Some None);
     let f1 = dict_set old_schemata_form ''status'' (PStr ''tested'');
     let f2 = store ''date_elicited'' (map_option (\<lambda>t. PStr (date_string t)) date_elicited) f1;
     let f3 = dict_set f2 ''files'' (PList files);
     let f4 = store ''__lingsync_deleted''
                (if dict_get doc ''trashed'' = PStr ''deleted'' then Some (PBool True) else None) f3;
     let f5 = store ''speaker'' (case speakers of [] \<Rightarrow> None | sp # _ \<Rightarrow> Some sp) f4;
     let f6 = store ''elicitor''
                (if truthy ls_enteredByUser then Some (elicitor_of ls_enteredByUser) else None) f5;
     let f7 = dict_set f6 ''transcription'' old_transcription;
     let f8 = store ''morpheme_break'' morpheme_break f7;
     let f9 = store ''phonetic_transcription'' phonetic_transcription f8;
     let f10 = store ''grammaticality'' grammaticality f9;
     let f11 = store ''morpheme_gloss'' morpheme_gloss f10;
     let f12 = dict_set f11 ''translations''
                 (PList [PDict [(''transcription'', old_translation_transcription),
                                (''grammaticality'', PStr '''')]]);
     let f13 = store ''syntax'' syntax f12;
     let f14 = store ''date_entered''
                 (if truthy (dict_get doc ''dateEntered'')
                  then Some (dict_get doc ''dateEntered'') else None) f13;
     let f15 = store ''comments'' (if old_comments \<noteq> [] then Some (PStr old_comments) else None) f14;
     let f16 = dict_set f15 ''tags'' (PList old_tags);
     let f17 = store ''__lingsync_session_id'' session_id f16;
     Some \<lparr>
       originaldoc = doc, lingsync_type = ''datum'', old_resource = ''forms'',
       old_value = PDict (dict_set f17 ''__lingsync_datum_id'' datum_id),
       old_auxiliary_resources =
         (if files \<noteq> [] then [(''files'', files)] else [])
         @ (if speakers \<noteq> [] then [(''speakers'', speakers)] else [])
         @ (if truthy ls_enteredByUser then [(''users'', [elicitor_of ls_enteredByUser])] else [])
         @ (if old_tags \<noteq> [] then [(''tags'', old_tags)] else []),
       warnings_general = elicitor_warnings uni ls_enteredByUser @ judgement_warnings,
       warnings_docspecific =
         unknown_attrs datum_known_attrs
           ('' not a recognized attribute in datum '' @ fmt uni datum_id) doc
         @ label_warnings @ date_warnings @ file_warnings @ image_warnings
         @ field_tag_warnings @ attr_tag_warnings @ speaker_warnings @ status_warnings
         @ utterance_warnings @ morphemes_warnings @ phonetic_warnings @ gloss_warnings
         @ syntax_warnings,
       language = None \<rparr> }"

section \<open>Datalists\<close>

definition datalist_known_attrs :: "string list" where
  "datalist_known_attrs =
    [''_id'', ''_rev'', ''audioVideo'', ''collection'', ''comments'', ''dateCreated'',
     ''dateModified'', ''datumIds'', ''description'', ''pouchname'', ''timestamp'', ''title'']"

definition old_schemata_corpus :: pydict where
  "old_schemata_corpus =
    [(''name'', PStr ''''), (''description'', PStr ''''), (''content'', PStr ''''),
     (''tags'', PList []), (''form_search'', PNone)]"

definition datalist_name ::
  "(pyval \<Rightarrow> string) \<Rightarrow> pyval \<Rightarrow> pyval \<Rightarrow> (pyval \<times> string list) option" where
  "datalist_name uni datalist_id ls_title =
    (if \<not> truthy ls_title
     then Some (PStr (''Corpus from LingSync datalist '' @ fmt uni datalist_id),
        [''Datalist '' @ fmt uni datalist_id @ '' has no title value; the corpus generated''
           @ '' from it has '' @ dquote @ ''Corpus from LingSync datalist '' @ fmt uni datalist_id
           @ dquote @ '' as its name value.''])
     else do {
       n \<leftarrow> py_len ls_title;
       if 255 < n then do {
         t \<leftarrow> py_slice_to 255 ls_title;
         Some (t, [''The title '' @ dquote @ fmt uni ls_title @ dquote @ '' of datalist ''
                     @ fmt uni datalist_id @ '' is too long and will be truncated.'']) }
       else Some (ls_title, []) })"

definition process_lingsync_datalist ::
  "(pyval \<Rightarrow> string) \<Rightarrow> (pyval \<Rightarrow> string option) \<Rightarrow> pydict \<Rightarrow> oldobj option" where
  "process_lingsync_datalist uni ts doc = do {
     let datalist_id = dict_get doc ''_id'';
     let datalist_metadata = join '' ''
       ([''This corpus was generated from LingSync datalist '' @ fmt uni datalist_id @ ''.'']
        @ (if truthy (dict_get doc ''dateCreated'')
           then [''It was created in LingSync on '' @ fmt uni (dict_get doc ''dateCreated'') @ ''.'']
           else [])
        @ (if truthy (dict_get doc ''dateModified'')
           then [''It was last modified in LingSync on '' @ fmt uni (dict_get doc ''dateModified'')
                   @ ''.'']
           else []));
     processed_comments \<leftarrow> comments_of uni ts (dict_get doc ''comments'');
     old_description \<leftarrow> join_vals nl2
       ((if truthy (dict_get doc ''description'') then [dict_get doc ''description''] else [])
        @ [PStr datalist_metadata] @ map PStr processed_comments);
     (old_name, name_warnings) \<leftarrow> datalist_name uni datalist_id (dict_get doc ''title'');
     let c1 = store ''description''
                (if strip old_description \<noteq> [] then Some (PStr (strip old_description)) else None)
                old_schemata_corpus;
     let c2 = dict_set (dict_set c1 ''name'' old_name) ''__lingsync_datalist_id'' datalist_id;
     Some \<lparr>
       originaldoc = doc, lingsync_type = ''datalist'', old_resource = ''corpora'',
       old_value = PDict (dict_set c2 ''__lingsync_datalist_datum_ids''
                     (case map_of doc ''datumIds'' of None \<Rightarrow> PList [] | Some v \<Rightarrow> v)),
       old_auxiliary_resources = [],
       warnings_general = [],
       warnings_docspecific =
         unknown_attrs datalist_known_attrs
           ('' not a recognized attribute in datalist '' @ fmt uni datalist_id) doc
         @ name_warnings,
       language = None \<rparr> }"

section \<open>Consolidation of duplicates\<close>

text \<open>
  \<^verbatim>\<open>list(set(xs))\<close> lists the distinct elements of \<open>xs\<close> in the order in which the
  interpreter walks the hash table of the set. The functions below take that as the
  parameter \<open>set_list\<close>. A list or a dict cannot be a member of a set (TypeError).
\<close>

fun hashable :: "pyval \<Rightarrow> bool" where
  "hashable (PList xs) = False"
| "hashable (PDict d) = False"
| "hashable v = True"

text \<open>
  One attribute of the consolidated resource: the values of the attribute that are
  true, as a set; the first of the set, or the empty string; a warning about the
  others when there are any.
\<close>

definition consolidated_value ::
  "(pyval list \<Rightarrow> pyval list) \<Rightarrow> (pyval \<Rightarrow> string) \<Rightarrow> string \<Rightarrow> pyval list \<Rightarrow> string
     \<Rightarrow> (pyval \<times> string list) option" where
  "consolidated_value set_list uni what duplicates attr = do {
     items \<leftarrow> those (map (\<lambda>u. py_item u attr) duplicates);
     if filter (\<lambda>v. \<not> hashable v) (filter truthy items) \<noteq> [] then None
     else do {
       let vals = set_list (filter truthy items);
       let new_val = (case vals of [] \<Rightarrow> PStr '''' | v # _ \<Rightarrow> v);
       if 1 < length vals then do {
         discarded \<leftarrow> join_vals (rsquo @ '', '' @ lsquo) (tl vals);
         Some (new_val,
           [''Lost data when consolidating '' @ what @ '': we chose '' @ lsquo @ fmt uni new_val
              @ rsquo @ '' as the val for '' @ lsquo @ attr @ rsquo
              @ '' and the following values were discarded: '' @ lsquo @ discarded @ rsquo
              @ ''.'']) }
       else Some (new_val, []) } }"

fun consolidate_attrs ::
  "(pyval list \<Rightarrow> pyval list) \<Rightarrow> (pyval \<Rightarrow> string) \<Rightarrow> string \<Rightarrow> string list \<Rightarrow> pyval list
     \<Rightarrow> string list \<Rightarrow> (pydict \<times> string list) option" where
  "consolidate_attrs set_list uni what keys duplicates [] = Some ([], [])"
| "consolidate_attrs set_list uni what keys duplicates (attr # attrs) =
    (if attr \<in> set keys then do {
       first \<leftarrow> (case duplicates of [] \<Rightarrow> None | d # _ \<Rightarrow> Some d);
       v \<leftarrow> py_item first attr;
       (more, ws) \<leftarrow> consolidate_attrs set_list uni what keys duplicates attrs;
       Some ((attr, v) # more, ws) }
     else do {
       (v, w) \<leftarrow> consolidated_value set_list uni what duplicates attr;
       (more, ws) \<leftarrow> consolidate_attrs set_list uni what keys duplicates attrs;
       Some ((attr, v) # more, w @ ws) })"

text \<open>
  \<^verbatim>\<open>consolidate_users\<close> starts from the user name of the first duplicate and walks
  the attributes of that duplicate; \<^verbatim>\<open>consolidate_speakers\<close> walks the attributes of
  the speaker schema and copies the two names from the first duplicate.
\<close>

definition consolidate_users ::
  "(pyval list \<Rightarrow> pyval list) \<Rightarrow> (pyval \<Rightarrow> string) \<Rightarrow> pyval list \<Rightarrow> (pydict \<times> string list) option" where
  "consolidate_users set_list uni duplicates = (case duplicates of
      PDict first # _ \<Rightarrow> do {
        username \<leftarrow> dict_item first ''username'';
        (attrs, user_warnings) \<leftarrow> consolidate_attrs set_list uni ''users'' [] duplicates
          (filter (\<lambda>attr. attr \<noteq> ''username'') (map fst first));
        Some ((''username'', username) # attrs, user_warnings) }
    | _ \<Rightarrow> None)"

definition consolidate_speakers ::
  "(pyval list \<Rightarrow> pyval list) \<Rightarrow> (pyval \<Rightarrow> string) \<Rightarrow> pyval list \<Rightarrow> (pydict \<times> string list) option" where
  "consolidate_speakers set_list uni duplicates =
    consolidate_attrs set_list uni ''speakers'' [''first_name'', ''last_name''] duplicates
      (map fst old_schemata_speaker)"

text \<open>
  The loop over the staged resources of one type. \<open>key\<close> reads the natural key of a
  resource (a user name, the two names of a speaker), \<open>merge\<close> consolidates a group.
\<close>

fun consolidate_loop ::
  "(pyval \<Rightarrow> pyval option) \<Rightarrow> (pyval list \<Rightarrow> (pydict \<times> string list) option) \<Rightarrow> pyval list
     \<Rightarrow> pyval list \<Rightarrow> pyval list \<Rightarrow> (pyval list \<times> string list) option" where
  "consolidate_loop key merge resources [] processed = Some ([], [])"
| "consolidate_loop key merge resources (r # rest) processed =
    (if r \<in> set processed then consolidate_loop key merge resources rest processed
     else do {
       k \<leftarrow> key r;
       keys \<leftarrow> those (map key resources);
       let duplicates = map fst (filter (\<lambda>p. snd p = k) (zip resources keys));
       (new, ws) \<leftarrow> (if 1 < length duplicates
                      then map_option (\<lambda>p. (PDict (fst p), snd p)) (merge duplicates)
                      else Some (r, []));
       (more, ws') \<leftarrow> consolidate_loop key merge resources rest (processed @ duplicates);
       Some (new # more, ws @ ws') })"

definition speaker_key :: "pyval \<Rightarrow> pyval option" where
  "speaker_key s = do {
     first_name \<leftarrow> py_item s ''first_name'';
     last_name \<leftarrow> py_item s ''last_name'';
     Some (PList [first_name, last_name]) }"

text \<open>
  The tags of one name keep the first tag as it is; the joined description is computed
  for the warning only.
\<close>

definition consolidate_tags :: "(pyval \<Rightarrow> string) \<Rightarrow> pyval list \<Rightarrow> (pydict \<times> string list) option" where
  "consolidate_tags uni duplicates = (case duplicates of
      PDict tag # _ \<Rightarrow> do {
        name \<leftarrow> dict_item tag ''name'';
        description \<leftarrow> dict_item tag ''description'';
        descriptions \<leftarrow> those (map (\<lambda>t. py_item t ''description'') duplicates);
        new_description \<leftarrow> join_vals nl2 (filter truthy descriptions);
        Some (dict_set tag ''description'' description,
              (if PStr new_description \<noteq> description
               then [''Changed description of tag '' @ lsquo @ fmt uni name @ rsquo @ '' from ''
                       @ lsquo @ fmt uni description @ rsquo @ '' to '' @ lsquo @ new_description
                       @ rsquo]
               else [])) }
    | _ \<Rightarrow> None)"

text \<open>
  \<^verbatim>\<open>warnings['general'].add(warning)\<close> for each warning of a list: a KeyError when
  there is a warning and no general warning was recorded before.
\<close>

definition add_general :: "warnings \<Rightarrow> string list \<Rightarrow> warnings option" where
  "add_general w ws =
    (if ws = [] then Some w
     else (case w ''general'' of None \<Rightarrow> None | Some s \<Rightarrow> Some (w(''general'' \<mapsto> s \<union> set ws))))"

definition consolidate_type ::
  "string \<Rightarrow> (pyval \<Rightarrow> pyval option) \<Rightarrow> (pyval list \<Rightarrow> (pydict \<times> string list) option)
     \<Rightarrow> old_data \<times> warnings \<Rightarrow> (old_data \<times> warnings) option" where
  "consolidate_type name key merge st = (case st of (od, w) \<Rightarrow>
     (if 1 < length (setdefault_list od name) then do {
        (consolidated, ws) \<leftarrow>
          consolidate_loop key merge (setdefault_list od name) (setdefault_list od name) [];
        w' \<leftarrow> add_general w ws;
        Some (od(name \<mapsto> consolidated), w') }
      else Some (od, w)))"

definition consolidate_resources ::
  "(pyval list \<Rightarrow> pyval list) \<Rightarrow> (pyval \<Rightarrow> string) \<Rightarrow> old_data \<Rightarrow> warnings
     \<Rightarrow> (old_data \<times> warnings) option" where
  "consolidate_resources set_list uni old_data warnings = do {
     st1 \<leftarrow> consolidate_type ''users'' (\<lambda>u. py_item u ''username'')
              (consolidate_users set_list uni) (old_data, warnings);
     st2 \<leftarrow> consolidate_type ''speakers'' speaker_key (consolidate_speakers set_list uni) st1;
     consolidate_type ''tags'' (\<lambda>t. py_item t ''name'') (consolidate_tags uni) st2 }"

section \<open>The order of a set in CPython 2.7\<close>

text \<open>
  The source is Python 2. Without hash randomization (the default of Python 2.7) the
  hash of a unicode string is computed from its code points in machine words of 64
  bits, a set is an open-addressing hash table of 8 slots that grows when two thirds
  are used, and \<^verbatim>\<open>list(s)\<close> walks the table from slot 0.
\<close>

unbundle bit_operations_syntax

definition py2_string_hash :: "string \<Rightarrow> 64 word" where
  "py2_string_hash s =
    (if s = [] then 0
     else let x = foldl (\<lambda>x c. (1000003 * x) XOR of_char c) (push_bit 7 (of_char (hd s))) s;
              y = x XOR of_nat (length s)
          in if y = - 1 then - 2 else y)"

type_synonym slot = "(64 word \<times> string) option"

text \<open>
  \<^verbatim>\<open>set_lookkey\<close>: the slot of a key, or the free slot where it goes. The probe
  sequence visits every slot once the perturbation has run out, so it ends on a table
  that is never full; \<open>fuel\<close> bounds the walk.
\<close>

fun probe :: "nat \<Rightarrow> slot list \<Rightarrow> 64 word \<Rightarrow> 64 word \<Rightarrow> 64 word \<times> string \<Rightarrow> nat option" where
  "probe 0 table i perturb entry = None"
| "probe (Suc fuel) table i perturb entry =
    (let j = nat (uint i mod int (length table)) in
     case table ! j of
       None \<Rightarrow> Some j
     | Some e \<Rightarrow> if e = entry then Some j
                 else probe fuel table (5 * i + perturb + 1) (drop_bit 5 perturb) entry)"

definition set_insert :: "slot list \<Rightarrow> 64 word \<times> string \<Rightarrow> slot list option" where
  "set_insert table entry =
    map_option (\<lambda>j. table[j := Some entry])
      (probe (length table + 64) table (fst entry) (fst entry) entry)"

fun set_insert_all :: "slot list \<Rightarrow> (64 word \<times> string) list \<Rightarrow> slot list option" where
  "set_insert_all table [] = Some table"
| "set_insert_all table (e # es) = Option.bind (set_insert table e) (\<lambda>t. set_insert_all t es)"

function new_size :: "nat \<Rightarrow> nat \<Rightarrow> nat" where
  "new_size n minused = (if 0 < n \<and> n \<le> minused then new_size (2 * n) minused else n)"
  by pat_completeness auto
termination
  by (relation "measure (\<lambda>(n, minused). Suc minused - n)") auto

declare new_size.simps [simp del]

definition used :: "slot list \<Rightarrow> nat" where
  "used table = length (filter (\<lambda>e. e \<noteq> None) table)"

text \<open>\<^verbatim>\<open>set_add_key\<close>, with the resize to four times the number of keys.\<close>

definition set_add_key :: "slot list \<Rightarrow> string \<Rightarrow> slot list option" where
  "set_add_key table key = do {
     t \<leftarrow> set_insert table (py2_string_hash key, key);
     if used table < used t \<and> 2 * length t \<le> 3 * used t
     then set_insert_all (replicate (new_size 8 (4 * used t)) None) (List.map_filter id t)
     else Some t }"

fun set_add_keys :: "slot list \<Rightarrow> string list \<Rightarrow> slot list option" where
  "set_add_keys table [] = Some table"
| "set_add_keys table (k # ks) = Option.bind (set_add_key table k) (\<lambda>t. set_add_keys t ks)"

definition py2_set_strings :: "string list \<Rightarrow> string list option" where
  "py2_set_strings xs =
    map_option (\<lambda>t. map snd (List.map_filter id t)) (set_add_keys (replicate 8 None) xs)"

text \<open>
  \<^verbatim>\<open>list(set(xs))\<close> for a list of strings. The hash of the other types is not
  modelled: a list with a member that is no string is returned in the order of first
  occurrence.
\<close>

definition py2_set_list :: "pyval list \<Rightarrow> pyval list" where
  "py2_set_list xs = (case the_strings xs of
      None \<Rightarrow> remdups xs
    | Some ss \<Rightarrow> (case py2_set_strings ss of None \<Rightarrow> remdups xs | Some l \<Rightarrow> map PStr l))"

text \<open>
  What the uses of \<^verbatim>\<open>list(set(xs))\<close> rely on: the result lists the members of
  \<open>xs\<close>, each once.
\<close>

definition enumerates :: "(pyval list \<Rightarrow> pyval list) \<Rightarrow> pyval list \<Rightarrow> bool" where
  "enumerates set_list xs = (set (set_list xs) = set xs \<and> distinct (set_list xs))"

section \<open>The conversion run\<close>

definition old_schemata_applicationsettings :: pydict where
  "old_schemata_applicationsettings =
    [(''id'', PNone), (''object_language_name'', PStr ''''), (''object_language_id'', PStr ''''),
     (''metalanguage_name'', PStr ''''), (''metalanguage_id'', PStr ''''),
     (''metalanguage_inventory'', PStr ''''), (''orthographic_validation'', PStr ''None''),
     (''narrow_phonetic_inventory'', PStr ''''), (''narrow_phonetic_validation'', PStr ''None''),
     (''broad_phonetic_inventory'', PStr ''''), (''broad_phonetic_validation'', PStr ''None''),
     (''morpheme_break_is_orthographic'', PBool False),
     (''morpheme_break_validation'', PStr ''None''), (''phonemic_inventory'', PStr ''''),
     (''morpheme_delimiters'', PStr ''''), (''punctuation'', PStr ''''),
     (''grammaticalities'', PStr ''''), (''storage_orthography'', PNone),
     (''input_orthography'', PNone), (''output_orthography'', PNone),
     (''unrestricted_users'', PList [])]"

text \<open>
  \<^verbatim>\<open>get_old_application_settings\<close>. \<open>languages\<close> is the set of the languages of the
  sessions, in the order in which they were added. The loop over
  \<^verbatim>\<open>old_data.get('forms')\<close> raises when no form was staged.
\<close>

definition get_old_application_settings ::
  "(pyval list \<Rightarrow> pyval list) \<Rightarrow> (pyval \<Rightarrow> string) \<Rightarrow> old_data \<Rightarrow> pyval list \<Rightarrow> warnings
     \<Rightarrow> (pydict \<times> warnings) option" where
  "get_old_application_settings set_list uni old_data languages warnings = do {
     (appset, w) \<leftarrow> (case set_list languages of
         [] \<Rightarrow> Some (old_schemata_applicationsettings, warnings)
       | l # ls \<Rightarrow> do {
           w \<leftarrow> (if ls \<noteq> [] then do {
                  listed \<leftarrow> join_vals (rsquo @ '', '' @ lsquo) (l # ls);
                  add_general warnings
                    [''Arbitrarily chose '' @ lsquo @ fmt uni l @ rsquo @ '' as the''
                       @ '' OLD object language when the following languages were listed''
                       @ '' in the LingSync corpus: '' @ lsquo @ listed @ rsquo @ ''.''] }
                else Some warnings);
           Some (dict_set old_schemata_applicationsettings ''object_language_name'' l, w) });
     forms \<leftarrow> old_data ''forms'';
     gs \<leftarrow> those (map (\<lambda>form. py_get_default form ''grammaticality'' (PStr '''')) forms);
     if filter (\<lambda>g. \<not> hashable g) gs \<noteq> [] then None
     else do {
       grammaticalities \<leftarrow> join_vals '','' (filter truthy (set_list gs));
       Some (dict_set appset ''grammaticalities'' (PStr grammaticalities), w) } }"

text \<open>
  \<^verbatim>\<open>get_collection_for_lingsync_doc\<close>: the \<^verbatim>\<open>collection\<close> attribute, or the
  collection that goes with the \<^verbatim>\<open>fieldDBtype\<close> attribute.
\<close>

definition get_collection_for_lingsync_doc :: "pyval \<Rightarrow> pyval option" where
  "get_collection_for_lingsync_doc doc = do {
     collection \<leftarrow> py_get doc ''collection'';
     if truthy collection then Some collection
     else do {
       fieldDBtype \<leftarrow> py_get doc ''fieldDBtype'';
       if truthy fieldDBtype then
         (if \<not> hashable fieldDBtype then None
          else Some (if fieldDBtype = PStr ''Session'' then PStr ''sessions''
                     else if fieldDBtype = PStr ''Corpus'' then PStr ''private_corpuses''
                     else if fieldDBtype = PStr ''Datum'' then PStr ''datums''
                     else PNone))
       else Some collection } }"

text \<open>
  The documents of one collection among the rows, in the order of the rows:
  \<^verbatim>\<open>r.get('doc', {})\<close> is classified, and \<^verbatim>\<open>r['doc']\<close> is converted.
\<close>

fun docs_of :: "string \<Rightarrow> pyval list \<Rightarrow> pydict list option" where
  "docs_of name [] = Some []"
| "docs_of name (r # rows) = do {
     doc \<leftarrow> py_get_default r ''doc'' (PDict []);
     c \<leftarrow> get_collection_for_lingsync_doc doc;
     rest \<leftarrow> docs_of name rows;
     Some (if c = PStr name then (case doc of PDict d \<Rightarrow> d # rest | _ \<Rightarrow> rest) else rest) }"

text \<open>
  The loop over the sessions. A session for which \<^verbatim>\<open>process_lingsync_session\<close>
  returns \<^verbatim>\<open>None\<close> is passed over by \<^verbatim>\<open>if old_object:\<close>, and the loop goes on.
\<close>

fun sessions_loop ::
  "(pyval \<Rightarrow> string) \<Rightarrow> pydict list \<Rightarrow> old_data \<times> warnings \<times> pyval list
     \<Rightarrow> (old_data \<times> warnings \<times> pyval list) option" where
  "sessions_loop uni [] st = Some st"
| "sessions_loop uni (doc # docs) st = (case st of (old_data, warnings, languages) \<Rightarrow> do {
     result \<leftarrow> process_lingsync_session uni doc;
     (case result of
        None \<Rightarrow> sessions_loop uni docs st
      | Some old_object \<Rightarrow> do {
          (old_data', warnings') \<leftarrow> update_state uni old_object old_data warnings;
          languages' \<leftarrow> (case language old_object of
              None \<Rightarrow> Some languages
            | Some l \<Rightarrow> (if hashable l then Some (append_new languages l) else None));
          sessions_loop uni docs (old_data', warnings', languages') }) })"

text \<open>
  The loops over the datums, the users and the datalists fold every result. The call
  for a datum reads \<^verbatim>\<open>old_data['collections']\<close>: a KeyError when no session was
  staged.
\<close>

fun fold_results ::
  "(pyval \<Rightarrow> string) \<Rightarrow> (old_data \<Rightarrow> pydict \<Rightarrow> oldobj option) \<Rightarrow> pydict list \<Rightarrow> old_data \<times> warnings
     \<Rightarrow> (old_data \<times> warnings) option" where
  "fold_results uni convert [] st = Some st"
| "fold_results uni convert (doc # docs) st = (case st of (old_data, warnings) \<Rightarrow> do {
     old_object \<leftarrow> convert old_data doc;
     st' \<leftarrow> update_state uni old_object old_data warnings;
     fold_results uni convert docs st' })"

text \<open>
  \<^verbatim>\<open>lingsync2old\<close>, from the rows of the downloaded file to the staged data that is
  written to disk. The download of media files talks to the operator and to the
  network; it runs only when a file was staged and is the parameter \<open>download\<close>.
\<close>

definition lingsync2old ::
  "(pyval list \<Rightarrow> pyval list) \<Rightarrow> (pyval \<Rightarrow> string) \<Rightarrow> (pyval \<Rightarrow> string option) \<Rightarrow> (pyval \<Rightarrow> pyval option)
     \<Rightarrow> (old_data \<Rightarrow> warnings \<Rightarrow> (old_data \<times> warnings) option)
     \<Rightarrow> pyval list \<Rightarrow> string \<Rightarrow> (old_data \<times> warnings) option" where
  "lingsync2old set_list uni ts guess download rows lingsync_db_name = do {
     sessions \<leftarrow> docs_of ''sessions'' rows;
     (od1, w1, languages) \<leftarrow> sessions_loop uni sessions (Map.empty, Map.empty, []);
     datums \<leftarrow> docs_of ''datums'' rows;
     st2 \<leftarrow> fold_results uni
       (\<lambda>old_data doc. Option.bind (old_data ''collections'')
          (\<lambda>collections. process_lingsync_datum uni ts guess doc collections lingsync_db_name))
       datums (od1, w1);
     users \<leftarrow> docs_of ''users'' rows;
     st3 \<leftarrow> fold_results uni (\<lambda>old_data doc. process_lingsync_user uni doc) users st2;
     datalists \<leftarrow> docs_of ''datalists'' rows;
     (od4, w4) \<leftarrow> fold_results uni (\<lambda>old_data doc. process_lingsync_datalist uni ts doc)
       datalists st3;
     (od5, w5) \<leftarrow> consolidate_resources set_list uni od4 w4;
     (old_application_settings, w6) \<leftarrow>
       get_old_application_settings set_list uni od5 languages w5;
     let od6 = od5(''applicationsettings'' \<mapsto> [PDict old_application_settings]);
     if setdefault_list od6 ''files'' = [] then Some (od6, w6) else download od6 w6 }"

section \<open>The upload\<close>

text \<open>
  The destination is reached through the client \<^verbatim>\<open>c\<close> only. A run of the uploader is
  modelled against a server that answers every request from the requests issued so
  far; the trace of requests is threaded through every function. A call of the client
  returns the decoded answer, or raises \<^verbatim>\<open>SSLError\<close>.
  A function ends with a result, with \<^verbatim>\<open>sys.exit(message)\<close>, or with an exception that
  nothing catches; a comparison that Python 2 decides between values of different
  types is outside the model.
\<close>

datatype request =
    Get string
  | Create string pyval
  | CreateUnverified string pyval
  | Update string pyval
  | Delete string

datatype reply = Reply pyval | SSLError

datatype abort = Exit string | Crash | Unmodelled

type_synonym trace = "request list"
type_synonym server = "trace \<Rightarrow> request \<Rightarrow> reply"
type_synonym 'a run = "(abort + 'a) \<times> trace"

definition andthen :: "'a run \<Rightarrow> ('a \<Rightarrow> trace \<Rightarrow> 'b run) \<Rightarrow> 'b run" where
  "andthen m k = (case m of (Inl a, tr) \<Rightarrow> (Inl a, tr) | (Inr x, tr) \<Rightarrow> k x tr)"

definition orcrash :: "'a option \<Rightarrow> trace \<Rightarrow> 'a run" where
  "orcrash v tr = (case v of None \<Rightarrow> (Inl Crash, tr) | Some x \<Rightarrow> (Inr x, tr))"

text \<open>A call of the client where an \<^verbatim>\<open>SSLError\<close> is not caught.\<close>

definition send :: "server \<Rightarrow> request \<Rightarrow> trace \<Rightarrow> pyval run" where
  "send srv req tr = (case srv tr req of
      Reply v \<Rightarrow> (Inr v, tr @ [req])
    | SSLError \<Rightarrow> (Inl Crash, tr @ [req]))"

text \<open>\<^verbatim>\<open>assert r.get('id')\<close> inside \<^verbatim>\<open>try\<close>: whether the answer carries an identifier.\<close>

definition has_id :: "pyval \<Rightarrow> bool" where
  "has_id r = (case r of PDict d \<Rightarrow> truthy (dict_get d ''id'') | _ \<Rightarrow> False)"

definition id_of :: "pyval \<Rightarrow> pyval" where
  "id_of r = (case r of PDict d \<Rightarrow> dict_get d ''id'' | _ \<Rightarrow> PNone)"

text \<open>
  The relational map: for each resource type, the identifiers that the destination
  assigned, under the keys of the source.
\<close>

record relational_map =
  rm_users :: "pyval \<Rightarrow> pyval option"
  rm_speakers :: "pyval \<Rightarrow> pyval option"
  rm_tags :: "pyval \<Rightarrow> pyval option"
  rm_files :: "pyval \<Rightarrow> pyval option"
  rm_forms :: "pyval \<Rightarrow> pyval option"
  rm_corpora :: "pyval \<Rightarrow> pyval option"
  rm_collections :: "pyval \<Rightarrow> pyval option"

definition empty_map :: relational_map where
  "empty_map = \<lparr> rm_users = Map.empty, rm_speakers = Map.empty, rm_tags = Map.empty,
     rm_files = Map.empty, rm_forms = Map.empty, rm_corpora = Map.empty,
     rm_collections = Map.empty \<rparr>"

text \<open>\<^verbatim>\<open>m.get(k)\<close> and \<^verbatim>\<open>m[k] = v\<close> on one of these dicts: the key has to be hashable.\<close>

definition rm_get :: "(pyval \<Rightarrow> pyval option) \<Rightarrow> pyval \<Rightarrow> pyval option" where
  "rm_get m k = (if hashable k then Some (case m k of None \<Rightarrow> PNone | Some v \<Rightarrow> v) else None)"

definition rm_set :: "(pyval \<Rightarrow> pyval option) \<Rightarrow> pyval \<Rightarrow> pyval \<Rightarrow> (pyval \<Rightarrow> pyval option) option" where
  "rm_set m k v = (if hashable k then Some (m(k \<mapsto> v)) else None)"

subsection \<open>Application settings\<close>

text \<open>\<^verbatim>\<open>s.split(u',')\<close>.\<close>

fun split_on :: "char \<Rightarrow> string \<Rightarrow> string \<Rightarrow> string list" where
  "split_on sep cur [] = [cur]"
| "split_on sep cur (c # cs) =
    (if c = sep then cur # split_on sep [] cs else split_on sep (cur @ [c]) cs)"

definition py_str :: "pyval \<Rightarrow> string option" where
  "py_str v = (case v of PStr s \<Rightarrow> Some s | _ \<Rightarrow> None)"

text \<open>
  The answer to the creation of the application settings is checked for the name of
  the object language, not for an identifier.
\<close>

definition create_old_application_settings :: "server \<Rightarrow> old_data \<Rightarrow> trace \<Rightarrow> unit run" where
  "create_old_application_settings srv old_data tr0 =
    andthen (orcrash (case old_data ''applicationsettings'' of
                        Some (PDict a # _) \<Rightarrow> Some a | _ \<Rightarrow> None) tr0) (\<lambda>appsett tr1.
    andthen (send srv (Get ''applicationsettings'') tr1) (\<lambda>existing tr2.
    andthen (orcrash (case existing of
                        PList xs \<Rightarrow> (if xs = [] then None
                                      else (case last xs of PDict e \<Rightarrow> Some e | _ \<Rightarrow> None))
                      | _ \<Rightarrow> None) tr2) (\<lambda>existing_appsett tr3.
    andthen (orcrash (py_str (case map_of existing_appsett ''grammaticalities'' of
                                None \<Rightarrow> PStr '''' | Some v \<Rightarrow> v)) tr3)
      (\<lambda>existing_grammaticalities tr4.
    andthen (orcrash (py_str (case map_of appsett ''grammaticalities'' of
                                None \<Rightarrow> PStr '''' | Some v \<Rightarrow> v)) tr4)
      (\<lambda>to_add_grammaticalities tr5.
    andthen (orcrash (dict_item appsett ''object_language_name'') tr5) (\<lambda>object_language_name tr6.
    andthen (send srv (Create ''applicationsettings''
               (PDict (dict_set (dict_set existing_appsett ''grammaticalities''
                  (PStr (if set (split_on CHR '','' [] to_add_grammaticalities)
                            \<subseteq> set (split_on CHR '','' [] existing_grammaticalities)
                         then join '','' (split_on CHR '','' [] existing_grammaticalities)
                         else join '','' (split_on CHR '','' [] to_add_grammaticalities))))
                  ''object_language_name'' object_language_name))) tr6) (\<lambda>r tr7.
      if py_item r ''object_language_name'' = Some object_language_name
      then (Inr (), tr7)
      else (Inl (Exit (''Something went wrong when attempting to create an OLD''
              @ '' application settings using the LingSync data. Aborting.'')), tr7))))))))"

subsection \<open>Users\<close>

definition DEFAULT_PASSWORD :: string where
  "DEFAULT_PASSWORD = ''password9_B''"

text \<open>\<^verbatim>\<open>\w\<close> of a pattern compiled without flags: the ASCII letters, digits and underscore.\<close>

definition word_char :: "char \<Rightarrow> bool" where
  "word_char c = ((CHR ''a'' \<le> c \<and> c \<le> CHR ''z'') \<or> (CHR ''A'' \<le> c \<and> c \<le> CHR ''Z'')
      \<or> (CHR ''0'' \<le> c \<and> c \<le> CHR ''9'') \<or> c = CHR ''_'')"

text \<open>
  The existing resource that a staged one matches, merged with the staged one when
  the operator chose to overwrite. A user keeps its password.
\<close>

definition merged_user :: "pydict \<Rightarrow> pydict \<Rightarrow> pydict option" where
  "merged_user user counterpart = do {
     username \<leftarrow> dict_item counterpart ''username'';
     first_name \<leftarrow> dict_item user ''first_name'';
     last_name \<leftarrow> dict_item user ''last_name'';
     email \<leftarrow> dict_item user ''email'';
     affiliation \<leftarrow> dict_item user ''affiliation'';
     role \<leftarrow> dict_item user ''role'';
     page_content \<leftarrow> dict_item user ''page_content'';
     let c1 = (if first_name \<noteq> username then dict_set counterpart ''first_name'' first_name
               else counterpart);
     let c2 = (if last_name \<noteq> username then dict_set c1 ''last_name'' last_name else c1);
     let c3 = (if email \<noteq> PStr FAKE_EMAIL then dict_set c2 ''email'' email else c2);
     let c4 = (if truthy affiliation then dict_set c3 ''affiliation'' affiliation else c3);
     let c5 = dict_set c4 ''role'' role;
     let c6 = (if truthy page_content then dict_set c5 ''page_content'' page_content else c5);
     Some (dict_set (dict_set c6 ''password'' (PStr '''')) ''password_confirm'' (PStr '''')) }"

text \<open>
  A staged user that the destination does not have gets the default password, and a
  user name made of the word characters of its own when it has others; a user name
  without any word character ends the run.
\<close>

definition new_user :: "pydict \<Rightarrow> (string + pydict) option" where
  "new_user user = do {
     username \<leftarrow> dict_item user ''username'';
     name \<leftarrow> py_str username;
     let u = dict_set (dict_set user ''password'' (PStr DEFAULT_PASSWORD))
               ''password_confirm'' (PStr DEFAULT_PASSWORD);
     Some (if filter (\<lambda>c. \<not> word_char c) name \<noteq> []
           then (if filter word_char name \<noteq> []
                 then Inr (dict_set (dict_set u ''__original_username'' username)
                             ''username'' (PStr (filter word_char name)))
                 else Inl (''Error: unable to create a valid OLD username for LingSync user''
                             @ '' with username '' @ name @ ''.''))
           else Inr u) }"

text \<open>
  The loop that sorts the staged users into those to create and those to update, and
  maps the others to the identifier of the existing user.
\<close>

fun sort_users ::
  "bool \<Rightarrow> pyval list \<Rightarrow> pyval list \<Rightarrow> (pyval \<Rightarrow> pyval option)
     \<Rightarrow> (abort + (pyval list \<times> pyval list \<times> (pyval \<Rightarrow> pyval option)))" where
  "sort_users overwrite existing_users [] m = Inr ([], [], m)"
| "sort_users overwrite existing_users (user # users) m =
    (case user of
       PDict u \<Rightarrow>
         (case dict_item u ''username'' of
            None \<Rightarrow> Inl Crash
          | Some username \<Rightarrow>
              (case those (map (\<lambda>e. py_get e ''username'') existing_users) of
                 None \<Rightarrow> Inl Crash
               | Some names \<Rightarrow>
                  (if username \<in> set (filter truthy names) then
                     (case those (map (\<lambda>e. py_item e ''username'') existing_users) of
                        None \<Rightarrow> Inl Crash
                      | Some keys \<Rightarrow>
                         (case map fst (filter (\<lambda>p. snd p = username) (zip existing_users keys)) of
                            PDict counterpart_original # _ \<Rightarrow>
                              (if overwrite then
                                 (case merged_user u counterpart_original of
                                    None \<Rightarrow> Inl Crash
                                  | Some counterpart \<Rightarrow>
                                     (case sort_users overwrite existing_users users m of
                                        Inl a \<Rightarrow> Inl a
                                      | Inr (cs, us, m') \<Rightarrow> Inr (cs, PDict counterpart # us, m')))
                               else
                                 (case Option.bind (dict_item counterpart_original ''id'')
                                         (rm_set m username) of
                                    None \<Rightarrow> Inl Crash
                                  | Some m1 \<Rightarrow> sort_users overwrite existing_users users m1))
                          | _ \<Rightarrow> Inl Crash))
                   else
                     (case new_user u of
                        None \<Rightarrow> Inl Crash
                      | Some (Inl msg) \<Rightarrow> Inl (Exit msg)
                      | Some (Inr u') \<Rightarrow>
                         (case sort_users overwrite existing_users users m of
                            Inl a \<Rightarrow> Inl a
                          | Inr (cs, us, m') \<Rightarrow> Inr (PDict u' # cs, us, m'))))))
     | _ \<Rightarrow> Inl Crash)"
definition ANSI_FAIL :: string where "ANSI_FAIL = [CHR 0x1B] @ ''[91m''"
definition ANSI_ENDC :: string where "ANSI_ENDC = [CHR 0x1B] @ ''[0m''"

definition failure :: "string \<Rightarrow> abort" where
  "failure msg = Exit (ANSI_FAIL @ msg @ ANSI_ENDC)"

text \<open>
  The creation requests for the users. Everything after the request stands inside
  \<^verbatim>\<open>try\<close>, and its handler leaves with \<^verbatim>\<open>sys.exit\<close>.
\<close>

fun create_users ::
  "(pyval \<Rightarrow> string) \<Rightarrow> server \<Rightarrow> pyval list \<Rightarrow> (pyval \<Rightarrow> pyval option) \<times> pyval list \<Rightarrow> trace
     \<Rightarrow> ((pyval \<Rightarrow> pyval option) \<times> pyval list) run" where
  "create_users uni srv [] st tr = (Inr st, tr)"
| "create_users uni srv (user # users) st tr =
    andthen (send srv (Create ''users'' user) tr) (\<lambda>r tr'.
      (case (if has_id r
             then Option.bind (py_get user ''__original_username'') (\<lambda>original.
                  Option.bind (if truthy original then Some original else py_item user ''username'')
                    (\<lambda>key. map_option (\<lambda>m. (m, snd st @ [key])) (rm_set (fst st) key (id_of r))))
             else None) of
         Some st' \<Rightarrow> create_users uni srv users st' tr'
       | None \<Rightarrow> (case py_item user ''username'' of
           None \<Rightarrow> (Inl Crash, tr')
         | Some n \<Rightarrow> (Inl (failure (''Failed to create an OLD user with username '' @ lsquo
             @ fmt uni n @ rsquo @ ''. Aborting.'')), tr'))))"

definition not_new :: string where
  "not_new = ''The update request failed because the submitted data were not new.''"

text \<open>
  The update requests for the users. The handler of a failed update calls \<^verbatim>\<open>p\<close>, which
  in this function is the compiled pattern, or unbound: an exception.
\<close>

fun update_users ::
  "(pyval \<Rightarrow> string) \<Rightarrow> server \<Rightarrow> pyval list \<Rightarrow> (pyval \<Rightarrow> pyval option) \<times> pyval list \<Rightarrow> trace
     \<Rightarrow> ((pyval \<Rightarrow> pyval option) \<times> pyval list) run" where
  "update_users uni srv [] st tr = (Inr st, tr)"
| "update_users uni srv (user # users) st tr =
    andthen (orcrash (py_item user ''id'') tr) (\<lambda>user_id tr1.
    andthen (send srv (Update (''users/'' @ fmt uni user_id) user) tr1) (\<lambda>r tr2.
    andthen (orcrash (py_item user ''username'') tr2) (\<lambda>username tr3.
    andthen (orcrash (py_get r ''error'') tr3) (\<lambda>error tr4.
      if error = PStr not_new \<or> has_id r
      then andthen (orcrash (rm_set (fst st) username user_id) tr4) (\<lambda>m tr5.
             update_users uni srv users (m, snd st @ [username]) tr5)
      else (Inl Crash, tr4)))))"

text \<open>
  The answer of the operator to the question whether existing users (speakers) are to
  be updated is the parameter \<open>answer\<close>; the question is asked only when a staged
  resource exists at the destination.
\<close>

definition create_old_users ::
  "(pyval \<Rightarrow> string) \<Rightarrow> server \<Rightarrow> string \<Rightarrow> old_data \<Rightarrow> relational_map \<Rightarrow> trace
     \<Rightarrow> (relational_map \<times> pyval list \<times> pyval list) run" where
  "create_old_users uni srv answer old_data rm tr0 =
    (if setdefault_list old_data ''users'' = [] then (Inr (rm, [], []), tr0)
     else
       andthen (orcrash (those (map (\<lambda>u. py_item u ''username'') (setdefault_list old_data ''users''))) tr0)
         (\<lambda>usernames tr1.
       andthen (send srv (Get ''users'') tr1) (\<lambda>existing tr2.
       andthen (orcrash (Option.bind (py_iter existing) (\<lambda>es.
                  Option.bind (those (map (\<lambda>e. py_get e ''username'') es)) (\<lambda>names.
                    if filter (\<lambda>n. \<not> hashable n) (filter truthy names @ usernames) \<noteq> [] then None
                    else Some (es, filter truthy names)))) tr2) (\<lambda>(existing_users, existing_usernames) tr3.
       (case sort_users
               (filter (\<lambda>n. n \<in> set existing_usernames) usernames \<noteq> [] \<and> answer \<in> set [''y'', ''Y''])
               existing_users (setdefault_list old_data ''users'') (rm_users rm) of
          Inl a \<Rightarrow> (Inl a, tr3)
        | Inr (users_to_create, users_to_update, m) \<Rightarrow>
            andthen (create_users uni srv users_to_create (m, []) tr3) (\<lambda>(m1, created) tr4.
            andthen (update_users uni srv users_to_update (m1, []) tr4) (\<lambda>(m2, updated) tr5.
              (Inr (rm \<lparr> rm_users := m2 \<rparr>, created, updated), tr5))))))))"

subsection \<open>Speakers\<close>

definition speaker_name :: "(pyval \<Rightarrow> string) \<Rightarrow> pyval \<Rightarrow> pyval option" where
  "speaker_name uni s = do {
     first_name \<leftarrow> py_item s ''first_name'';
     last_name \<leftarrow> py_item s ''last_name'';
     Some (PStr (fmt uni first_name @ '' '' @ fmt uni last_name)) }"

definition merged_speaker :: "pydict \<Rightarrow> pydict \<Rightarrow> pydict option" where
  "merged_speaker speaker counterpart = do {
     dialect \<leftarrow> dict_item speaker ''dialect'';
     old_dialect \<leftarrow> dict_item counterpart ''dialect'';
     page_content \<leftarrow> dict_item speaker ''page_content'';
     let c1 = (if dialect \<noteq> old_dialect then dict_set counterpart ''dialect'' dialect
               else counterpart);
     if truthy page_content then do {
       old_content \<leftarrow> dict_item c1 ''page_content'';
       Some (if page_content \<noteq> old_content then dict_set c1 ''page_content'' page_content else c1) }
     else Some c1 }"

fun sort_speakers ::
  "(pyval \<Rightarrow> string) \<Rightarrow> bool \<Rightarrow> pyval list \<Rightarrow> pyval list \<Rightarrow> pyval list \<Rightarrow> (pyval \<Rightarrow> pyval option)
     \<Rightarrow> (pyval list \<times> pyval list \<times> (pyval \<Rightarrow> pyval option)) option" where
  "sort_speakers uni overwrite existing_speakers existing_names [] m = Some ([], [], m)"
| "sort_speakers uni overwrite existing_speakers existing_names (speaker # speakers) m = do {
     name \<leftarrow> speaker_key speaker;
     if name \<in> set existing_names then
       (case map fst (filter (\<lambda>p. snd p = name) (zip existing_speakers existing_names)) of
          PDict counterpart_original # _ \<Rightarrow>
            (if overwrite then do {
               counterpart \<leftarrow> (case speaker of PDict s \<Rightarrow> merged_speaker s counterpart_original
                                | _ \<Rightarrow> None);
               (cs, us, m') \<leftarrow> sort_speakers uni overwrite existing_speakers existing_names speakers m;
               Some (cs, (if counterpart_original \<noteq> counterpart then [PDict counterpart] else []) @ us, m') }
             else do {
               key \<leftarrow> speaker_name uni (PDict counterpart_original);
               i \<leftarrow> dict_item counterpart_original ''id'';
               m1 \<leftarrow> rm_set m key i;
               sort_speakers uni overwrite existing_speakers existing_names speakers m1 })
        | _ \<Rightarrow> None)
     else do {
       (cs, us, m') \<leftarrow> sort_speakers uni overwrite existing_speakers existing_names speakers m;
       Some (speaker # cs, us, m') } }"

fun create_speakers ::
  "(pyval \<Rightarrow> string) \<Rightarrow> server \<Rightarrow> pyval list \<Rightarrow> (pyval \<Rightarrow> pyval option) \<times> pyval list \<Rightarrow> trace
     \<Rightarrow> ((pyval \<Rightarrow> pyval option) \<times> pyval list) run" where
  "create_speakers uni srv [] st tr = (Inr st, tr)"
| "create_speakers uni srv (speaker # speakers) st tr =
    andthen (send srv (Create ''speakers'' speaker) tr) (\<lambda>r tr1.
    andthen (orcrash (speaker_name uni speaker) tr1) (\<lambda>key tr2.
      (case (if has_id r then rm_set (fst st) key (id_of r) else None) of
         Some m \<Rightarrow> create_speakers uni srv speakers (m, snd st @ [id_of r]) tr2
       | None \<Rightarrow> (Inl (failure (''Failed to create an OLD speaker '' @ lsquo @ fmt uni key @ rsquo
                     @ ''. Aborting.'')), tr2))))"

text \<open>
  The update requests for the speakers. The loop first records \<^verbatim>\<open>r['id']\<close>, with the
  \<^verbatim>\<open>r\<close> of the request before (\<open>last_id\<close>; unbound when no request was made), and its
  failure handler reads a key that a speaker does not have.
\<close>

fun update_speakers ::
  "(pyval \<Rightarrow> string) \<Rightarrow> server \<Rightarrow> pyval list \<Rightarrow> pyval option \<Rightarrow> (pyval \<Rightarrow> pyval option) \<times> pyval list
     \<Rightarrow> trace \<Rightarrow> ((pyval \<Rightarrow> pyval option) \<times> pyval list) run" where
  "update_speakers uni srv [] last_id st tr = (Inr st, tr)"
| "update_speakers uni srv (speaker # speakers) last_id st tr =
    andthen (orcrash last_id tr) (\<lambda>recorded tr0.
    andthen (orcrash (py_item speaker ''id'') tr0) (\<lambda>speaker_id tr1.
    andthen (send srv (Update (''speakers/'' @ fmt uni speaker_id) speaker) tr1) (\<lambda>r tr2.
    andthen (orcrash (speaker_name uni speaker) tr2) (\<lambda>key tr3.
    andthen (orcrash (py_get r ''error'') tr3) (\<lambda>error tr4.
      if error = PStr not_new \<or> has_id r
      then andthen (orcrash (rm_set (fst st) key speaker_id) tr4) (\<lambda>m tr5.
             update_speakers uni srv speakers (py_item r ''id'') (m, snd st @ [recorded]) tr5)
      else (Inl Crash, tr4))))))"

definition create_old_speakers ::
  "(pyval \<Rightarrow> string) \<Rightarrow> server \<Rightarrow> string \<Rightarrow> old_data \<Rightarrow> relational_map \<Rightarrow> trace
     \<Rightarrow> (relational_map \<times> pyval list \<times> pyval list) run" where
  "create_old_speakers uni srv answer old_data rm tr0 =
    (if setdefault_list old_data ''speakers'' = [] then (Inr (rm, [], []), tr0)
     else
       andthen (orcrash (those (map speaker_key (setdefault_list old_data ''speakers''))) tr0)
         (\<lambda>speaker_names tr1.
       andthen (send srv (Get ''speakers'') tr1) (\<lambda>existing tr2.
       andthen (orcrash (Option.bind (py_iter existing) (\<lambda>es.
                  Option.bind (those (map speaker_key es)) (\<lambda>names.
                    if filter (\<lambda>n. n \<noteq> PList [] \<and> \<not> list_all hashable (case n of PList l \<Rightarrow> l | _ \<Rightarrow> []))
                         (names @ speaker_names) \<noteq> [] then None
                    else Some (es, names)))) tr2) (\<lambda>(existing_speakers, existing_speaker_names) tr3.
       andthen (orcrash (sort_speakers uni
                  (filter (\<lambda>n. n \<in> set existing_speaker_names) speaker_names \<noteq> []
                     \<and> answer \<in> set [''y'', ''Y''])
                  existing_speakers existing_speaker_names (setdefault_list old_data ''speakers'')
                  (rm_speakers rm)) tr3) (\<lambda>(speakers_to_create, speakers_to_update, m) tr4.
       andthen (create_speakers uni srv speakers_to_create (m, []) tr4) (\<lambda>(m1, created) tr5.
       andthen (update_speakers uni srv speakers_to_update
                  (if created = [] then None else Some (last created)) (m1, []) tr5)
         (\<lambda>(m2, updated) tr6.
           (Inr (rm \<lparr> rm_speakers := m2 \<rparr>, created, updated), tr6))))))))"

subsection \<open>Tags\<close>

text \<open>
  The tag of the migration is created first; its name holds the time of the run, the
  parameter \<open>now\<close>. The handler of a failure formats three values into a message with
  two places: an exception. The identifier is stored under the name that the answer
  carries.
\<close>

definition migration_tag_name :: "string \<Rightarrow> string \<Rightarrow> string" where
  "migration_tag_name lingsync_corpus_name now =
    ''Migrated from LingSync corpus '' @ lingsync_corpus_name @ '' on '' @ now"

fun sort_tags ::
  "pyval list \<Rightarrow> pyval list \<Rightarrow> pyval list \<Rightarrow> (pyval \<Rightarrow> pyval option)
     \<Rightarrow> (pyval list \<times> (pyval \<Rightarrow> pyval option)) option" where
  "sort_tags existing_tags existing_tag_names [] m = Some ([], m)"
| "sort_tags existing_tags existing_tag_names (tag # tags) m = do {
     name \<leftarrow> py_item tag ''name'';
     if name \<in> set existing_tag_names then
       (case map fst (filter (\<lambda>p. snd p = name) (zip existing_tags existing_tag_names)) of
          counterpart # _ \<Rightarrow> do {
            n \<leftarrow> py_item counterpart ''name'';
            i \<leftarrow> py_item counterpart ''id'';
            m1 \<leftarrow> rm_set m n i;
            sort_tags existing_tags existing_tag_names tags m1 }
        | [] \<Rightarrow> None)
     else do {
       (cs, m') \<leftarrow> sort_tags existing_tags existing_tag_names tags m;
       Some (tag # cs, m') } }"

fun create_tags ::
  "(pyval \<Rightarrow> string) \<Rightarrow> server \<Rightarrow> pyval list \<Rightarrow> (pyval \<Rightarrow> pyval option) \<times> pyval list \<Rightarrow> trace
     \<Rightarrow> ((pyval \<Rightarrow> pyval option) \<times> pyval list) run" where
  "create_tags uni srv [] st tr = (Inr st, tr)"
| "create_tags uni srv (tag # tags) st tr =
    andthen (send srv (Create ''tags'' tag) tr) (\<lambda>r tr1.
      (case (if has_id r
             then Option.bind (py_item tag ''name'') (\<lambda>name. rm_set (fst st) name (id_of r))
             else None) of
         Some m \<Rightarrow> create_tags uni srv tags (m, snd st @ [id_of r]) tr1
       | None \<Rightarrow> (case py_item tag ''name'' of
           None \<Rightarrow> (Inl Crash, tr1)
         | Some n \<Rightarrow> (Inl (failure (''Failed to create an OLD tag '' @ lsquo @ fmt uni n @ rsquo
             @ ''. Aborting.'')), tr1))))"

definition create_old_tags ::
  "(pyval \<Rightarrow> string) \<Rightarrow> server \<Rightarrow> string \<Rightarrow> string \<Rightarrow> old_data \<Rightarrow> relational_map \<Rightarrow> trace
     \<Rightarrow> (relational_map \<times> pyval list) run" where
  "create_old_tags uni srv lingsync_corpus_name now old_data rm tr0 =
    andthen (send srv (Create ''tags''
               (PDict [(''name'', PStr (migration_tag_name lingsync_corpus_name now)),
                       (''description'', PStr (''This resource was generated during an''
                          @ '' automated migration from the LingSync corpus ''
                          @ lingsync_corpus_name @ ''.''))])) tr0) (\<lambda>r tr1.
    andthen (orcrash (if has_id r
                      then Option.bind (py_item r ''name'') (\<lambda>name. rm_set (rm_tags rm) name (id_of r))
                      else None) tr1) (\<lambda>m tr2.
      if setdefault_list old_data ''tags'' = [] then (Inr (rm \<lparr> rm_tags := m \<rparr>, [id_of r]), tr2)
      else
        andthen (orcrash (those (map (\<lambda>t. py_item t ''name'') (setdefault_list old_data ''tags''))) tr2)
          (\<lambda>tag_names tr3.
        andthen (send srv (Get ''tags'') tr3) (\<lambda>existing tr4.
        andthen (orcrash (Option.bind (py_iter existing) (\<lambda>es.
                   Option.bind (those (map (\<lambda>t. py_item t ''name'') es)) (\<lambda>names.
                     sort_tags es names (setdefault_list old_data ''tags'') m))) tr4)
          (\<lambda>(tags_to_create, m1) tr5.
        andthen (create_tags uni srv tags_to_create (m1, [id_of r]) tr5) (\<lambda>(m2, created) tr6.
          (Inr (rm \<lparr> rm_tags := m2 \<rparr>, created), tr6)))))))"

subsection \<open>Files\<close>

text \<open>
  The file system is the parameter \<open>disk\<close>: the size and the base64 text of the
  file at a path, when there is one. The identifiers of the files of one datum are
  collected in a list under the identifier of the datum.
\<close>

fun create_files ::
  "(pyval \<Rightarrow> string) \<Rightarrow> server \<Rightarrow> (pyval \<Rightarrow> (nat \<times> string) option) \<Rightarrow> pyval list
     \<Rightarrow> (pyval \<Rightarrow> pyval option) \<times> pyval list \<Rightarrow> trace \<Rightarrow> ((pyval \<Rightarrow> pyval option) \<times> pyval list) run" where
  "create_files uni srv disk [] st tr = (Inr st, tr)"
| "create_files uni srv disk (file # files) st tr =
    andthen (orcrash (py_get file ''__local_file_path'') tr) (\<lambda>path tr1.
      if \<not> truthy path then create_files uni srv disk files st tr1
      else (case disk path of
          None \<Rightarrow> create_files uni srv disk files st tr1
        | Some (nbytes, base64) \<Rightarrow>
            if 20971520 < nbytes then create_files uni srv disk files st tr1
            else (case file of
                PDict f \<Rightarrow>
                  andthen (send srv (Create ''files''
                             (PDict (dict_set f ''base64_encoded_file'' (PStr base64)))) tr1) (\<lambda>r tr2.
                    (case (if has_id r
                           then Option.bind (dict_item f ''__lingsync_datum_id'') (\<lambda>datum_id.
                                Option.bind (rm_get (fst st) datum_id) (\<lambda>ids.
                                  (case ids of
                                     PNone \<Rightarrow> rm_set (fst st) datum_id (PList [id_of r])
                                   | PList l \<Rightarrow> rm_set (fst st) datum_id (PList (l @ [id_of r]))
                                   | _ \<Rightarrow> None)))
                           else None) of
                       Some m \<Rightarrow> create_files uni srv disk files (m, snd st @ [id_of r]) tr2
                     | None \<Rightarrow> (case dict_item f ''filename'' of
                         None \<Rightarrow> (Inl Crash, tr2)
                       | Some n \<Rightarrow> (Inl (failure (''Failed to create an OLD file '' @ lsquo
                           @ fmt uni n @ rsquo @ ''. Aborting.'')), tr2))))
              | _ \<Rightarrow> (Inl Crash, tr1))))"

definition create_old_files ::
  "(pyval \<Rightarrow> string) \<Rightarrow> server \<Rightarrow> (pyval \<Rightarrow> (nat \<times> string) option) \<Rightarrow> old_data \<Rightarrow> relational_map
     \<Rightarrow> trace \<Rightarrow> (relational_map \<times> pyval list) run" where
  "create_old_files uni srv disk old_data rm tr0 =
    (if setdefault_list old_data ''files'' = [] then (Inr (rm, []), tr0)
     else andthen (create_files uni srv disk (setdefault_list old_data ''files'') (rm_files rm, []) tr0)
       (\<lambda>(m, created) tr1. (Inr (rm \<lparr> rm_files := m \<rparr>, created), tr1)))"

subsection \<open>References of a form, a corpus or a collection\<close>

text \<open>
  The tags of a resource become the identifiers of the tags that have one; a speaker and
  an elicitor become their identifier, or \<^verbatim>\<open>None\<close>. The identifier of the tag of the
  migration has to exist.
\<close>

fun tag_ids :: "(pyval \<Rightarrow> pyval option) \<Rightarrow> pyval list \<Rightarrow> pyval list option" where
  "tag_ids m [] = Some []"
| "tag_ids m (tag # tags) = do {
     name \<leftarrow> py_item tag ''name'';
     tag_id \<leftarrow> rm_get m name;
     rest \<leftarrow> tag_ids m tags;
     Some (if truthy tag_id then tag_id # rest else rest) }"

definition resolve_tags :: "relational_map \<Rightarrow> pydict \<Rightarrow> pydict option" where
  "resolve_tags rm res =
    (if truthy (dict_get res ''tags'') then do {
       tags \<leftarrow> py_iter (dict_get res ''tags'');
       new_tags \<leftarrow> tag_ids (rm_tags rm) tags;
       Some (dict_set res ''tags'' (PList new_tags)) }
     else Some res)"

definition resolve_speaker :: "(pyval \<Rightarrow> string) \<Rightarrow> relational_map \<Rightarrow> pydict \<Rightarrow> pydict option" where
  "resolve_speaker uni rm res =
    (if truthy (dict_get res ''speaker'') then do {
       key \<leftarrow> speaker_name uni (dict_get res ''speaker'');
       speaker_id \<leftarrow> rm_get (rm_speakers rm) key;
       Some (dict_set res ''speaker'' (if truthy speaker_id then speaker_id else PNone)) }
     else Some res)"

definition resolve_elicitor :: "relational_map \<Rightarrow> pydict \<Rightarrow> pydict option" where
  "resolve_elicitor rm res =
    (if truthy (dict_get res ''elicitor'') then do {
       key \<leftarrow> py_item (dict_get res ''elicitor'') ''username'';
       elicitor_id \<leftarrow> rm_get (rm_users rm) key;
       Some (dict_set res ''elicitor'' (if truthy elicitor_id then elicitor_id else PNone)) }
     else Some res)"

text \<open>\<^verbatim>\<open>res['tags'].append(migration_tag_id)\<close>.\<close>

definition append_migration_tag :: "pyval \<Rightarrow> pydict \<Rightarrow> pydict option" where
  "append_migration_tag migration_tag_id res = (case dict_item res ''tags'' of
      Some (PList l) \<Rightarrow> Some (dict_set res ''tags'' (PList (l @ [migration_tag_id])))
    | _ \<Rightarrow> None)"

definition no_migration_tag :: abort where
  "no_migration_tag = failure ''Failed to get the OLD id for the migration tag. Aborting.''"

subsection \<open>Forms\<close>

definition resolve_files :: "relational_map \<Rightarrow> pyval \<Rightarrow> pydict \<Rightarrow> pydict option" where
  "resolve_files rm datum_id form =
    (if truthy (dict_get form ''files'') then do {
       file_id_array \<leftarrow> rm_get (rm_files rm) datum_id;
       Some (dict_set form ''files''
         (case file_id_array of PList l \<Rightarrow> (if l \<noteq> [] then PList l else PList []) | _ \<Rightarrow> PList [])) }
     else Some form)"

text \<open>
  The request for one form, made again without verification on an \<^verbatim>\<open>SSLError\<close>.
\<close>

definition send_form :: "server \<Rightarrow> pyval \<Rightarrow> trace \<Rightarrow> pyval run" where
  "send_form srv form tr = (case srv tr (Create ''forms'' form) of
      Reply r \<Rightarrow> (Inr r, tr @ [Create ''forms'' form])
    | SSLError \<Rightarrow> send srv (CreateUnverified ''forms'' form) (tr @ [Create ''forms'' form]))"

text \<open>The form as it is sent: its references resolved, the tag of the migration added.\<close>

definition prepare_form ::
  "(pyval \<Rightarrow> string) \<Rightarrow> relational_map \<Rightarrow> pyval \<Rightarrow> pyval \<Rightarrow> pydict option" where
  "prepare_form uni rm migration_tag_id form = (case form of
      PDict f \<Rightarrow> do {
        f1 \<leftarrow> resolve_tags rm f;
        f2 \<leftarrow> resolve_speaker uni rm f1;
        f3 \<leftarrow> resolve_elicitor rm f2;
        f4 \<leftarrow> resolve_files rm (dict_get f ''__lingsync_datum_id'') f3;
        append_migration_tag migration_tag_id f4 }
    | _ \<Rightarrow> None)"

text \<open>
  The loop over the staged forms: the references are resolved, the form is created,
  and a form that is marked as deleted in LingSync is deleted again, by the
  identifier that it has just got; its datum is not entered in the relational map.
\<close>

fun create_forms ::
  "(pyval \<Rightarrow> string) \<Rightarrow> server \<Rightarrow> pyval \<Rightarrow> relational_map \<Rightarrow> pyval list
     \<Rightarrow> (pyval \<Rightarrow> pyval option) \<times> pyval list \<times> pyval list \<Rightarrow> trace
     \<Rightarrow> ((pyval \<Rightarrow> pyval option) \<times> pyval list \<times> pyval list) run" where
  "create_forms uni srv migration_tag_id rm [] st tr = (Inr st, tr)"
| "create_forms uni srv migration_tag_id rm (form # forms) st tr = (case st of (m, created, deleted) \<Rightarrow>
    andthen (orcrash (prepare_form uni rm migration_tag_id form) tr) (\<lambda>f tr1.
    andthen (send_form srv (PDict f) tr1) (\<lambda>r tr2.
      (case (if has_id r
             then (if truthy (dict_get f ''__lingsync_deleted'') then Some m
                   else rm_set m (dict_get f ''__lingsync_datum_id'') (id_of r))
             else None) of
         None \<Rightarrow> (Inl (failure (''Failed to create an OLD form for the LingSync datum '' @ lsquo
                    @ fmt uni (dict_get f ''__lingsync_datum_id'') @ rsquo @ ''. Aborting.'')), tr2)
       | Some m1 \<Rightarrow>
           (if truthy (dict_get f ''__lingsync_deleted'') then
              andthen (send srv (Delete (''forms/'' @ fmt uni (id_of r))) tr2) (\<lambda>r2 tr3.
                if has_id r2
                then create_forms uni srv migration_tag_id rm forms
                       (m1, created @ [id_of r], deleted @ [id_of r2]) tr3
                else (Inl (failure (''Failed to delete on the OLD the trashed LingSync form ''
                        @ fmt uni (dict_get f ''__lingsync_datum_id'') @ '' that was migrated.'')),
                      tr3))
            else create_forms uni srv migration_tag_id rm forms
                   (m1, created @ [id_of r], deleted) tr2)))))"

definition create_old_forms ::
  "(pyval \<Rightarrow> string) \<Rightarrow> server \<Rightarrow> string \<Rightarrow> old_data \<Rightarrow> relational_map \<Rightarrow> trace
     \<Rightarrow> (relational_map \<times> pyval list \<times> pyval list) run" where
  "create_old_forms uni srv tag_name old_data rm tr0 =
    (if setdefault_list old_data ''forms'' = [] then (Inr (rm, [], []), tr0)
     else (case rm_tags rm (PStr tag_name) of
         None \<Rightarrow> (Inl no_migration_tag, tr0)
       | Some migration_tag_id \<Rightarrow>
           if \<not> truthy migration_tag_id then (Inl no_migration_tag, tr0)
           else andthen (create_forms uni srv migration_tag_id rm (setdefault_list old_data ''forms'')
                           (rm_forms rm, [], []) tr0)
             (\<lambda>(m, created, deleted) tr1. (Inr (rm \<lparr> rm_forms := m \<rparr>, created, deleted), tr1))))"

subsection \<open>Corpora\<close>

fun form_ids :: "(pyval \<Rightarrow> pyval option) \<Rightarrow> pyval list \<Rightarrow> pyval list option" where
  "form_ids m [] = Some []"
| "form_ids m (d_id # d_ids) = do {
     f_id \<leftarrow> rm_get m d_id;
     rest \<leftarrow> form_ids m d_ids;
     Some (if truthy f_id then f_id # rest else rest) }"

fun create_corpora ::
  "(pyval \<Rightarrow> string) \<Rightarrow> server \<Rightarrow> pyval \<Rightarrow> relational_map \<Rightarrow> pyval list
     \<Rightarrow> (pyval \<Rightarrow> pyval option) \<times> pyval list \<Rightarrow> trace \<Rightarrow> ((pyval \<Rightarrow> pyval option) \<times> pyval list) run" where
  "create_corpora uni srv migration_tag_id rm [] st tr = (Inr st, tr)"
| "create_corpora uni srv migration_tag_id rm (corpus # corpora) st tr =
    andthen (orcrash (case corpus of
        PDict c \<Rightarrow> Option.bind (resolve_tags rm c) (\<lambda>c1.
          Option.bind (py_iter (case map_of c ''__lingsync_datalist_datum_ids'' of
                                  None \<Rightarrow> PList [] | Some v \<Rightarrow> v)) (\<lambda>datum_ids_array.
          Option.bind (form_ids (rm_forms rm) datum_ids_array) (\<lambda>content.
          append_migration_tag migration_tag_id
            (dict_set c1 ''content'' (PStr (join '', '' (map uni content)))))))
      | _ \<Rightarrow> None) tr) (\<lambda>c tr1.
    andthen (send srv (Create ''corpora'' (PDict c)) tr1) (\<lambda>r tr2.
      (case (if has_id r then rm_set (fst st) (dict_get c ''__lingsync_datalist_id'') (id_of r)
             else None) of
         Some m \<Rightarrow> create_corpora uni srv migration_tag_id rm corpora (m, snd st @ [id_of r]) tr2
       | None \<Rightarrow> (Inl (failure (''Failed to create an OLD corpus for the LingSync datalist ''
                    @ lsquo @ fmt uni (dict_get c ''__lingsync_datalist_id'') @ rsquo
                    @ ''. Aborting.'')), tr2))))"

definition create_old_corpora ::
  "(pyval \<Rightarrow> string) \<Rightarrow> server \<Rightarrow> string \<Rightarrow> old_data \<Rightarrow> relational_map \<Rightarrow> trace
     \<Rightarrow> (relational_map \<times> pyval list) run" where
  "create_old_corpora uni srv tag_name old_data rm tr0 =
    (if setdefault_list old_data ''corpora'' = [] then (Inr (rm, []), tr0)
     else (case rm_tags rm (PStr tag_name) of
         None \<Rightarrow> (Inl no_migration_tag, tr0)
       | Some migration_tag_id \<Rightarrow>
           if \<not> truthy migration_tag_id then (Inl no_migration_tag, tr0)
           else andthen (create_corpora uni srv migration_tag_id rm
                           (setdefault_list old_data ''corpora'') (rm_corpora rm, []) tr0)
             (\<lambda>(m, created) tr1. (Inr (rm \<lparr> rm_corpora := m \<rparr>, created), tr1))))"

subsection \<open>Collections\<close>

text \<open>
  The contents of a collection: for every staged form that is not marked as deleted,
  belongs to the session of the collection and has an identifier at the destination,
  the pair of its \<^verbatim>\<open>date_entered\<close> and that identifier. A form without
  \<^verbatim>\<open>date_entered\<close> is a KeyError.
\<close>

fun contents_of ::
  "(pyval \<Rightarrow> pyval option) \<Rightarrow> pyval \<Rightarrow> pyval list \<Rightarrow> (pyval \<times> pyval) list option" where
  "contents_of m session_id [] = Some []"
| "contents_of m session_id (form # forms) = do {
     deleted \<leftarrow> py_get form ''__lingsync_deleted'';
     if \<not> truthy deleted then do {
       form_s_id \<leftarrow> py_get form ''__lingsync_session_id'';
       form_d_id \<leftarrow> py_item form ''__lingsync_datum_id'';
       if form_s_id = session_id then do {
         form_id \<leftarrow> rm_get m form_d_id;
         if truthy form_id then do {
           date_entered \<leftarrow> py_item form ''date_entered'';
           rest \<leftarrow> contents_of m session_id forms;
           Some ((date_entered, form_id) # rest) }
         else contents_of m session_id forms }
       else contents_of m session_id forms }
     else contents_of m session_id forms }"

text \<open>
  \<^verbatim>\<open>relational_map.get('forms', {}).get(form_d_id)\<close> for the datum of a form: the
  identifier that the destination gave to the form, \<^verbatim>\<open>None\<close> when there is none.
\<close>

definition resolved :: "(pyval \<Rightarrow> pyval option) \<Rightarrow> pydict \<Rightarrow> pyval" where
  "resolved m f = (case m (dict_get f ''__lingsync_datum_id'') of None \<Rightarrow> PNone | Some v \<Rightarrow> v)"

text \<open>
  \<^verbatim>\<open>sorted(contents)\<close> orders the pairs by the date, then by the identifier. The
  order of Python between strings is that of their code points; the model has the
  contents whose dates are strings and whose identifiers are integers.
\<close>

fun typed_contents :: "(pyval \<times> pyval) list \<Rightarrow> (string \<times> int) list option" where
  "typed_contents [] = Some []"
| "typed_contents ((PStr d, PInt i) # cs) = map_option ((#) (d, i)) (typed_contents cs)"
| "typed_contents (_ # cs) = None"

text \<open>\<^verbatim>\<open>u'form[%d]' % i\<close>.\<close>

definition str_int :: "int \<Rightarrow> string" where
  "str_int i = (if i < 0 then ''-'' @ str_nat (nat (- i)) else str_nat (nat i))"

definition form_reference :: "int \<Rightarrow> string" where
  "form_reference i = ''form['' @ str_int i @ '']''"

definition contents_string :: "(string \<times> int) list \<Rightarrow> string" where
  "contents_string contents = join [CHR 0x0A] (map (\<lambda>t. form_reference (snd t)) (sort contents))"

text \<open>
  The collection with its references resolved, and its contents. A collection without
  contents is reported with its title.
\<close>

definition prepare_collection ::
  "(pyval \<Rightarrow> string) \<Rightarrow> relational_map \<Rightarrow> pyval list \<Rightarrow> pyval
     \<Rightarrow> (pydict \<times> (pyval \<times> pyval) list) option" where
  "prepare_collection uni rm forms collection = (case collection of
      PDict c \<Rightarrow> do {
        c1 \<leftarrow> resolve_tags rm c;
        c2 \<leftarrow> resolve_speaker uni rm c1;
        c3 \<leftarrow> resolve_elicitor rm c2;
        contents \<leftarrow> contents_of (rm_forms rm) (dict_get c ''__lingsync_session_id'') forms;
        _ \<leftarrow> (if contents = [] then dict_item c3 ''title'' else Some PNone);
        Some (c3, contents) }
    | _ \<Rightarrow> None)"

fun create_collections ::
  "(pyval \<Rightarrow> string) \<Rightarrow> server \<Rightarrow> pyval \<Rightarrow> relational_map \<Rightarrow> pyval list \<Rightarrow> pyval list
     \<Rightarrow> (pyval \<Rightarrow> pyval option) \<times> pyval list \<Rightarrow> trace \<Rightarrow> ((pyval \<Rightarrow> pyval option) \<times> pyval list) run" where
  "create_collections uni srv migration_tag_id rm forms [] st tr = (Inr st, tr)"
| "create_collections uni srv migration_tag_id rm forms (collection # collections) st tr =
    andthen (orcrash (prepare_collection uni rm forms collection) tr) (\<lambda>(c3, contents) tr1.
    (case typed_contents contents of
       None \<Rightarrow> (Inl Unmodelled, tr1)
     | Some typed \<Rightarrow>
    andthen (orcrash (append_migration_tag migration_tag_id
               (dict_set c3 ''contents'' (PStr (contents_string typed)))) tr1) (\<lambda>c tr2.
    andthen (send srv (Create ''collections'' (PDict c)) tr2) (\<lambda>r tr3.
      (case (if has_id r then rm_set (fst st) (dict_get c ''__lingsync_session_id'') (id_of r)
             else None) of
         Some m \<Rightarrow> create_collections uni srv migration_tag_id rm forms collections
                     (m, snd st @ [id_of r]) tr3
       | None \<Rightarrow> (Inl (failure (''Failed to create an OLD collection for the LingSync session ''
                    @ lsquo @ fmt uni (dict_get c ''__lingsync_session_id'') @ rsquo
                    @ ''. Aborting.'')), tr3))))))"

definition create_old_collections ::
  "(pyval \<Rightarrow> string) \<Rightarrow> server \<Rightarrow> string \<Rightarrow> old_data \<Rightarrow> relational_map \<Rightarrow> trace
     \<Rightarrow> (relational_map \<times> pyval list) run" where
  "create_old_collections uni srv tag_name old_data rm tr0 =
    (if setdefault_list old_data ''collections'' = [] then (Inr (rm, []), tr0)
     else (case rm_tags rm (PStr tag_name) of
         None \<Rightarrow> (Inl no_migration_tag, tr0)
       | Some migration_tag_id \<Rightarrow>
           if \<not> truthy migration_tag_id then (Inl no_migration_tag, tr0)
           else andthen (create_collections uni srv migration_tag_id rm
                           (setdefault_list old_data ''forms'')
                           (setdefault_list old_data ''collections'') (rm_collections rm, []) tr0)
             (\<lambda>(m, created) tr1. (Inr (rm \<lparr> rm_collections := m \<rparr>, created), tr1))))"

subsection \<open>The run\<close>

text \<open>
  \<^verbatim>\<open>upload\<close>, once the staged data is read and the client is logged in: the resource
  types in their fixed order, on a relational map that starts empty. The result holds
  the final map and what each step reports as created.
\<close>

record uploaded =
  final_map :: relational_map
  users_created :: "pyval list \<times> pyval list"
  speakers_created :: "pyval list \<times> pyval list"
  tags_created :: "pyval list"
  files_created :: "pyval list"
  forms_created :: "pyval list \<times> pyval list"
  corpora_created :: "pyval list"
  collections_created :: "pyval list"

definition upload ::
  "(pyval \<Rightarrow> string) \<Rightarrow> server \<Rightarrow> (pyval \<Rightarrow> (nat \<times> string) option) \<Rightarrow> string \<Rightarrow> string
     \<Rightarrow> string \<Rightarrow> string \<Rightarrow> old_data \<Rightarrow> uploaded run" where
  "upload uni srv disk answer_users answer_speakers lingsync_corpus_name now old_data =
    andthen (create_old_application_settings srv old_data []) (\<lambda>_ tr1.
    andthen (create_old_users uni srv answer_users old_data empty_map tr1)
      (\<lambda>(rm1, users) tr2.
    andthen (create_old_speakers uni srv answer_speakers old_data rm1 tr2)
      (\<lambda>(rm2, speakers) tr3.
    andthen (create_old_tags uni srv lingsync_corpus_name now old_data rm2 tr3)
      (\<lambda>(rm3, tags) tr4.
    andthen (create_old_files uni srv disk old_data rm3 tr4)
      (\<lambda>(rm4, files) tr5.
    andthen (create_old_forms uni srv (migration_tag_name lingsync_corpus_name now) old_data rm4 tr5)
      (\<lambda>(rm5, forms) tr6.
    andthen (create_old_corpora uni srv (migration_tag_name lingsync_corpus_name now) old_data rm5 tr6)
      (\<lambda>(rm6, corpora) tr7.
    andthen (create_old_collections uni srv (migration_tag_name lingsync_corpus_name now) old_data
               rm6 tr7)
      (\<lambda>(rm7, collections) tr8.
        (Inr \<lparr> final_map = rm7, users_created = users, speakers_created = speakers,
               tags_created = tags, files_created = files, forms_created = forms,
               corpora_created = corpora, collections_created = collections \<rparr>, tr8)))))))))"

section \<open>Null users in the staged data\<close>

lemma append_new_mem: "v \<in> set (append_new xs v)"
  by (simp add: append_new_def)

lemma update_old_data_primary:
  assumes "old_auxiliary_resources obj = []" and "old_resource obj \<noteq> []"
  shows "update_old_data obj od (old_resource obj)
    = Some (append_new (setdefault_list od (old_resource obj)) (old_value obj))"
  using assms by (simp add: update_old_data_def)

lemma update_state_old_data:
  "update_state uni obj od w = Some (od', w') \<Longrightarrow> od' = update_old_data obj od"
  by (auto simp: update_state_def Let_def split: if_splits option.splits)

lemma update_state_raises:
  "update_state uni obj od w = None
     \<longleftrightarrow> warnings_docspecific obj \<noteq> [] \<and> dict_item (originaldoc obj) ''_id'' = None"
  by (auto simp: update_state_def Let_def split: option.splits)

lemma user_without_username:
  assumes "\<not> truthy (my_strip (dict_get doc ''username''))"
  shows "\<exists>obj. process_lingsync_user uni doc = Some obj \<and> old_value obj = PNone
          \<and> old_resource obj = ''users'' \<and> old_auxiliary_resources obj = []
          \<and> originaldoc obj = doc \<and> warnings_general obj = []
          \<and> warnings_docspecific obj =
              map (\<lambda>k. lsquo @ k @ rsquo @ '' not a recognized attribute in user ''
                     @ fmt uni (dict_get doc ''_id''))
                (filter (\<lambda>k. k \<notin> set user_known_attrs) (map fst doc))"
  using assms by (simp add: process_lingsync_user_def Let_def)

text \<open>
  C10. A user document whose stripped username is missing or empty (any value that
  Python takes as false) converts to a result whose \<^verbatim>\<open>old_value\<close> is \<open>None\<close>.
  \<^verbatim>\<open>update_state\<close> does not filter it: the statements that change \<^verbatim>\<open>old_data\<close> put
  \<open>None\<close> at the end of the \<^verbatim>\<open>users\<close> list (unless the list has it already), so that
  the list holds a \<open>None\<close> entry, and this is the staged list whenever \<^verbatim>\<open>update_state\<close>
  returns. It returns unless the document has an attribute that is not recognized and
  no \<^verbatim>\<open>_id\<close>: then the key of the warnings is a KeyError, raised after the list was
  changed.
\<close>

theorem null_user_is_staged:
  assumes "\<not> truthy (my_strip (dict_get doc ''username''))"
  shows "\<exists>obj. process_lingsync_user uni doc = Some obj \<and> old_value obj = PNone
    \<and> update_old_data obj od ''users'' = Some (append_new (setdefault_list od ''users'') PNone)
    \<and> PNone \<in> set (append_new (setdefault_list od ''users'') PNone)
    \<and> (\<forall>od' w'. update_state uni obj od w = Some (od', w')
          \<longrightarrow> od' ''users'' = Some (append_new (setdefault_list od ''users'') PNone))
    \<and> (update_state uni obj od w = None
          \<longleftrightarrow> map_of doc ''_id'' = None \<and> \<not> set (map fst doc) \<subseteq> set user_known_attrs)"
proof -
  from user_without_username [OF assms, of uni] obtain obj where
    obj: "process_lingsync_user uni doc = Some obj" "old_value obj = PNone"
      "old_resource obj = ''users''" "old_auxiliary_resources obj = []" "originaldoc obj = doc"
      "warnings_docspecific obj =
              map (\<lambda>k. lsquo @ k @ rsquo @ '' not a recognized attribute in user ''
                     @ fmt uni (dict_get doc ''_id''))
                (filter (\<lambda>k. k \<notin> set user_known_attrs) (map fst doc))"
    by blast
  from update_old_data_primary [of obj od] obj(2,3,4)
  have staged: "update_old_data obj od ''users''
      = Some (append_new (setdefault_list od ''users'') PNone)"
    by simp
  have returned: "\<forall>od' w'. update_state uni obj od w = Some (od', w')
      \<longrightarrow> od' ''users'' = Some (append_new (setdefault_list od ''users'') PNone)"
    using update_state_old_data [of uni obj od w] staged by auto
  have "warnings_docspecific obj \<noteq> [] \<longleftrightarrow> \<not> set (map fst doc) \<subseteq> set user_known_attrs"
    unfolding obj(6) by (auto simp: filter_empty_conv)
  then have raised: "update_state uni obj od w = None
      \<longleftrightarrow> map_of doc ''_id'' = None \<and> \<not> set (map fst doc) \<subseteq> set user_known_attrs"
    unfolding update_state_raises obj(5) dict_item_def by blast
  show ?thesis
    apply (rule exI [of _ obj])
    apply (intro conjI)
         apply (rule obj(1))
        apply (rule obj(2))
       apply (rule staged)
      apply (rule append_new_mem)
     apply (rule returned)
    apply (rule raised)
    done
qed

theorem null_user_is_staged_witness:
  "\<not> truthy (my_strip (dict_get [(''_id'', PStr ''u1''), (''username'', PStr ''  '')] ''username''))
   \<and> (\<exists>obj od' w'.
        process_lingsync_user (\<lambda>v. ''?'') [(''_id'', PStr ''u1''), (''username'', PStr ''  '')]
          = Some obj
        \<and> old_value obj = PNone
        \<and> update_state (\<lambda>v. ''?'') obj (Map.empty(''users'' \<mapsto> [PDict old_schemata_user])) Map.empty
          = Some (od', w')
        \<and> od' ''users'' = Some [PDict old_schemata_user, PNone])"
proof -
  define doc where "doc = [(''_id'', PStr ''u1''), (''username'', PStr ''  '')]"
  define od :: old_data where "od = Map.empty(''users'' \<mapsto> [PDict old_schemata_user])"
  have h1: "\<not> truthy (my_strip (dict_get doc ''username''))"
    by (simp add: doc_def my_strip_def dict_get_def strip_def is_space_def)
  obtain obj where
    obj: "process_lingsync_user (\<lambda>v. ''?'') doc = Some obj" "old_value obj = PNone"
    and returned: "\<forall>od' w'. update_state (\<lambda>v. ''?'') obj od Map.empty = Some (od', w')
          \<longrightarrow> od' ''users'' = Some (append_new (setdefault_list od ''users'') PNone)"
    and raised: "update_state (\<lambda>v. ''?'') obj od Map.empty = None
          \<longleftrightarrow> map_of doc ''_id'' = None \<and> \<not> set (map fst doc) \<subseteq> set user_known_attrs"
    by (atomize_elim, insert null_user_is_staged [OF h1, of "\<lambda>v. ''?''" od Map.empty],
        elim exE conjE, (intro exI conjI; assumption))
  from raised have "update_state (\<lambda>v. ''?'') obj od Map.empty \<noteq> None"
    by (simp add: doc_def)
  then obtain od' w' where st: "update_state (\<lambda>v. ''?'') obj od Map.empty = Some (od', w')"
    by auto
  with returned have "od' ''users'' = Some (append_new (setdefault_list od ''users'') PNone)"
    by blast
  then have "od' ''users'' = Some [PDict old_schemata_user, PNone]"
    by (simp add: od_def setdefault_list_def append_new_def)
  then have "\<not> truthy (my_strip (dict_get doc ''username''))
   \<and> (\<exists>obj od' w'.
        process_lingsync_user (\<lambda>v. ''?'') doc = Some obj
        \<and> old_value obj = PNone
        \<and> update_state (\<lambda>v. ''?'') obj od Map.empty = Some (od', w')
        \<and> od' ''users'' = Some [PDict old_schemata_user, PNone])"
    apply (intro conjI)
     apply (rule h1)
    apply (rule exI [of _ obj], rule exI [of _ od'], rule exI [of _ w'])
    apply (intro conjI)
       apply (rule obj(1))
      apply (rule obj(2))
     apply (rule st)
    apply assumption
    done
  then show ?thesis
    unfolding doc_def od_def .
qed

section \<open>Sessions that are passed over\<close>

lemma session_without_fields:
  assumes "dict_item doc ''_id'' = Some i"
    and "\<not> truthy (dict_get doc ''sessionFields'')" and "\<not> truthy (dict_get doc ''fields'')"
  shows "process_lingsync_session uni doc = Some None"
  using assms by (simp add: process_lingsync_session_def Let_def)


lemma sessions_loop_skips:
  assumes "process_lingsync_session uni doc = Some None"
  shows "sessions_loop uni (doc # docs) st = sessions_loop uni docs st"
  using assms by (cases st) simp

text \<open>
  C2, as the code has it. A session document with an identifier and with neither
  \<^verbatim>\<open>sessionFields\<close> nor \<^verbatim>\<open>fields\<close> makes \<^verbatim>\<open>process_lingsync_session\<close> return
  \<^verbatim>\<open>None\<close> (after printing the document), and the loop of \<^verbatim>\<open>lingsync2old\<close> goes on
  with the sessions that follow, on the same staged data and warnings: the session is
  passed over, the run is not ended.
\<close>

theorem session_without_fields_is_skipped:
  assumes "dict_item doc ''_id'' = Some i"
    and "\<not> truthy (dict_get doc ''sessionFields'')" and "\<not> truthy (dict_get doc ''fields'')"
  shows "process_lingsync_session uni doc = Some None
    \<and> sessions_loop uni (doc # docs) st = sessions_loop uni docs st"
  using session_without_fields [OF assms] sessions_loop_skips by blast

theorem session_without_fields_is_skipped_witness:
  "dict_item [(''_id'', PStr ''s0''), (''collection'', PStr ''sessions'')] ''_id'' = Some (PStr ''s0'')
   \<and> \<not> truthy (dict_get [(''_id'', PStr ''s0''), (''collection'', PStr ''sessions'')] ''sessionFields'')
   \<and> \<not> truthy (dict_get [(''_id'', PStr ''s0''), (''collection'', PStr ''sessions'')] ''fields'')
   \<and> process_lingsync_session (\<lambda>v. ''?'') [(''_id'', PStr ''s0''), (''collection'', PStr ''sessions'')]
       = Some None
   \<and> sessions_loop (\<lambda>v. ''?'') [[(''_id'', PStr ''s0''), (''collection'', PStr ''sessions'')]]
         (Map.empty, Map.empty, [])
       = sessions_loop (\<lambda>v. ''?'') [] (Map.empty, Map.empty, [])"
proof -
  have h1: "dict_item [(''_id'', PStr ''s0''), (''collection'', PStr ''sessions'')] ''_id''
      = Some (PStr ''s0'')"
    by (simp add: dict_item_def)
  have h2: "\<not> truthy (dict_get [(''_id'', PStr ''s0''), (''collection'', PStr ''sessions'')] ''sessionFields'')"
    by (simp add: dict_get_def)
  have h3: "\<not> truthy (dict_get [(''_id'', PStr ''s0''), (''collection'', PStr ''sessions'')] ''fields'')"
    by (simp add: dict_get_def)
  from session_without_fields_is_skipped [OF h1 h2 h3, of "\<lambda>v. ''?''" "[]" "(Map.empty, Map.empty, [])"]
    h1 h2 h3
  show ?thesis by blast
qed

text \<open>
  The claim as the specification states it fails on a run of three rows: a session
  without field list, a session with a goal, and a datum. The run ends normally, and
  the collection of the second session is staged.
\<close>

theorem session_without_fields_counterexample:
  "map_option (\<lambda>st. fst st ''collections'')
     (lingsync2old py2_set_list (\<lambda>v. ''?'') (\<lambda>v. None) (\<lambda>v. Some PNone) (\<lambda>od w. None)
        [PDict [(''doc'', PDict [(''_id'', PStr ''s0''), (''collection'', PStr ''sessions'')])],
         PDict [(''doc'', PDict [(''_id'', PStr ''s1''), (''collection'', PStr ''sessions''),
            (''sessionFields'', PList [PDict [(''label'', PStr ''goal''), (''value'', PStr ''Verbs'')]])])],
         PDict [(''doc'', PDict [(''_id'', PStr ''d1''), (''collection'', PStr ''datums''),
            (''datumFields'', PList [PDict [(''label'', PStr ''utterance''), (''value'', PStr ''hi'')]])])]]
        ''db'')
   = Some (Some [PDict
      [(''title'', PStr ''Verbs''), (''type'', PStr ''elicitation''), (''url'', PStr ''''),
       (''description'', PStr ''''), (''markup_language'', PStr ''''), (''contents'', PStr ''''),
       (''contents_unpacked'', PStr ''''), (''speaker'', PNone), (''source'', PNone),
       (''elicitor'', PNone), (''date_elicited'', PStr ''''), (''tags'', PList []),
       (''files'', PList []), (''__lingsync_session_id'', PStr ''s1'')]])"
  by code_simp

section \<open>Consolidation takes a value of the set\<close>

lemma sublist_join: "s \<in> set xs \<Longrightarrow> sublist s (join sep xs)"
proof (induction sep xs rule: join.induct)
  case (1 sep)
  then show ?case by simp
next
  case (2 sep x)
  then show ?case by simp
next
  case (3 sep x y ys)
  show ?case
  proof (cases "s = x")
    case True
    then show ?thesis by (simp add: sublist_append_rightI)
  next
    case False
    with 3 have "sublist s (join sep (y # ys))" by simp
    then obtain ps ss where "join sep (y # ys) = ps @ s @ ss" by (auto simp: sublist_def)
    then have "join sep (x # y # ys) = (x @ sep @ ps) @ s @ ss" by simp
    then show ?thesis unfolding sublist_def by blast
  qed
qed

lemma the_strings_mem:
  "the_strings vs = Some ss \<Longrightarrow> x \<in> set vs \<Longrightarrow> \<exists>s. x = PStr s \<and> s \<in> set ss"
proof (induction vs arbitrary: ss)
  case Nil
  then show ?case by simp
next
  case (Cons v vs)
  then show ?case by (cases v) auto
qed

lemma join_vals_mentions:
  assumes "join_vals sep vs = Some t" and "x \<in> set vs"
  shows "\<exists>s. x = PStr s \<and> sublist s t"
proof -
  from assms(1) obtain ss where ss: "the_strings vs = Some ss" "t = join sep ss"
    by (auto simp: join_vals_def)
  from the_strings_mem [OF ss(1) assms(2)] obtain s where "x = PStr s" "s \<in> set ss" by blast
  with ss(2) sublist_join show ?thesis by blast
qed

lemma sublist_in_middle:
  assumes "sublist s t"
  shows "sublist s (a @ t @ b)"
proof -
  from assms obtain ps ss where "t = ps @ s @ ss" by (auto simp: sublist_def)
  then have "a @ t @ b = (a @ ps) @ s @ (ss @ b)" by simp
  then show ?thesis unfolding sublist_def by blast
qed

lemma consolidate_attrs_value:
  assumes "consolidate_attrs set_list uni what keys duplicates attrs = Some (res, ws)"
    and "attr \<in> set attrs" and "attr \<notin> set keys"
  shows "\<exists>v w. consolidated_value set_list uni what duplicates attr = Some (v, w)
           \<and> map_of res attr = Some v \<and> set w \<subseteq> set ws"
  using assms
proof (induction attrs arbitrary: res ws)
  case Nil
  then show ?case by simp
next
  case (Cons a attrs)
  show ?case
  proof (cases "a = attr")
    case True
    with Cons.prems show ?thesis
      by (auto split: Option.bind_splits)
  next
    case False
    with Cons.prems(2) have mem: "attr \<in> set attrs" by simp
    from Cons.prems(1) obtain res' ws' x w' where
      rec: "consolidate_attrs set_list uni what keys duplicates attrs = Some (res', ws')"
      and res: "res = (a, x) # res'" and ws: "set ws' \<subseteq> set ws"
      by (auto split: if_splits Option.bind_splits)
    from Cons.IH [OF rec mem Cons.prems(3)] obtain v w where
      "consolidated_value set_list uni what duplicates attr = Some (v, w)"
      "map_of res' attr = Some v" "set w \<subseteq> set ws'" by blast
    with res ws False show ?thesis by auto
  qed
qed

lemma consolidated_value_exact:
  assumes "consolidated_value set_list uni what duplicates attr = Some (v, ws)"
    and "those (map (\<lambda>u. py_item u attr) duplicates) = Some items"
  shows "v = (case set_list (filter truthy items) of [] \<Rightarrow> PStr '''' | a # _ \<Rightarrow> a)"
    and "1 < length (set_list (filter truthy items)) \<Longrightarrow>
      \<exists>discarded. join_vals (rsquo @ '', '' @ lsquo) (tl (set_list (filter truthy items)))
          = Some discarded
        \<and> ws = [''Lost data when consolidating '' @ what @ '': we chose '' @ lsquo @ fmt uni v
              @ rsquo @ '' as the val for '' @ lsquo @ attr @ rsquo
              @ '' and the following values were discarded: '' @ lsquo @ discarded @ rsquo
              @ ''.'']"
  using assms
  by (auto simp: consolidated_value_def Let_def simp del: append.simps
      split: if_splits Option.bind_splits)

text \<open>
  C1, as the code has it. \<^verbatim>\<open>consolidate_users\<close> keeps the user name of the first
  duplicate. Every other attribute of the first duplicate gets the empty string when
  no duplicate has a non-empty value for it, and otherwise the value that
  \<^verbatim>\<open>list(set(...))\<close> lists first for the set of the non-empty values: one of these
  values, which need not be the one that arrived first. When the set has other
  members, the warnings hold the message that names the chosen value and lists the
  others, in the order of \<^verbatim>\<open>list(set(...))\<close>. The only assumption on \<^verbatim>\<open>list(set(...))\<close>
  is that it lists the members of the set, each once.
\<close>

theorem consolidated_user_value:
  assumes cu: "consolidate_users set_list uni (PDict first # rest) = Some (user, ws)"
    and attr: "attr \<in> fst ` set first" "attr \<noteq> ''username''"
    and items: "those (map (\<lambda>u. py_item u attr) (PDict first # rest)) = Some items"
    and enum: "enumerates set_list (filter truthy items)"
  shows "map_of user ''username'' = map_of first ''username''
    \<and> map_of user attr
        = Some (case set_list (filter truthy items) of [] \<Rightarrow> PStr '''' | v # _ \<Rightarrow> v)
    \<and> (filter truthy items = [] \<longrightarrow> map_of user attr = Some (PStr ''''))
    \<and> (\<forall>v others. set_list (filter truthy items) = v # others \<longrightarrow>
          v \<in> set (filter truthy items) \<and> set others = set (filter truthy items) - {v}
          \<and> (others \<noteq> [] \<longrightarrow>
               (\<exists>discarded. join_vals (rsquo @ '', '' @ lsquo) others = Some discarded
                  \<and> ''Lost data when consolidating users: we chose '' @ lsquo @ fmt uni v
                      @ rsquo @ '' as the val for '' @ lsquo @ attr @ rsquo
                      @ '' and the following values were discarded: '' @ lsquo @ discarded
                      @ rsquo @ ''.'' \<in> set ws
                  \<and> (\<forall>x \<in> set others. \<exists>s. x = PStr s \<and> sublist s discarded))))"
proof -
  from cu obtain username attrs where
    un: "dict_item first ''username'' = Some username"
    and ca: "consolidate_attrs set_list uni ''users'' [] (PDict first # rest)
               (filter (\<lambda>a. a \<noteq> ''username'') (map fst first)) = Some (attrs, ws)"
    and user: "user = (''username'', username) # attrs"
    by (auto simp: consolidate_users_def split: Option.bind_splits)
  from attr have "attr \<in> set (filter (\<lambda>a. a \<noteq> ''username'') (map fst first))" by auto
  from consolidate_attrs_value [OF ca this] obtain v0 w where
    v0: "consolidated_value set_list uni ''users'' (PDict first # rest) attr = Some (v0, w)"
      "map_of attrs attr = Some v0" "set w \<subseteq> set ws" by auto
  define vals where "vals = set_list (filter truthy items)"
  from enum have sv: "set vals = set (filter truthy items)" and dv: "distinct vals"
    by (simp_all add: enumerates_def vals_def)
  note exact = consolidated_value_exact [OF v0(1) items, folded vals_def]
  have 1: "map_of user ''username'' = map_of first ''username''"
    using user un by (simp add: dict_item_def)
  have 2: "map_of user attr = Some (case vals of [] \<Rightarrow> PStr '''' | v # _ \<Rightarrow> v)"
    using user v0(2) attr(2) exact(1) by simp
  have 3: "filter truthy items = [] \<longrightarrow> map_of user attr = Some (PStr '''')"
  proof
    assume "filter truthy items = []"
    with sv have "vals = []" by simp
    with 2 show "map_of user attr = Some (PStr '''')" by simp
  qed
  have 4: "v \<in> set (filter truthy items) \<and> set others = set (filter truthy items) - {v}
      \<and> (others \<noteq> [] \<longrightarrow>
           (\<exists>discarded. join_vals (rsquo @ '', '' @ lsquo) others = Some discarded
              \<and> ''Lost data when consolidating users: we chose '' @ lsquo @ fmt uni v
                  @ rsquo @ '' as the val for '' @ lsquo @ attr @ rsquo
                  @ '' and the following values were discarded: '' @ lsquo @ discarded
                  @ rsquo @ ''.'' \<in> set ws
              \<and> (\<forall>x \<in> set others. \<exists>s. x = PStr s \<and> sublist s discarded)))"
    if vals: "vals = v # others" for v others
  proof (intro conjI impI)
    from sv vals show "v \<in> set (filter truthy items)" by (auto simp del: set_filter)
    from sv dv vals show "set others = set (filter truthy items) - {v}"
      by (auto simp del: set_filter)
    assume "others \<noteq> []"
    with vals have "1 < length vals" by (cases others) simp_all
    from exact(2) [OF this] vals exact(1) obtain discarded where
      d: "join_vals (rsquo @ '', '' @ lsquo) others = Some discarded"
      and w: "w = [''Lost data when consolidating users: we chose '' @ lsquo @ fmt uni v
              @ rsquo @ '' as the val for '' @ lsquo @ attr @ rsquo
              @ '' and the following values were discarded: '' @ lsquo @ discarded @ rsquo
              @ ''.'']"
      by auto
    have "\<forall>x \<in> set others. \<exists>s. x = PStr s \<and> sublist s discarded"
      using join_vals_mentions [OF d] by blast
    with d w v0(3)
    show "\<exists>discarded. join_vals (rsquo @ '', '' @ lsquo) others = Some discarded
        \<and> ''Lost data when consolidating users: we chose '' @ lsquo @ fmt uni v
            @ rsquo @ '' as the val for '' @ lsquo @ attr @ rsquo
            @ '' and the following values were discarded: '' @ lsquo @ discarded
            @ rsquo @ ''.'' \<in> set ws
        \<and> (\<forall>x \<in> set others. \<exists>s. x = PStr s \<and> sublist s discarded)"
      by auto
  qed
  from 1 2 3 4 show ?thesis
    unfolding vals_def by blast
qed

theorem consolidated_user_value_witness:
  "consolidate_users py2_set_list (\<lambda>v. ''?'')
     (PDict (dict_set (dict_set old_schemata_user ''username'' (PStr ''bob'')) ''affiliation'' (PStr ''A''))
      # [PDict (dict_set (dict_set old_schemata_user ''username'' (PStr ''bob'')) ''affiliation'' (PStr '''')),
         PDict (dict_set (dict_set old_schemata_user ''username'' (PStr ''bob'')) ''affiliation'' (PStr ''B''))])
   = Some ([(''username'', PStr ''bob''), (''password'', PStr ''''), (''password_confirm'', PStr ''''),
            (''first_name'', PStr ''''), (''last_name'', PStr ''''), (''email'', PStr ''''),
            (''affiliation'', PStr ''A''), (''role'', PStr ''''), (''markup_language'', PStr ''''),
            (''page_content'', PStr ''''), (''input_orthography'', PStr ''''),
            (''output_orthography'', PStr '''')],
           [''Lost data when consolidating users: we chose '' @ lsquo @ ''A'' @ rsquo
              @ '' as the val for '' @ lsquo @ ''affiliation'' @ rsquo
              @ '' and the following values were discarded: '' @ lsquo @ ''B'' @ rsquo @ ''.''])
   \<and> ''affiliation'' \<in> fst ` set (dict_set (dict_set old_schemata_user ''username'' (PStr ''bob''))
        ''affiliation'' (PStr ''A''))
   \<and> those (map (\<lambda>u. py_item u ''affiliation'')
       (PDict (dict_set (dict_set old_schemata_user ''username'' (PStr ''bob'')) ''affiliation'' (PStr ''A''))
        # [PDict (dict_set (dict_set old_schemata_user ''username'' (PStr ''bob'')) ''affiliation'' (PStr '''')),
           PDict (dict_set (dict_set old_schemata_user ''username'' (PStr ''bob'')) ''affiliation'' (PStr ''B''))]))
       = Some [PStr ''A'', PStr '''', PStr ''B'']
   \<and> enumerates py2_set_list (filter truthy [PStr ''A'', PStr '''', PStr ''B''])
   \<and> py2_set_list (filter truthy [PStr ''A'', PStr '''', PStr ''B'']) = [PStr ''A'', PStr ''B'']
   \<and> map_of [(''username'', PStr ''bob''), (''password'', PStr ''''), (''password_confirm'', PStr ''''),
            (''first_name'', PStr ''''), (''last_name'', PStr ''''), (''email'', PStr ''''),
            (''affiliation'', PStr ''A''), (''role'', PStr ''''), (''markup_language'', PStr ''''),
            (''page_content'', PStr ''''), (''input_orthography'', PStr ''''),
            (''output_orthography'', PStr '''')] ''affiliation''
       = Some (case py2_set_list (filter truthy [PStr ''A'', PStr '''', PStr ''B'']) of
                 [] \<Rightarrow> PStr '''' | v # _ \<Rightarrow> v)"
proof -
  let ?first = "dict_set (dict_set old_schemata_user ''username'' (PStr ''bob'')) ''affiliation'' (PStr ''A'')"
  let ?rest = "[PDict (dict_set (dict_set old_schemata_user ''username'' (PStr ''bob'')) ''affiliation'' (PStr '''')),
         PDict (dict_set (dict_set old_schemata_user ''username'' (PStr ''bob'')) ''affiliation'' (PStr ''B''))]"
  let ?user = "[(''username'', PStr ''bob''), (''password'', PStr ''''), (''password_confirm'', PStr ''''),
            (''first_name'', PStr ''''), (''last_name'', PStr ''''), (''email'', PStr ''''),
            (''affiliation'', PStr ''A''), (''role'', PStr ''''), (''markup_language'', PStr ''''),
            (''page_content'', PStr ''''), (''input_orthography'', PStr ''''),
            (''output_orthography'', PStr '''')]"
  let ?ws = "[''Lost data when consolidating users: we chose '' @ lsquo @ ''A'' @ rsquo
              @ '' as the val for '' @ lsquo @ ''affiliation'' @ rsquo
              @ '' and the following values were discarded: '' @ lsquo @ ''B'' @ rsquo @ ''.'']"
  have cu: "consolidate_users py2_set_list (\<lambda>v. ''?'') (PDict ?first # ?rest) = Some (?user, ?ws)"
    by code_simp
  have attr: "''affiliation'' \<in> fst ` set ?first" "''affiliation'' \<noteq> ''username''"
    by (simp_all add: old_schemata_user_def dict_set_def)
  have items: "those (map (\<lambda>u. py_item u ''affiliation'') (PDict ?first # ?rest))
      = Some [PStr ''A'', PStr '''', PStr ''B'']"
    by code_simp
  have l: "py2_set_list (filter truthy [PStr ''A'', PStr '''', PStr ''B'']) = [PStr ''A'', PStr ''B'']"
    by code_simp
  have enum: "enumerates py2_set_list (filter truthy [PStr ''A'', PStr '''', PStr ''B''])"
    unfolding enumerates_def l by simp
  note chosen = consolidated_user_value [OF cu attr items enum, THEN conjunct2, THEN conjunct1]
  show ?thesis
    apply (intro conjI)
         apply (rule cu)
        apply (rule attr(1))
       apply (rule items)
      apply (rule enum)
     apply (rule l)
    apply (rule chosen)
    done
qed

text \<open>
  The claim as the specification states it fails where the duplicates arrive with the
  affiliations "B", "", "A": the first non-empty value in the order of arrival is "B",
  and the consolidated user has "A" (as it has when they arrive as "A", "", "B"),
  because the set of CPython 2.7 lists "A" before "B".
\<close>

theorem first_occurrence_counterexample:
  "map_option (\<lambda>st. fst st ''users'')
     (consolidate_resources py2_set_list (\<lambda>v. ''?'')
        (Map.empty(''users'' \<mapsto>
          [PDict (dict_set (dict_set old_schemata_user ''username'' (PStr ''bob'')) ''affiliation'' (PStr ''B'')),
           PDict (dict_set (dict_set old_schemata_user ''username'' (PStr ''bob'')) ''affiliation'' (PStr '''')),
           PDict (dict_set (dict_set old_schemata_user ''username'' (PStr ''bob'')) ''affiliation'' (PStr ''A''))]))
        (Map.empty(''general'' \<mapsto> {})))
   = Some (Some [PDict
       [(''username'', PStr ''bob''), (''password'', PStr ''''), (''password_confirm'', PStr ''''),
        (''first_name'', PStr ''''), (''last_name'', PStr ''''), (''email'', PStr ''''),
        (''affiliation'', PStr ''A''), (''role'', PStr ''''), (''markup_language'', PStr ''''),
        (''page_content'', PStr ''''), (''input_orthography'', PStr ''''),
        (''output_orthography'', PStr '''')]])"
  by code_simp

section \<open>Reading a converted form\<close>

lemma dict_get_set: "dict_get (dict_set d k v) k' = (if k' = k then v else dict_get d k')"
  by (simp add: dict_get_def dict_set_def update_conv')

lemma dict_get_store_other: "k' \<noteq> k \<Longrightarrow> dict_get (store k v f) k' = dict_get f k'"
  by (cases v) (simp_all add: store_def dict_get_set)

lemma dict_get_store_same:
  "dict_get (store k v f) k = (case v of None \<Rightarrow> dict_get f k | Some x \<Rightarrow> x)"
  by (cases v) (simp_all add: store_def dict_get_set)


lemma schema_defaults:
  "dict_get old_schemata_form ''morpheme_break'' = PStr []"
  "dict_get old_schemata_form ''phonetic_transcription'' = PStr []"
  "dict_get old_schemata_form ''grammaticality'' = PStr []"
  "dict_get old_schemata_form ''morpheme_gloss'' = PStr []"
  "dict_get old_schemata_form ''syntax'' = PStr []"
  "dict_get old_schemata_form ''comments'' = PStr []"
  "dict_get old_schemata_form ''date_elicited'' = PStr []"
  "dict_get old_schemata_form ''__lingsync_deleted'' = PNone"
  by (simp_all add: old_schemata_form_def dict_get_def)

lemma case_stored_comments:
  "(case (if c \<noteq> [] then Some (PStr c) else None) of None \<Rightarrow> PStr [] | Some x \<Rightarrow> x) = PStr c"
  by simp

lemma case_stored_date:
  "(case map_option (\<lambda>t. PStr (date_string t)) d of None \<Rightarrow> PStr [] | Some x \<Rightarrow> x)
     = (case d of None \<Rightarrow> PStr [] | Some t \<Rightarrow> PStr (date_string t))"
  by (cases d) simp_all

lemma case_stored_deleted:
  "(case (if b then Some (PBool True) else None) of None \<Rightarrow> PNone | Some x \<Rightarrow> x)
     = (if b then PBool True else PNone)"
  by simp

text \<open>
  What a successful conversion of a datum consists of: the values that the steps
  return, the fields of the form that the claims are about, and the two lists of
  warnings.
\<close>

lemma datum_anatomy:
  assumes "process_lingsync_datum uni ts guess doc cols db = Some obj"
  obtains datum_id datum_fields fs label_warnings ls_judgement ls_morphemes ls_utterance ls_gloss
      ls_translation ls_validationStatus ls_tags ls_syntacticTreeLatex ls_phonetic ls_enteredByUser
      ls_modifiedByUser ls_comments ls_notes ls_syntacticCategory
      date_session_elicited unparseable date_elicited date_warnings files file_warnings speakers
      transcription utl uw mb mtl mw pt ptl pw g gw gc mg gtl glw sx stl sw
      field_comments attr_comments note_comments errored form
  where "dict_item doc ''_id'' = Some datum_id"
    and "dict_item doc ''datumFields'' = Some datum_fields"
    and "py_iter datum_fields = Some fs"
    and "unknown_labels uni datum_known_fields
          ('' not a recognized label in fields for datum '' @ fmt uni datum_id) fs = Some label_warnings"
    and "get_val_from_datum_fields ''judgement'' datum_fields = Some ls_judgement"
    and "get_val_from_datum_fields ''morphemes'' datum_fields = Some ls_morphemes"
    and "get_val_from_datum_fields ''utterance'' datum_fields = Some ls_utterance"
    and "get_val_from_datum_fields ''gloss'' datum_fields = Some ls_gloss"
    and "get_val_from_datum_fields ''translation'' datum_fields = Some ls_translation"
    and "get_val_from_datum_fields ''validationStatus'' datum_fields = Some ls_validationStatus"
    and "get_val_from_datum_fields ''tags'' datum_fields = Some ls_tags"
    and "get_val_from_datum_fields ''syntacticTreeLatex'' datum_fields = Some ls_syntacticTreeLatex"
    and "get_val_from_datum_fields ''phonetic'' datum_fields = Some ls_phonetic"
    and "get_val_from_datum_fields ''enteredByUser'' datum_fields = Some ls_enteredByUser"
    and "get_val_from_datum_fields ''modifiedByUser'' datum_fields = Some ls_modifiedByUser"
    and "get_val_from_datum_fields ''comments'' datum_fields = Some ls_comments"
    and "get_val_from_datum_fields ''notes'' datum_fields = Some ls_notes"
    and "get_val_from_datum_fields ''syntacticCategory'' datum_fields = Some ls_syntacticCategory"
    and "datum_date uni datum_id (dict_get doc ''session'')
          = Some (date_session_elicited, unparseable, date_elicited, date_warnings)"
    and "datum_files uni guess datum_id (dict_get doc ''audioVideo'') = Some (files, file_warnings)"
    and "datum_speakers (dict_get doc ''session'') = Some speakers"
    and "datum_transcription uni datum_id ls_utterance = Some (transcription, utl, uw)"
    and "datum_morphemes uni datum_id ls_morphemes = Some (mb, mtl, mw)"
    and "datum_phonetic uni datum_id ls_phonetic = Some (pt, ptl, pw)"
    and "datum_grammaticality uni ls_judgement = Some (g, gw, gc)"
    and "datum_gloss uni datum_id ls_gloss = Some (mg, gtl, glw)"
    and "datum_syntax uni datum_id ls_syntacticTreeLatex = Some (sx, stl, sw)"
    and "comments_of uni ts ls_comments = Some field_comments"
    and "comments_of uni ts (dict_get doc ''comments'') = Some attr_comments"
    and "(if truthy ls_notes
          then map_option (\<lambda>p. [''LingSync notes: '' @ fmt uni p]) (punctuate_period_safe uni ls_notes)
          else Some []) = Some note_comments"
    and "datum_errored_data uni utl ls_utterance mtl ls_morphemes ptl ls_phonetic gtl ls_gloss
          ls_syntacticCategory stl ls_syntacticTreeLatex = Some errored"
    and "old_value obj = PDict form"
    and "dict_get form ''transcription'' = transcription"
    and "dict_get form ''morpheme_break'' = (case mb of None \<Rightarrow> PStr [] | Some x \<Rightarrow> x)"
    and "dict_get form ''phonetic_transcription'' = (case pt of None \<Rightarrow> PStr [] | Some x \<Rightarrow> x)"
    and "dict_get form ''grammaticality'' = (case g of None \<Rightarrow> PStr [] | Some x \<Rightarrow> x)"
    and "dict_get form ''morpheme_gloss'' = (case mg of None \<Rightarrow> PStr [] | Some x \<Rightarrow> x)"
    and "dict_get form ''syntax'' = (case sx of None \<Rightarrow> PStr [] | Some x \<Rightarrow> x)"
    and "dict_get form ''translations''
          = PList [PDict [(''transcription'',
                           if truthy ls_translation then ls_translation else PStr PLACEHOLDER),
                          (''grammaticality'', PStr [])]]"
    and "dict_get form ''date_elicited''
          = (case date_elicited of None \<Rightarrow> PStr [] | Some t \<Rightarrow> PStr (date_string t))"
    and "dict_get form ''__lingsync_deleted''
          = (if dict_get doc ''trashed'' = PStr ''deleted'' then PBool True else PNone)"
    and "dict_get form ''__lingsync_datum_id'' = datum_id"
    and "dict_get form ''comments''
          = PStr (strip (join nl2 (snd (datum_speakers_notes uni datum_id speakers) @ gc
              @ datum_metadata uni doc datum_id db ls_enteredByUser ls_modifiedByUser unparseable
                  date_session_elicited
              @ field_comments @ attr_comments @ note_comments @ errored)))"
    and "warnings_general obj = elicitor_warnings uni ls_enteredByUser @ gw"
    and "warnings_docspecific obj =
         unknown_attrs datum_known_attrs
           ('' not a recognized attribute in datum '' @ fmt uni datum_id) doc
         @ label_warnings @ date_warnings @ file_warnings
         @ (if truthy (dict_get doc ''images'')
            then [''Datum '' @ fmt uni datum_id @ '' has an `images` attribute that has been ignored.'']
            else [])
         @ snd (datum_field_tags uni datum_id ls_tags)
         @ snd (datum_attr_tags uni datum_id (dict_get doc ''datumTags''))
         @ fst (datum_speakers_notes uni datum_id speakers)
         @ (if truthy ls_validationStatus \<and> ls_validationStatus \<noteq> PStr ''Checked''
            then [''Unrecognized validationStatus '' @ lsquo @ fmt uni ls_validationStatus @ rsquo
                    @ '' in datum '' @ fmt uni datum_id] else [])
         @ uw @ mw @ pw @ glw @ sw"
proof -
  from assms show ?thesis
    apply (clarsimp simp add: process_lingsync_datum_def Let_def bind_eq_Some_conv
        simp del: append.simps split: prod.splits)
    apply (rule that)
    apply assumption+
    apply simp
    apply (simp_all add: dict_get_store_other dict_get_store_same dict_get_set schema_defaults
        case_stored_comments case_stored_date case_stored_deleted del: append.simps
        cong: option.case_cong)
    done
qed

section \<open>The repair of grammaticality judgements\<close>

lemma dropWhile_keeps:
  assumes "x \<noteq> []" and "\<not> P (hd x)"
  shows "\<exists>a'. dropWhile P (a @ x @ b) = a' @ x @ b"
proof (cases "\<forall>c\<in>set a. P c")
  case True
  with assms have "dropWhile P (a @ x @ b) = [] @ x @ b"
    by (cases x) (simp_all add: dropWhile_append)
  then show ?thesis by blast
next
  case False
  then have "dropWhile P (a @ x @ b) = dropWhile P a @ x @ b"
    by (auto simp: dropWhile_append)
  then show ?thesis by blast
qed

lemma strip_keeps:
  assumes "sublist x s" and "x \<noteq> []" and "\<not> is_space (hd x)" and "\<not> is_space (last x)"
  shows "sublist x (strip s)"
proof -
  from assms(1) obtain a b where s: "s = a @ x @ b" by (auto simp: sublist_def)
  from dropWhile_keeps [of x is_space a b] assms(2,3) obtain a' where
    a': "dropWhile is_space (a @ x @ b) = a' @ x @ b" by blast
  have "rev x \<noteq> []" "\<not> is_space (hd (rev x))"
    using assms(2,4) by (simp_all add: hd_rev)
  with dropWhile_keeps [of "rev x" is_space "rev b" "rev a'"] obtain b' where
    b': "dropWhile is_space (rev b @ rev x @ rev a') = b' @ rev x @ rev a'" by blast
  have "strip s = a' @ x @ rev b'"
    by (simp add: strip_def s a' b')
  then show ?thesis by (auto simp: sublist_def)
qed

lemma join_characters: "join [] (map (\<lambda>c. [c]) cs) = cs"
proof (induction cs)
  case Nil
  then show ?case by simp
next
  case (Cons c cs)
  then show ?case by (cases cs) simp_all
qed

lemma the_strings_characters: "the_strings (map (\<lambda>c. PStr [c]) cs) = Some (map (\<lambda>c. [c]) cs)"
  by (induction cs) simp_all

lemma takeWhile_markers:
  "takeWhile (\<lambda>char. char \<in> set grammaticality_markers) (map (\<lambda>c. PStr [c]) j)
     = map (\<lambda>c. PStr [c]) (takeWhile (\<lambda>c. c \<in> set ''*?#!'') j)"
  by (induction j) (auto simp: grammaticality_markers_def)

lemma grammaticality_prefix:
  "join_vals [] (takeWhile (\<lambda>char. char \<in> set grammaticality_markers) (map (\<lambda>c. PStr [c]) j))
     = Some (takeWhile (\<lambda>c. c \<in> set ''*?#!'') j)"
  by (simp add: takeWhile_markers join_vals_def the_strings_characters join_characters)

lemma datum_grammaticality_string:
  "datum_grammaticality uni (PStr j) = Some
     (if 3 < length j
      then (Some (PStr (takeWhile (\<lambda>c. c \<in> set ''*?#!'') j)), [grammaticality_warning],
            [punctuate (''Comment from LingSync judgement field: '' @ j)])
      else if j = [] then (None, [], []) else (Some (PStr j), [], []))"
  by (auto simp: datum_grammaticality_def py_len_def py_iter_def grammaticality_prefix fmt_def
      simp del: append.simps)

lemma punctuate_comment:
  "sublist j (punctuate (p # ps @ j))"
  "punctuate (p # ps @ j) \<noteq> []"
  "hd (punctuate (p # ps @ j)) = p"
  "last (punctuate (p # ps @ j)) \<in> set ''?.!''"
  by (auto simp: punctuate_def sublist_def intro: exI [of _ "p # ps"])

lemma not_an_elicitor_warning: "grammaticality_warning \<notin> set (elicitor_warnings uni e)"
  by (simp add: grammaticality_warning_def elicitor_warnings_def)

lemma sublist_of_comments:
  assumes "x \<in> set paragraphs" and "x \<noteq> []" and "\<not> is_space (hd x)"
    and "\<not> is_space (last x)" and "sublist j x"
  shows "sublist j (strip (join nl2 paragraphs))"
proof -
  have "sublist x (strip (join nl2 paragraphs))"
    using assms(1-4) by (intro strip_keeps sublist_join)
  with assms(5) show ?thesis by (rule sublist_order.order_trans)
qed

text \<open>
  C8. A judgement of more than three characters: the grammaticality of the form is the
  longest prefix of the judgement made of the characters \<^verbatim>\<open>*\<close>, \<^verbatim>\<open>?\<close>, \<^verbatim>\<open>#\<close> and \<^verbatim>\<open>!\<close>,
  the comments of the form contain the judgement (so also what follows that prefix), and
  the general warning is given. A judgement of three characters or fewer is the
  grammaticality as it is, and that warning is not given.
\<close>

theorem judgement_repair:
  assumes "process_lingsync_datum uni ts guess doc cols db = Some obj"
    and "dict_item doc ''datumFields'' = Some datum_fields"
    and "get_val_from_datum_fields ''judgement'' datum_fields = Some (PStr j)"
  shows "\<exists>form comments. old_value obj = PDict form
    \<and> dict_get form ''comments'' = PStr comments
    \<and> (if 3 < length j
        then dict_get form ''grammaticality'' = PStr (takeWhile (\<lambda>c. c \<in> set ''*?#!'') j)
          \<and> sublist j comments
          \<and> sublist (dropWhile (\<lambda>c. c \<in> set ''*?#!'') j) comments
          \<and> grammaticality_warning \<in> set (warnings_general obj)
        else dict_get form ''grammaticality'' = PStr j
          \<and> grammaticality_warning \<notin> set (warnings_general obj))"
proof -
  from assms(1) obtain datum_id fields ls_judgement ls_enteredByUser g gw gc form pre post
    where f: "dict_item doc ''datumFields'' = Some fields"
      and j: "get_val_from_datum_fields ''judgement'' fields = Some ls_judgement"
      and dg: "datum_grammaticality uni ls_judgement = Some (g, gw, gc)"
      and v: "old_value obj = PDict form"
      and gr: "dict_get form ''grammaticality'' = (case g of None \<Rightarrow> PStr [] | Some x \<Rightarrow> x)"
      and co: "dict_get form ''comments'' = PStr (strip (join nl2 (pre @ gc @ post)))"
      and wg: "warnings_general obj = elicitor_warnings uni ls_enteredByUser @ gw"
    by (rule datum_anatomy) blast
  from f j assms(2,3) have "ls_judgement = PStr j" by simp
  with dg have dg': "(g, gw, gc) =
     (if 3 < length j
      then (Some (PStr (takeWhile (\<lambda>c. c \<in> set ''*?#!'') j)), [grammaticality_warning],
            [punctuate (''Comment from LingSync judgement field: '' @ j)])
      else if j = [] then (None, [], []) else (Some (PStr j), [], []))"
    by (simp add: datum_grammaticality_string)
  show ?thesis
  proof (cases "3 < length j")
    case True
    define x where "x = punctuate (''Comment from LingSync judgement field: '' @ j)"
    from True dg' have g: "g = Some (PStr (takeWhile (\<lambda>c. c \<in> set ''*?#!'') j))"
      and gw: "gw = [grammaticality_warning]" and gc: "gc = [x]"
      by (simp_all add: x_def)
    have x: "sublist j x" "x \<noteq> []" "\<not> is_space (hd x)" "\<not> is_space (last x)"
      using punctuate_comment [where j = j and p = "CHR ''C''"
          and ps = "''omment from LingSync judgement field: ''"]
      by (auto simp: x_def is_space_def)
    have "x \<in> set (pre @ gc @ post)" by (simp add: gc)
    then have in_comments: "sublist j (strip (join nl2 (pre @ gc @ post)))"
      using x by (intro sublist_of_comments [of x]) simp_all
    have "sublist (dropWhile (\<lambda>c. c \<in> set ''*?#!'') j) j"
      by (rule suffix_imp_sublist) (rule suffix_dropWhile)
    then have "sublist (dropWhile (\<lambda>c. c \<in> set ''*?#!'') j)
        (strip (join nl2 (pre @ gc @ post)))"
      using in_comments by (rule sublist_order.order_trans)
    with True v co gr wg g gw in_comments show ?thesis by simp
  next
    case False
    with dg' have "gw = []" and "(case g of None \<Rightarrow> PStr [] | Some x \<Rightarrow> x) = PStr j"
      by (auto split: if_splits)
    with False v co gr wg show ?thesis by (simp add: not_an_elicitor_warning)
  qed
qed

theorem judgement_repair_witness:
  "\<exists>obj. process_lingsync_datum (\<lambda>v. ''?'') (\<lambda>v. None) (\<lambda>v. Some PNone)
        [(''_id'', PStr ''d1''),
         (''datumFields'', PList [PDict [(''label'', PStr ''judgement''), (''value'', PStr ''*?odd'')]])]
        [] ''db'' = Some obj
     \<and> dict_item
          [(''_id'', PStr ''d1''),
           (''datumFields'', PList [PDict [(''label'', PStr ''judgement''), (''value'', PStr ''*?odd'')]])]
          ''datumFields''
        = Some (PList [PDict [(''label'', PStr ''judgement''), (''value'', PStr ''*?odd'')]])
     \<and> get_val_from_datum_fields ''judgement''
          (PList [PDict [(''label'', PStr ''judgement''), (''value'', PStr ''*?odd'')]])
        = Some (PStr ''*?odd'')
     \<and> (\<exists>form comments. old_value obj = PDict form
          \<and> dict_get form ''comments'' = PStr comments
          \<and> dict_get form ''grammaticality'' = PStr ''*?''
          \<and> sublist ''*?odd'' comments
          \<and> sublist ''odd'' comments
          \<and> grammaticality_warning \<in> set (warnings_general obj))"
proof -
  have "process_lingsync_datum (\<lambda>v. ''?'') (\<lambda>v. None) (\<lambda>v. Some PNone)
        [(''_id'', PStr ''d1''),
         (''datumFields'', PList [PDict [(''label'', PStr ''judgement''), (''value'', PStr ''*?odd'')]])]
        [] ''db'' \<noteq> None"
    by code_simp
  then obtain obj where h1: "process_lingsync_datum (\<lambda>v. ''?'') (\<lambda>v. None) (\<lambda>v. Some PNone)
        [(''_id'', PStr ''d1''),
         (''datumFields'', PList [PDict [(''label'', PStr ''judgement''), (''value'', PStr ''*?odd'')]])]
        [] ''db'' = Some obj"
    by blast
  have h2: "dict_item
          [(''_id'', PStr ''d1''),
           (''datumFields'', PList [PDict [(''label'', PStr ''judgement''), (''value'', PStr ''*?odd'')]])]
          ''datumFields''
        = Some (PList [PDict [(''label'', PStr ''judgement''), (''value'', PStr ''*?odd'')]])"
    by (simp add: dict_item_def)
  have h3: "get_val_from_datum_fields ''judgement''
          (PList [PDict [(''label'', PStr ''judgement''), (''value'', PStr ''*?odd'')]])
        = Some (PStr ''*?odd'')"
    by code_simp
  from judgement_repair [OF h1 h2 h3] obtain form comments where
    "old_value obj = PDict form" "dict_get form ''comments'' = PStr comments"
    "dict_get form ''grammaticality'' = PStr ''*?''" "sublist ''*?odd'' comments"
    "sublist ''odd'' comments" "grammaticality_warning \<in> set (warnings_general obj)"
    by auto
  with h1 h2 h3 show ?thesis by blast
qed

section \<open>Deleted datums and deleted sessions\<close>




lemma deleted_datum_is_flagged:
  assumes "process_lingsync_datum uni ts guess doc cols db = Some obj"
    and "dict_get doc ''trashed'' = PStr ''deleted''"
  shows "\<exists>form. old_value obj = PDict form \<and> dict_get form ''__lingsync_deleted'' = PBool True"
proof -
  from assms(1) obtain form where "old_value obj = PDict form"
    and "dict_get form ''__lingsync_deleted''
          = (if dict_get doc ''trashed'' = PStr ''deleted'' then PBool True else PNone)"
    by (rule datum_anatomy) blast
  with assms(2) show ?thesis by simp
qed

subsection \<open>The requests of the upload extend the trace\<close>

lemma snd_orcrash: "snd (orcrash v tr) = tr"
  by (simp add: orcrash_def split: option.splits)

lemma prefix_send: "prefix tr (snd (send srv req tr))"
  by (simp add: send_def split: reply.splits)


lemma prefix_andthen:
  assumes "prefix tr (snd m)" and "\<And>x tr'. prefix tr tr' \<Longrightarrow> prefix tr (snd (k x tr'))"
  shows "prefix tr (snd (andthen m k))"
proof (cases m)
  case (Pair res tr')
  with assms show ?thesis by (cases res) (simp_all add: andthen_def)
qed

lemma prefix_via: "prefix tr tr' \<Longrightarrow> prefix tr' tr'' \<Longrightarrow> prefix tr tr''"
  by (rule prefix_order.order_trans)






lemma append_migration_tag_keeps:
  "append_migration_tag t f = Some f' \<Longrightarrow> k \<noteq> ''tags'' \<Longrightarrow> dict_get f' k = dict_get f k"
  by (auto simp: append_migration_tag_def dict_get_set split: option.splits pyval.splits)







section \<open>The placeholder for a missing transcription or translation\<close>

lemma no_utterance: "\<not> truthy u \<Longrightarrow> datum_transcription uni i u = Some (PStr ''PLACEHOLDER'', False, [])"
  by (simp add: datum_transcription_def PLACEHOLDER_def)

text \<open>
  C6. A datum without utterance is converted to a form with the transcription
  \<^verbatim>\<open>PLACEHOLDER\<close>, and a datum without translation to a form with one translation, of
  the transcription \<^verbatim>\<open>PLACEHOLDER\<close>. No warning is made for it. The general warnings
  are those for the elicitor and the judgement. The warnings of the document are, in
  every case, those for the attributes, the labels, the date, the files, the images,
  the tags, the speakers, the validation status, the utterance, the morphemes, the
  phonetic value, the gloss and the syntax, and nothing else: none of them is about
  the translation, and those for the utterance are none when there is no utterance.
\<close>

theorem placeholder_fallback:
  assumes "process_lingsync_datum uni ts guess doc cols db = Some obj"
    and "dict_item doc ''_id'' = Some datum_id"
    and "dict_item doc ''datumFields'' = Some datum_fields"
    and "get_val_from_datum_fields ''utterance'' datum_fields = Some ls_utterance"
    and "get_val_from_datum_fields ''translation'' datum_fields = Some ls_translation"
  shows "\<exists>form fs label_warnings date_session_elicited unparseable date_elicited date_warnings
      files file_warnings speakers ls_tags ls_validationStatus ls_morphemes mb mtl mw
      ls_phonetic pt ptl pw ls_gloss mg gtl glw ls_syntacticTreeLatex sx stl sw
      ls_enteredByUser ls_judgement g gw gc transcription utl uw.
      old_value obj = PDict form
    \<and> (\<not> truthy ls_utterance \<longrightarrow> dict_get form ''transcription'' = PStr ''PLACEHOLDER'')
    \<and> (\<not> truthy ls_translation \<longrightarrow> dict_get form ''translations''
          = PList [PDict [(''transcription'', PStr ''PLACEHOLDER''), (''grammaticality'', PStr [])]])
    \<and> get_val_from_datum_fields ''enteredByUser'' datum_fields = Some ls_enteredByUser
    \<and> get_val_from_datum_fields ''judgement'' datum_fields = Some ls_judgement
    \<and> datum_grammaticality uni ls_judgement = Some (g, gw, gc)
    \<and> warnings_general obj = elicitor_warnings uni ls_enteredByUser @ gw
    \<and> py_iter datum_fields = Some fs
    \<and> unknown_labels uni datum_known_fields
          ('' not a recognized label in fields for datum '' @ fmt uni datum_id) fs = Some label_warnings
    \<and> datum_date uni datum_id (dict_get doc ''session'')
          = Some (date_session_elicited, unparseable, date_elicited, date_warnings)
    \<and> datum_files uni guess datum_id (dict_get doc ''audioVideo'') = Some (files, file_warnings)
    \<and> datum_speakers (dict_get doc ''session'') = Some speakers
    \<and> get_val_from_datum_fields ''tags'' datum_fields = Some ls_tags
    \<and> get_val_from_datum_fields ''validationStatus'' datum_fields = Some ls_validationStatus
    \<and> get_val_from_datum_fields ''morphemes'' datum_fields = Some ls_morphemes
    \<and> datum_morphemes uni datum_id ls_morphemes = Some (mb, mtl, mw)
    \<and> get_val_from_datum_fields ''phonetic'' datum_fields = Some ls_phonetic
    \<and> datum_phonetic uni datum_id ls_phonetic = Some (pt, ptl, pw)
    \<and> get_val_from_datum_fields ''gloss'' datum_fields = Some ls_gloss
    \<and> datum_gloss uni datum_id ls_gloss = Some (mg, gtl, glw)
    \<and> get_val_from_datum_fields ''syntacticTreeLatex'' datum_fields = Some ls_syntacticTreeLatex
    \<and> datum_syntax uni datum_id ls_syntacticTreeLatex = Some (sx, stl, sw)
    \<and> datum_transcription uni datum_id ls_utterance = Some (transcription, utl, uw)
    \<and> (\<not> truthy ls_utterance \<longrightarrow> uw = [])
    \<and> warnings_docspecific obj =
         unknown_attrs datum_known_attrs
           ('' not a recognized attribute in datum '' @ fmt uni datum_id) doc
         @ label_warnings @ date_warnings @ file_warnings
         @ (if truthy (dict_get doc ''images'')
            then [''Datum '' @ fmt uni datum_id @ '' has an `images` attribute that has been ignored.'']
            else [])
         @ snd (datum_field_tags uni datum_id ls_tags)
         @ snd (datum_attr_tags uni datum_id (dict_get doc ''datumTags''))
         @ fst (datum_speakers_notes uni datum_id speakers)
         @ (if truthy ls_validationStatus \<and> ls_validationStatus \<noteq> PStr ''Checked''
            then [''Unrecognized validationStatus '' @ lsquo @ fmt uni ls_validationStatus @ rsquo
                    @ '' in datum '' @ fmt uni datum_id] else [])
         @ uw @ mw @ pw @ glw @ sw"
proof -
  obtain datum_id' datum_fields' fs label_warnings ls_judgement ls_morphemes
      ls_utterance' ls_gloss ls_translation' ls_validationStatus ls_tags ls_syntacticTreeLatex
      ls_phonetic ls_enteredByUser
      date_session_elicited unparseable date_elicited date_warnings files file_warnings speakers
      transcription utl uw mb mtl mw pt ptl pw g gw gc mg gtl glw sx stl sw form
  where a: "dict_item doc ''_id'' = Some datum_id'"
    "dict_item doc ''datumFields'' = Some datum_fields'"
    "get_val_from_datum_fields ''utterance'' datum_fields' = Some ls_utterance'"
    "get_val_from_datum_fields ''translation'' datum_fields' = Some ls_translation'"
    and b: "py_iter datum_fields' = Some fs"
    "unknown_labels uni datum_known_fields
          ('' not a recognized label in fields for datum '' @ fmt uni datum_id') fs = Some label_warnings"
    "get_val_from_datum_fields ''judgement'' datum_fields' = Some ls_judgement"
    "get_val_from_datum_fields ''morphemes'' datum_fields' = Some ls_morphemes"
    "get_val_from_datum_fields ''gloss'' datum_fields' = Some ls_gloss"
    "get_val_from_datum_fields ''validationStatus'' datum_fields' = Some ls_validationStatus"
    "get_val_from_datum_fields ''tags'' datum_fields' = Some ls_tags"
    "get_val_from_datum_fields ''syntacticTreeLatex'' datum_fields' = Some ls_syntacticTreeLatex"
    "get_val_from_datum_fields ''phonetic'' datum_fields' = Some ls_phonetic"
    "get_val_from_datum_fields ''enteredByUser'' datum_fields' = Some ls_enteredByUser"
    "datum_date uni datum_id' (dict_get doc ''session'')
          = Some (date_session_elicited, unparseable, date_elicited, date_warnings)"
    "datum_files uni guess datum_id' (dict_get doc ''audioVideo'') = Some (files, file_warnings)"
    "datum_speakers (dict_get doc ''session'') = Some speakers"
    "datum_morphemes uni datum_id' ls_morphemes = Some (mb, mtl, mw)"
    "datum_phonetic uni datum_id' ls_phonetic = Some (pt, ptl, pw)"
    "datum_grammaticality uni ls_judgement = Some (g, gw, gc)"
    "datum_gloss uni datum_id' ls_gloss = Some (mg, gtl, glw)"
    "datum_syntax uni datum_id' ls_syntacticTreeLatex = Some (sx, stl, sw)"
    "old_value obj = PDict form"
    "warnings_general obj = elicitor_warnings uni ls_enteredByUser @ gw"
    and t: "datum_transcription uni datum_id' ls_utterance' = Some (transcription, utl, uw)"
    "dict_get form ''transcription'' = transcription"
    "dict_get form ''translations''
          = PList [PDict [(''transcription'',
                           if truthy ls_translation' then ls_translation' else PStr PLACEHOLDER),
                          (''grammaticality'', PStr [])]]"
    and w: "warnings_docspecific obj =
         unknown_attrs datum_known_attrs
           ('' not a recognized attribute in datum '' @ fmt uni datum_id') doc
         @ label_warnings @ date_warnings @ file_warnings
         @ (if truthy (dict_get doc ''images'')
            then [''Datum '' @ fmt uni datum_id' @ '' has an `images` attribute that has been ignored.'']
            else [])
         @ snd (datum_field_tags uni datum_id' ls_tags)
         @ snd (datum_attr_tags uni datum_id' (dict_get doc ''datumTags''))
         @ fst (datum_speakers_notes uni datum_id' speakers)
         @ (if truthy ls_validationStatus \<and> ls_validationStatus \<noteq> PStr ''Checked''
            then [''Unrecognized validationStatus '' @ lsquo @ fmt uni ls_validationStatus @ rsquo
                    @ '' in datum '' @ fmt uni datum_id'] else [])
         @ uw @ mw @ pw @ glw @ sw"
    by (atomize_elim, rule datum_anatomy [OF assms(1)], (intro exI conjI; assumption))
  from a assms(2-5) have same: "datum_id' = datum_id" "datum_fields' = datum_fields"
    "ls_utterance' = ls_utterance" "ls_translation' = ls_translation"
    by simp_all
  have 1: "\<not> truthy ls_utterance \<longrightarrow> dict_get form ''transcription'' = PStr ''PLACEHOLDER''"
    using t(1,2) by (auto simp: same no_utterance)
  have 2: "\<not> truthy ls_translation \<longrightarrow> dict_get form ''translations''
          = PList [PDict [(''transcription'', PStr ''PLACEHOLDER''), (''grammaticality'', PStr [])]]"
    using t(3) by (simp add: same PLACEHOLDER_def)
  have 3: "\<not> truthy ls_utterance \<longrightarrow> uw = []"
    using t(1) by (auto simp: same no_utterance)
  from b [unfolded same] 1 2 t(1) [unfolded same] 3 w [unfolded same] show ?thesis
    apply (intro exI conjI)
    apply assumption+
    done
qed

theorem placeholder_fallback_witness:
  "\<exists>obj form.
     process_lingsync_datum (\<lambda>v. ''?'') (\<lambda>v. None) (\<lambda>v. Some PNone)
       [(''_id'', PStr ''d1''), (''datumFields'', PList [])] [] ''db'' = Some obj
   \<and> dict_item [(''_id'', PStr ''d1''), (''datumFields'', PList [])] ''_id'' = Some (PStr ''d1'')
   \<and> dict_item [(''_id'', PStr ''d1''), (''datumFields'', PList [])] ''datumFields'' = Some (PList [])
   \<and> get_val_from_datum_fields ''utterance'' (PList []) = Some PNone
   \<and> get_val_from_datum_fields ''translation'' (PList []) = Some PNone
   \<and> old_value obj = PDict form
   \<and> dict_get form ''transcription'' = PStr ''PLACEHOLDER''
   \<and> dict_get form ''translations''
        = PList [PDict [(''transcription'', PStr ''PLACEHOLDER''), (''grammaticality'', PStr [])]]
   \<and> warnings_general obj = []
   \<and> warnings_docspecific obj = []"
proof -
  define doc where "doc = [(''_id'', PStr ''d1''), (''datumFields'', PList [])]"
  have "process_lingsync_datum (\<lambda>v. ''?'') (\<lambda>v. None) (\<lambda>v. Some PNone) doc [] ''db'' \<noteq> None"
    unfolding doc_def by code_simp
  then obtain obj where h1:
    "process_lingsync_datum (\<lambda>v. ''?'') (\<lambda>v. None) (\<lambda>v. Some PNone) doc [] ''db'' = Some obj"
    by blast
  have h2: "dict_item doc ''_id'' = Some (PStr ''d1'')"
    by (simp add: doc_def dict_item_def)
  have h3: "dict_item doc ''datumFields'' = Some (PList [])"
    by (simp add: doc_def dict_item_def)
  have h4: "get_val_from_datum_fields ''utterance'' (PList []) = Some PNone"
    by code_simp
  have h5: "get_val_from_datum_fields ''translation'' (PList []) = Some PNone"
    by code_simp
  obtain form where form: "old_value obj = PDict form"
    and "\<not> truthy PNone \<longrightarrow> dict_get form ''transcription'' = PStr ''PLACEHOLDER''"
    and "\<not> truthy PNone \<longrightarrow> dict_get form ''translations''
          = PList [PDict [(''transcription'', PStr ''PLACEHOLDER''), (''grammaticality'', PStr [])]]"
    by (atomize_elim, insert placeholder_fallback [OF h1 h2 h3 h4 h5], elim exE conjE,
        (intro exI conjI; assumption))
  then have placeholders: "dict_get form ''transcription'' = PStr ''PLACEHOLDER''"
    "dict_get form ''translations''
          = PList [PDict [(''transcription'', PStr ''PLACEHOLDER''), (''grammaticality'', PStr [])]]"
    by simp_all
  have "warnings_general (the (process_lingsync_datum (\<lambda>v. ''?'') (\<lambda>v. None) (\<lambda>v. Some PNone)
      doc [] ''db'')) = []"
    unfolding doc_def by code_simp
  with h1 have general: "warnings_general obj = []" by simp
  have "warnings_docspecific (the (process_lingsync_datum (\<lambda>v. ''?'') (\<lambda>v. None) (\<lambda>v. Some PNone)
      doc [] ''db'')) = []"
    unfolding doc_def by code_simp
  with h1 have docspecific: "warnings_docspecific obj = []" by simp
  have "\<exists>obj form.
     process_lingsync_datum (\<lambda>v. ''?'') (\<lambda>v. None) (\<lambda>v. Some PNone) doc [] ''db'' = Some obj
   \<and> dict_item doc ''_id'' = Some (PStr ''d1'')
   \<and> dict_item doc ''datumFields'' = Some (PList [])
   \<and> get_val_from_datum_fields ''utterance'' (PList []) = Some PNone
   \<and> get_val_from_datum_fields ''translation'' (PList []) = Some PNone
   \<and> old_value obj = PDict form
   \<and> dict_get form ''transcription'' = PStr ''PLACEHOLDER''
   \<and> dict_get form ''translations''
        = PList [PDict [(''transcription'', PStr ''PLACEHOLDER''), (''grammaticality'', PStr [])]]
   \<and> warnings_general obj = []
   \<and> warnings_docspecific obj = []"
    apply (rule exI [of _ obj], rule exI [of _ form])
    apply (intro conjI)
             apply (rule h1)
            apply (rule h2)
           apply (rule h3)
          apply (rule h4)
         apply (rule h5)
        apply (rule form)
       apply (rule placeholders(1))
      apply (rule placeholders(2))
     apply (rule general)
    apply (rule docspecific)
    done
  then show ?thesis
    unfolding doc_def .
qed

section \<open>Values that are too long\<close>

lemma last_dropWhile: "dropWhile P xs \<noteq> [] \<Longrightarrow> last (dropWhile P xs) = last xs"
  by (induction xs) auto

lemma strip_ends:
  assumes "strip s \<noteq> []"
  shows "\<not> is_space (hd (strip s))" and "\<not> is_space (last (strip s))"
proof -
  define t where "t = dropWhile is_space s"
  define u where "u = dropWhile is_space (rev t)"
  have s: "strip s = rev u" by (simp add: strip_def t_def u_def)
  with assms have u: "u \<noteq> []" by simp
  then have "\<not> is_space (hd u)" unfolding u_def by (rule hd_dropWhile)
  with u show "\<not> is_space (last (strip s))" by (simp add: s last_rev)
  from u have t: "t \<noteq> []" by (auto simp: u_def)
  then have "\<not> is_space (hd t)" unfolding t_def by (rule hd_dropWhile)
  moreover from u have "last u = last (rev t)" unfolding u_def by (rule last_dropWhile)
  ultimately show "\<not> is_space (hd (strip s))" using u t by (simp add: s hd_rev last_rev)
qed

text \<open>What one field gives when its value is a string longer than the bound.\<close>

lemma too_long_transcription:
  "255 < length s \<Longrightarrow> datum_transcription uni i (PStr s) = Some (PStr (take 255 s), True,
     [''The utterance '' @ dquote @ s @ dquote @ '' of datum '' @ fmt uni i
        @ '' is too long and will be truncated.''])"
  by (auto simp: datum_transcription_def py_len_def py_slice_to_def fmt_def simp del: append.simps)

lemma too_long_field:
  "limit < length s \<Longrightarrow>
     bounded_field limit keep msg (PStr s) = Some (Some (PStr (take keep s)), True, [msg])"
  by (auto simp: bounded_field_def py_len_def py_slice_to_def)

text \<open>The paragraph of the values without truncation holds each value that was cut.\<close>

lemma untruncated_mentions:
  assumes "untruncated uni True (l # label) (PStr s) = Some xs" and "\<not> is_space l"
  shows "\<exists>x. xs = [x] \<and> sublist s x \<and> x \<noteq> [] \<and> \<not> is_space (hd x) \<and> \<not> is_space (last x)"
proof -
  from assms(1) obtain s' where xs: "xs = [(l # label) @ lsquo @ s' @ rsquo]"
    and s': "s' = s \<or> s' = s @ ''.''"
    by (auto simp: untruncated_def punctuate_period_safe_def fmt_def split: if_splits)
  from s' have "sublist s ((l # label) @ lsquo @ s' @ rsquo)"
    by (auto simp: sublist_def intro: exI [of _ "(l # label) @ lsquo"])
  with xs assms(2) show ?thesis
    by (simp add: rsquo_def is_space_def)
qed

lemma paragraph_mentions:
  assumes "x \<in> set xs" and "sublist s x" and "x \<noteq> []" and "\<not> is_space (hd x)"
    and "\<not> is_space (last x)"
  shows "sublist s (strip (join sep xs)) \<and> strip (join sep xs) \<noteq> []"
proof -
  have "sublist x (strip (join sep xs))"
    using assms(1,3,4,5) by (intro strip_keeps sublist_join)
  moreover from this assms(3) have "strip (join sep xs) \<noteq> []" by auto
  ultimately show ?thesis using assms(2) sublist_order.order_trans by blast
qed

lemma errored_mentions:
  assumes "datum_errored_data uni utl u mtl m ptl p gtl g cat stl sx = Some errored"
    and "(utl \<and> u = PStr s) \<or> (mtl \<and> m = PStr s) \<or> (ptl \<and> p = PStr s) \<or> (gtl \<and> g = PStr s)
      \<or> (stl \<and> sx = PStr s)"
  shows "\<exists>par. errored = [par] \<and> sublist s par \<and> par \<noteq> [] \<and> \<not> is_space (hd par)
    \<and> \<not> is_space (last par)"
proof -
  from assms(1) obtain ul ml pl gl sl where
    parts: "untruncated uni utl ''LingSync datum utterance value without truncation: '' u = Some ul"
      "untruncated uni mtl ''LingSync morphemes value without truncation: '' m = Some ml"
      "untruncated uni ptl ''LingSync phonetic value without truncation: '' p = Some pl"
      "untruncated uni gtl ''LingSync datum gloss value without truncation: '' g = Some gl"
      "untruncated uni stl ''LingSync datum syntacticTreeLatex value without truncation: '' sx
         = Some sl"
    and errored: "errored = (let par = strip (join '' '' (ul @ ml @ pl @ gl
        @ (if truthy cat then [''LingSync syntacticCategory value: '' @ lsquo @ fmt uni cat @ rsquo]
           else [])
        @ sl)) in if par \<noteq> [] then [par] else [])"
    by (auto simp: datum_errored_data_def bind_eq_Some_conv Let_def simp del: append.simps)
  define xs where "xs = ul @ ml @ pl @ gl
        @ (if truthy cat then [''LingSync syntacticCategory value: '' @ lsquo @ fmt uni cat @ rsquo]
           else [])
        @ sl"
  have L: "\<not> is_space CHR ''L''" by (simp add: is_space_def)
  from assms(2) parts have "\<exists>x \<in> set xs. sublist s x \<and> x \<noteq> [] \<and> \<not> is_space (hd x)
      \<and> \<not> is_space (last x)"
    using untruncated_mentions [OF _ L, of uni _ s] unfolding xs_def
    by (elim disjE) fastforce+
  then obtain x where "x \<in> set xs" "sublist s x" "x \<noteq> []" "\<not> is_space (hd x)"
    "\<not> is_space (last x)" by blast
  from paragraph_mentions [OF this, of "'' ''"]
  have "sublist s (strip (join '' '' xs))" "strip (join '' '' xs) \<noteq> []" by simp_all
  with errored strip_ends [of "join '' '' xs"] show ?thesis
    by (simp add: xs_def Let_def del: append.simps)
qed

text \<open>
  C5. A string longer than 255 characters in the utterance, the morphemes, the phonetic
  value or the gloss is cut to its first 255 characters in the form; the comments of
  the form contain the whole string, and the warnings of the document contain the
  message about it. The same holds for a \<^verbatim>\<open>syntacticTreeLatex\<close> longer than 1023
  characters, except that it is cut to its first 255 characters, not to 1023; up to 1023
  characters it is stored whole.
\<close>

theorem truncation:
  assumes "process_lingsync_datum uni ts guess doc cols db = Some obj"
    and "dict_item doc ''_id'' = Some datum_id"
    and "dict_item doc ''datumFields'' = Some datum_fields"
  shows "\<exists>form comments. old_value obj = PDict form \<and> dict_get form ''comments'' = PStr comments
    \<and> (\<forall>s. get_val_from_datum_fields ''utterance'' datum_fields = Some (PStr s) \<longrightarrow> 255 < length s
          \<longrightarrow> dict_get form ''transcription'' = PStr (take 255 s) \<and> sublist s comments
            \<and> ''The utterance '' @ dquote @ s @ dquote @ '' of datum '' @ fmt uni datum_id
                 @ '' is too long and will be truncated.'' \<in> set (warnings_docspecific obj))
    \<and> (\<forall>s. get_val_from_datum_fields ''morphemes'' datum_fields = Some (PStr s) \<longrightarrow> 255 < length s
          \<longrightarrow> dict_get form ''morpheme_break'' = PStr (take 255 s) \<and> sublist s comments
            \<and> ''The morphemes '' @ dquote @ s @ dquote @ '' of datum '' @ fmt uni datum_id
                 @ '' is too long and will be truncated.'' \<in> set (warnings_docspecific obj))
    \<and> (\<forall>s. get_val_from_datum_fields ''phonetic'' datum_fields = Some (PStr s) \<longrightarrow> 255 < length s
          \<longrightarrow> dict_get form ''phonetic_transcription'' = PStr (take 255 s) \<and> sublist s comments
            \<and> ''The phonetic value '' @ dquote @ s @ dquote @ '' of datum '' @ fmt uni datum_id
                 @ '' is too long and will be truncated.'' \<in> set (warnings_docspecific obj))
    \<and> (\<forall>s. get_val_from_datum_fields ''gloss'' datum_fields = Some (PStr s) \<longrightarrow> 255 < length s
          \<longrightarrow> dict_get form ''morpheme_gloss'' = PStr (take 255 s) \<and> sublist s comments
            \<and> ''The gloss '' @ dquote @ s @ dquote @ '' of datum '' @ fmt uni datum_id
                 @ '' is too long and will be truncated.'' \<in> set (warnings_docspecific obj))
    \<and> (\<forall>s. get_val_from_datum_fields ''syntacticTreeLatex'' datum_fields = Some (PStr s)
          \<longrightarrow> 1023 < length s
          \<longrightarrow> dict_get form ''syntax'' = PStr (take 255 s) \<and> sublist s comments
            \<and> ''The syntacticTreeLatex '' @ dquote @ s @ dquote @ '' of datum '' @ fmt uni datum_id
                 @ '' is too long and will be truncated.'' \<in> set (warnings_docspecific obj))
    \<and> (\<forall>s. get_val_from_datum_fields ''syntacticTreeLatex'' datum_fields = Some (PStr s)
          \<longrightarrow> length s \<le> 1023 \<longrightarrow> dict_get form ''syntax'' = PStr s)"
proof -
  obtain datum_id' datum_fields' ls_morphemes ls_utterance ls_gloss ls_syntacticTreeLatex
      ls_phonetic transcription utl uw mb mtl mw pt ptl pw mg gtl glw sx stl sw
      ls_syntacticCategory errored form c1 c2 c3 c4 c5 c6 w1 w2 w3 w4 w5 w6 w7 w8 w9
  where a: "dict_item doc ''_id'' = Some datum_id'"
      "dict_item doc ''datumFields'' = Some datum_fields'"
    and v: "get_val_from_datum_fields ''utterance'' datum_fields' = Some ls_utterance"
      "get_val_from_datum_fields ''morphemes'' datum_fields' = Some ls_morphemes"
      "get_val_from_datum_fields ''phonetic'' datum_fields' = Some ls_phonetic"
      "get_val_from_datum_fields ''gloss'' datum_fields' = Some ls_gloss"
      "get_val_from_datum_fields ''syntacticTreeLatex'' datum_fields' = Some ls_syntacticTreeLatex"
    and d: "datum_transcription uni datum_id' ls_utterance = Some (transcription, utl, uw)"
      "datum_morphemes uni datum_id' ls_morphemes = Some (mb, mtl, mw)"
      "datum_phonetic uni datum_id' ls_phonetic = Some (pt, ptl, pw)"
      "datum_gloss uni datum_id' ls_gloss = Some (mg, gtl, glw)"
      "datum_syntax uni datum_id' ls_syntacticTreeLatex = Some (sx, stl, sw)"
    and e: "datum_errored_data uni utl ls_utterance mtl ls_morphemes ptl ls_phonetic gtl ls_gloss
          ls_syntacticCategory stl ls_syntacticTreeLatex = Some errored"
    and f: "old_value obj = PDict form"
      "dict_get form ''transcription'' = transcription"
      "dict_get form ''morpheme_break'' = (case mb of None \<Rightarrow> PStr [] | Some x \<Rightarrow> x)"
      "dict_get form ''phonetic_transcription'' = (case pt of None \<Rightarrow> PStr [] | Some x \<Rightarrow> x)"
      "dict_get form ''morpheme_gloss'' = (case mg of None \<Rightarrow> PStr [] | Some x \<Rightarrow> x)"
      "dict_get form ''syntax'' = (case sx of None \<Rightarrow> PStr [] | Some x \<Rightarrow> x)"
    and c: "dict_get form ''comments''
          = PStr (strip (join nl2 (c1 @ c2 @ c3 @ c4 @ c5 @ c6 @ errored)))"
    and w: "warnings_docspecific obj =
         w1 @ w2 @ w3 @ w4 @ w5 @ w6 @ w7 @ w8 @ w9 @ uw @ mw @ pw @ glw @ sw"
    apply atomize_elim
    apply (rule datum_anatomy [OF assms(1)])
    apply (intro exI conjI)
                       apply assumption+
    done
  from a assms(2,3) have same: "datum_id' = datum_id" "datum_fields' = datum_fields"
    by simp_all
  define comments where "comments = strip (join nl2 (c1 @ c2 @ c3 @ c4 @ c5 @ c6 @ errored))"
  have in_comments: "sublist s comments"
    if "(utl \<and> ls_utterance = PStr s) \<or> (mtl \<and> ls_morphemes = PStr s)
      \<or> (ptl \<and> ls_phonetic = PStr s) \<or> (gtl \<and> ls_gloss = PStr s)
      \<or> (stl \<and> ls_syntacticTreeLatex = PStr s)" for s
  proof -
    from errored_mentions [OF e that] obtain par where "errored = [par]" "sublist s par"
      "par \<noteq> []" "\<not> is_space (hd par)" "\<not> is_space (last par)"
      by blast
    then show ?thesis
      unfolding comments_def by (intro sublist_of_comments [of par]) simp_all
  qed
  have 1: "dict_get form ''transcription'' = PStr (take 255 s) \<and> sublist s comments
      \<and> ''The utterance '' @ dquote @ s @ dquote @ '' of datum '' @ fmt uni datum_id
           @ '' is too long and will be truncated.'' \<in> set (warnings_docspecific obj)"
    if "get_val_from_datum_fields ''utterance'' datum_fields = Some (PStr s)" "255 < length s" for s
  proof -
    from that v(1) have u: "ls_utterance = PStr s" by (simp add: same)
    with d(1) that(2) have "transcription = PStr (take 255 s)" "utl"
      "uw = [''The utterance '' @ dquote @ s @ dquote @ '' of datum '' @ fmt uni datum_id
           @ '' is too long and will be truncated.'']"
      by (simp_all add: too_long_transcription same del: append.simps)
    with u f(2) w in_comments [of s] show ?thesis by (simp del: append.simps)
  qed
  have 2: "dict_get form ''morpheme_break'' = PStr (take 255 s) \<and> sublist s comments
      \<and> ''The morphemes '' @ dquote @ s @ dquote @ '' of datum '' @ fmt uni datum_id
           @ '' is too long and will be truncated.'' \<in> set (warnings_docspecific obj)"
    if "get_val_from_datum_fields ''morphemes'' datum_fields = Some (PStr s)" "255 < length s" for s
  proof -
    from that v(2) have u: "ls_morphemes = PStr s" by (simp add: same)
    with d(2) that(2) have "mb = Some (PStr (take 255 s))" "mtl"
      "mw = [''The morphemes '' @ dquote @ s @ dquote @ '' of datum '' @ fmt uni datum_id
           @ '' is too long and will be truncated.'']"
      by (simp_all add: datum_morphemes_def too_long_field same fmt_def del: append.simps)
    with u f(3) w in_comments [of s] show ?thesis by (simp del: append.simps)
  qed
  have 3: "dict_get form ''phonetic_transcription'' = PStr (take 255 s) \<and> sublist s comments
      \<and> ''The phonetic value '' @ dquote @ s @ dquote @ '' of datum '' @ fmt uni datum_id
           @ '' is too long and will be truncated.'' \<in> set (warnings_docspecific obj)"
    if "get_val_from_datum_fields ''phonetic'' datum_fields = Some (PStr s)" "255 < length s" for s
  proof -
    from that v(3) have u: "ls_phonetic = PStr s" by (simp add: same)
    with d(3) that(2) have "pt = Some (PStr (take 255 s))" "ptl"
      "pw = [''The phonetic value '' @ dquote @ s @ dquote @ '' of datum '' @ fmt uni datum_id
           @ '' is too long and will be truncated.'']"
      by (simp_all add: datum_phonetic_def too_long_field same fmt_def del: append.simps)
    with u f(4) w in_comments [of s] show ?thesis by (simp del: append.simps)
  qed
  have 4: "dict_get form ''morpheme_gloss'' = PStr (take 255 s) \<and> sublist s comments
      \<and> ''The gloss '' @ dquote @ s @ dquote @ '' of datum '' @ fmt uni datum_id
           @ '' is too long and will be truncated.'' \<in> set (warnings_docspecific obj)"
    if "get_val_from_datum_fields ''gloss'' datum_fields = Some (PStr s)" "255 < length s" for s
  proof -
    from that v(4) have u: "ls_gloss = PStr s" by (simp add: same)
    with d(4) that(2) have "mg = Some (PStr (take 255 s))" "gtl"
      "glw = [''The gloss '' @ dquote @ s @ dquote @ '' of datum '' @ fmt uni datum_id
           @ '' is too long and will be truncated.'']"
      by (simp_all add: datum_gloss_def too_long_field same fmt_def del: append.simps)
    with u f(5) w in_comments [of s] show ?thesis by (simp del: append.simps)
  qed
  have 5: "dict_get form ''syntax'' = PStr (take 255 s) \<and> sublist s comments
      \<and> ''The syntacticTreeLatex '' @ dquote @ s @ dquote @ '' of datum '' @ fmt uni datum_id
           @ '' is too long and will be truncated.'' \<in> set (warnings_docspecific obj)"
    if "get_val_from_datum_fields ''syntacticTreeLatex'' datum_fields = Some (PStr s)"
      "1023 < length s" for s
  proof -
    from that v(5) have u: "ls_syntacticTreeLatex = PStr s" by (simp add: same)
    with d(5) that(2) have "sx = Some (PStr (take 255 s))" "stl"
      "sw = [''The syntacticTreeLatex '' @ dquote @ s @ dquote @ '' of datum '' @ fmt uni datum_id
           @ '' is too long and will be truncated.'']"
      by (simp_all add: datum_syntax_def too_long_field same fmt_def del: append.simps)
    with u f(6) w in_comments [of s] show ?thesis by (simp del: append.simps)
  qed
  have 6: "dict_get form ''syntax'' = PStr s"
    if "get_val_from_datum_fields ''syntacticTreeLatex'' datum_fields = Some (PStr s)"
      "length s \<le> 1023" for s
  proof -
    from that v(5) have u: "ls_syntacticTreeLatex = PStr s" by (simp add: same)
    with d(5) that(2) have "(case sx of None \<Rightarrow> PStr [] | Some x \<Rightarrow> x) = PStr s"
      by (cases "s = []") (auto simp: datum_syntax_def bounded_field_def py_len_def)
    with f(6) show ?thesis by simp
  qed
  from f(1) c 1 2 3 4 5 6 show ?thesis
    unfolding comments_def [symmetric] by blast
qed

theorem truncation_witness:
  "\<exists>obj form comments.
     process_lingsync_datum (\<lambda>v. ''?'') (\<lambda>v. None) (\<lambda>v. Some PNone)
       [(''_id'', PStr ''d1''),
        (''datumFields'', PList [PDict [(''label'', PStr ''syntacticTreeLatex''),
                                        (''value'', PStr (replicate 1024 CHR ''x''))]])]
       [] ''db'' = Some obj
   \<and> dict_item
       [(''_id'', PStr ''d1''),
        (''datumFields'', PList [PDict [(''label'', PStr ''syntacticTreeLatex''),
                                        (''value'', PStr (replicate 1024 CHR ''x''))]])]
       ''_id'' = Some (PStr ''d1'')
   \<and> dict_item
       [(''_id'', PStr ''d1''),
        (''datumFields'', PList [PDict [(''label'', PStr ''syntacticTreeLatex''),
                                        (''value'', PStr (replicate 1024 CHR ''x''))]])]
       ''datumFields''
       = Some (PList [PDict [(''label'', PStr ''syntacticTreeLatex''),
                             (''value'', PStr (replicate 1024 CHR ''x''))]])
   \<and> get_val_from_datum_fields ''syntacticTreeLatex''
        (PList [PDict [(''label'', PStr ''syntacticTreeLatex''),
                       (''value'', PStr (replicate 1024 CHR ''x''))]])
       = Some (PStr (replicate 1024 CHR ''x''))
   \<and> 1023 < length (replicate 1024 CHR ''x'')
   \<and> old_value obj = PDict form
   \<and> dict_get form ''comments'' = PStr comments
   \<and> dict_get form ''syntax'' = PStr (replicate 255 CHR ''x'')
   \<and> dict_get form ''syntax'' \<noteq> PStr (take 1023 (replicate 1024 CHR ''x''))
   \<and> sublist (replicate 1024 CHR ''x'') comments
   \<and> ''The syntacticTreeLatex '' @ dquote @ replicate 1024 CHR ''x'' @ dquote @ '' of datum ''
        @ fmt (\<lambda>v. ''?'') (PStr ''d1'') @ '' is too long and will be truncated.''
       \<in> set (warnings_docspecific obj)"
proof -
  define fields where "fields = PList [PDict [(''label'', PStr ''syntacticTreeLatex''),
    (''value'', PStr (replicate 1024 CHR ''x''))]]"
  define doc where "doc = [(''_id'', PStr ''d1''), (''datumFields'', fields)]"
  have "process_lingsync_datum (\<lambda>v. ''?'') (\<lambda>v. None) (\<lambda>v. Some PNone) doc [] ''db'' \<noteq> None"
    unfolding doc_def fields_def by code_simp
  then obtain obj where h1:
    "process_lingsync_datum (\<lambda>v. ''?'') (\<lambda>v. None) (\<lambda>v. Some PNone) doc [] ''db'' = Some obj"
    by blast
  have h2: "dict_item doc ''_id'' = Some (PStr ''d1'')"
    by (simp add: doc_def dict_item_def)
  have h3: "dict_item doc ''datumFields'' = Some fields"
    by (simp add: doc_def dict_item_def)
  have h4: "get_val_from_datum_fields ''syntacticTreeLatex'' fields
      = Some (PStr (replicate 1024 CHR ''x''))"
    unfolding fields_def by code_simp
  have h5: "1023 < length (replicate 1024 CHR ''x'')"
    by simp
  obtain form comments where form: "old_value obj = PDict form"
      "dict_get form ''comments'' = PStr comments"
    and syn: "\<forall>s. get_val_from_datum_fields ''syntacticTreeLatex'' fields = Some (PStr s)
          \<longrightarrow> 1023 < length s
          \<longrightarrow> dict_get form ''syntax'' = PStr (take 255 s) \<and> sublist s comments
            \<and> ''The syntacticTreeLatex '' @ dquote @ s @ dquote @ '' of datum ''
                 @ fmt (\<lambda>v. ''?'') (PStr ''d1'')
                 @ '' is too long and will be truncated.'' \<in> set (warnings_docspecific obj)"
    by (atomize_elim, insert truncation [OF h1 h2 h3], elim exE conjE,
        (intro exI conjI; assumption))
  note cut = syn [rule_format, OF h4 h5]
  have short: "take 255 (replicate 1024 CHR ''x'') = replicate 255 CHR ''x''"
    by simp
  have differs: "replicate 255 CHR ''x'' \<noteq> take 1023 (replicate 1024 CHR ''x'')"
  proof
    assume "replicate 255 CHR ''x'' = take 1023 (replicate 1024 CHR ''x'')"
    then have "length (replicate 255 CHR ''x'') = length (take 1023 (replicate 1024 CHR ''x''))"
      by (rule arg_cong)
    then show False by simp
  qed
  have "\<exists>obj form comments.
     process_lingsync_datum (\<lambda>v. ''?'') (\<lambda>v. None) (\<lambda>v. Some PNone) doc [] ''db'' = Some obj
   \<and> dict_item doc ''_id'' = Some (PStr ''d1'')
   \<and> dict_item doc ''datumFields'' = Some fields
   \<and> get_val_from_datum_fields ''syntacticTreeLatex'' fields
       = Some (PStr (replicate 1024 CHR ''x''))
   \<and> 1023 < length (replicate 1024 CHR ''x'')
   \<and> old_value obj = PDict form
   \<and> dict_get form ''comments'' = PStr comments
   \<and> dict_get form ''syntax'' = PStr (replicate 255 CHR ''x'')
   \<and> dict_get form ''syntax'' \<noteq> PStr (take 1023 (replicate 1024 CHR ''x''))
   \<and> sublist (replicate 1024 CHR ''x'') comments
   \<and> ''The syntacticTreeLatex '' @ dquote @ replicate 1024 CHR ''x'' @ dquote @ '' of datum ''
        @ fmt (\<lambda>v. ''?'') (PStr ''d1'') @ '' is too long and will be truncated.''
       \<in> set (warnings_docspecific obj)"
    apply (rule exI [of _ obj], rule exI [of _ form], rule exI [of _ comments])
    apply (intro conjI)
              apply (rule h1)
             apply (rule h2)
            apply (rule h3)
           apply (rule h4)
          apply (rule h5)
         apply (rule form(1))
        apply (rule form(2))
       apply (simp only: cut [THEN conjunct1] short)
      apply (simp only: cut [THEN conjunct1] short pyval.inject differs not_False_eq_True)
     apply (rule cut [THEN conjunct2, THEN conjunct1])
    apply (rule cut [THEN conjunct2, THEN conjunct2])
    done
  then show ?thesis
    unfolding doc_def fields_def .
qed

section \<open>The contents of a collection\<close>

lemma contents_of_spec:
  assumes "contents_of m session_id forms = Some contents"
  shows "\<exists>fs. forms = map PDict fs
    \<and> contents = map (\<lambda>f. (dict_get f ''date_entered'', resolved m f))
        (filter (\<lambda>f. \<not> truthy (dict_get f ''__lingsync_deleted'')
                  \<and> dict_get f ''__lingsync_session_id'' = session_id
                  \<and> truthy (resolved m f)) fs)"
  using assms
proof (induction forms arbitrary: contents)
  case Nil
  then show ?case by simp
next
  case (Cons form forms)
  from Cons.prems obtain f where f: "form = PDict f"
    by (cases form) (auto simp: py_get_def)
  let ?member = "\<lambda>f. \<not> truthy (dict_get f ''__lingsync_deleted'')
                  \<and> dict_get f ''__lingsync_session_id'' = session_id
                  \<and> truthy (resolved m f)"
  from Cons.prems have step: "contents_of m session_id (PDict f # forms) = Some contents"
    by (simp add: f)
  show ?case
  proof (cases "?member f")
    case False
    with step have "contents_of m session_id forms = Some contents"
      by (auto simp: py_get_def py_item_def dict_item_def dict_get_def rm_get_def resolved_def
          bind_eq_Some_conv split: if_splits option.splits)
    from Cons.IH [OF this] obtain fs where "forms = map PDict fs"
      "contents = map (\<lambda>f. (dict_get f ''date_entered'', resolved m f)) (filter ?member fs)"
      by blast
    with f False show ?thesis
      by (intro exI [of _ "f # fs"]) simp
  next
    case True
    with step obtain rest where rest: "contents_of m session_id forms = Some rest"
      "contents = (dict_get f ''date_entered'', resolved m f) # rest"
      by (auto simp: py_get_def py_item_def dict_item_def dict_get_def rm_get_def resolved_def
          bind_eq_Some_conv split: if_splits option.splits)
    from Cons.IH [OF rest(1)] obtain fs where "forms = map PDict fs"
      "rest = map (\<lambda>f. (dict_get f ''date_entered'', resolved m f)) (filter ?member fs)"
      by blast
    with f True rest(2) show ?thesis
      by (intro exI [of _ "f # fs"]) simp
  qed
qed

lemma typed_contents_spec:
  "typed_contents contents = Some typed \<Longrightarrow> contents = map (\<lambda>t. (PStr (fst t), PInt (snd t))) typed"
proof (induction contents arbitrary: typed rule: typed_contents.induct)
  case 1
  then show ?case by simp
next
  case (2 d i cs)
  then show ?case by auto
qed simp_all

lemma prefix_create_collections:
  "prefix tr (snd (create_collections uni srv migration_tag_id rm forms collections st tr))"
proof (induction collections arbitrary: st tr)
  case Nil
  then show ?case by simp
next
  case (Cons collection collections)
  show ?case
    unfolding create_collections.simps
    apply (rule prefix_andthen)
     apply (simp add: snd_orcrash)
    apply (auto split: option.splits prod.splits simp: snd_orcrash
        intro!: prefix_andthen
        intro: prefix_via [OF _ prefix_send] prefix_via [OF _ Cons.IH])
    done
qed

lemma collection_is_sent:
  assumes "prepare_collection uni rm forms collection = Some (c3, contents)"
    and "typed_contents contents = Some typed"
    and "append_migration_tag migration_tag_id
           (dict_set c3 ''contents'' (PStr (contents_string typed))) = Some c"
  shows "prefix (tr @ [Create ''collections'' (PDict c)])
           (snd (create_collections uni srv migration_tag_id rm forms (collection # collections) st tr))"
proof (cases "srv tr (Create ''collections'' (PDict c))")
  case (Reply r)
  then show ?thesis
    using assms prefix_create_collections
    by (auto simp: andthen_def orcrash_def send_def split: option.splits simp del: append.simps)
next
  case SSLError
  then show ?thesis
    using assms by (simp add: andthen_def orcrash_def send_def del: append.simps)
qed

lemma sorted_dates: "sorted (map fst (sort (typed :: (string \<times> int) list)))"
proof -
  have "sorted_wrt (\<lambda>x y. fst x \<le> fst y) (sort typed)"
    by (rule sorted_wrt_mono_rel [of _ "(\<le>)"]) (auto simp: less_eq_prod_def)
  then show ?thesis by (simp add: sorted_wrt_map)
qed

text \<open>
  C7, as the code has it. When a collection is created, the request carries as
  \<^verbatim>\<open>contents\<close> the lines \<^verbatim>\<open>form[i]\<close> of the pairs of \<^verbatim>\<open>date_entered\<close> and destination
  identifier, for the staged forms that are not marked as deleted, belong to the
  session of the collection and have an identifier in the relational map; the pairs
  are sorted, so that the dates ascend (equal dates: the identifiers ascend). The
  dates are strings and are compared as such.
\<close>

theorem collection_contents_order:
  assumes "prepare_collection uni rm forms (PDict collection) = Some (c3, contents)"
    and "typed_contents contents = Some typed"
    and "append_migration_tag migration_tag_id
           (dict_set c3 ''contents'' (PStr (contents_string typed))) = Some c"
  shows "prefix (tr @ [Create ''collections'' (PDict c)])
           (snd (create_collections uni srv migration_tag_id rm forms
                   (PDict collection # collections) st tr))
    \<and> dict_get c ''contents''
        = PStr (join [CHR 0x0A] (map (\<lambda>t. ''form['' @ str_int (snd t) @ '']'') (sort typed)))
    \<and> sorted (sort typed) \<and> set (sort typed) = set typed
    \<and> length (sort typed) = length typed
    \<and> sorted (map fst (sort typed))
    \<and> (\<exists>fs. forms = map PDict fs
          \<and> map (\<lambda>t. (PStr (fst t), PInt (snd t))) typed
            = map (\<lambda>f. (dict_get f ''date_entered'', resolved (rm_forms rm) f))
                (filter (\<lambda>f. \<not> truthy (dict_get f ''__lingsync_deleted'')
                          \<and> dict_get f ''__lingsync_session_id''
                              = dict_get collection ''__lingsync_session_id''
                          \<and> truthy (resolved (rm_forms rm) f)) fs))"
proof -
  from assms(1) have "contents_of (rm_forms rm) (dict_get collection ''__lingsync_session_id'')
      forms = Some contents"
    by (auto simp: prepare_collection_def bind_eq_Some_conv)
  from contents_of_spec [OF this] typed_contents_spec [OF assms(2)]
  have members: "\<exists>fs. forms = map PDict fs
          \<and> map (\<lambda>t. (PStr (fst t), PInt (snd t))) typed
            = map (\<lambda>f. (dict_get f ''date_entered'', resolved (rm_forms rm) f))
                (filter (\<lambda>f. \<not> truthy (dict_get f ''__lingsync_deleted'')
                          \<and> dict_get f ''__lingsync_session_id''
                              = dict_get collection ''__lingsync_session_id''
                          \<and> truthy (resolved (rm_forms rm) f)) fs)"
    by auto
  from append_migration_tag_keeps [OF assms(3), of "''contents''"]
  have listed: "dict_get c ''contents''
        = PStr (join [CHR 0x0A] (map (\<lambda>t. ''form['' @ str_int (snd t) @ '']'') (sort typed)))"
    by (simp add: dict_get_set contents_string_def form_reference_def)
  show ?thesis
    apply (intro conjI)
          apply (rule collection_is_sent [OF assms])
         apply (rule listed)
        apply (rule sorted_sort)
       apply (rule set_sort)
      apply (rule length_sort)
     apply (rule sorted_dates)
    apply (rule members)
    done
qed

theorem collection_contents_order_witness:
  "\<exists>c.
     prepare_collection (\<lambda>v. ''?'')
       (empty_map \<lparr> rm_forms := [PStr ''d1'' \<mapsto> PInt 1, PStr ''d2'' \<mapsto> PInt 2, PStr ''d3'' \<mapsto> PInt 3] \<rparr>)
       [PDict [(''__lingsync_datum_id'', PStr ''d1''), (''__lingsync_session_id'', PStr ''s1''),
               (''date_entered'', PStr ''2015-06-02'')],
        PDict [(''__lingsync_datum_id'', PStr ''d2''), (''__lingsync_session_id'', PStr ''s1''),
               (''date_entered'', PStr ''2015-06-01'')],
        PDict [(''__lingsync_datum_id'', PStr ''d3''), (''__lingsync_session_id'', PStr ''s1''),
               (''date_entered'', PStr ''2015-06-03'')]]
       (PDict (dict_set old_schemata_collection ''__lingsync_session_id'' (PStr ''s1'')))
     = Some (dict_set old_schemata_collection ''__lingsync_session_id'' (PStr ''s1''),
             [(PStr ''2015-06-02'', PInt 1), (PStr ''2015-06-01'', PInt 2),
              (PStr ''2015-06-03'', PInt 3)])
   \<and> typed_contents [(PStr ''2015-06-02'', PInt 1), (PStr ''2015-06-01'', PInt 2),
                      (PStr ''2015-06-03'', PInt 3)]
     = Some [(''2015-06-02'', 1), (''2015-06-01'', 2), (''2015-06-03'', 3)]
   \<and> append_migration_tag (PInt 9)
       (dict_set (dict_set old_schemata_collection ''__lingsync_session_id'' (PStr ''s1''))
          ''contents''
          (PStr (contents_string [(''2015-06-02'', 1), (''2015-06-01'', 2), (''2015-06-03'', 3)])))
     = Some c
   \<and> prefix ([] @ [Create ''collections'' (PDict c)])
       (snd (create_collections (\<lambda>v. ''?'') (\<lambda>tr req. Reply (PDict [(''id'', PInt 5)])) (PInt 9)
          (empty_map \<lparr> rm_forms := [PStr ''d1'' \<mapsto> PInt 1, PStr ''d2'' \<mapsto> PInt 2, PStr ''d3'' \<mapsto> PInt 3] \<rparr>)
          [PDict [(''__lingsync_datum_id'', PStr ''d1''), (''__lingsync_session_id'', PStr ''s1''),
                  (''date_entered'', PStr ''2015-06-02'')],
           PDict [(''__lingsync_datum_id'', PStr ''d2''), (''__lingsync_session_id'', PStr ''s1''),
                  (''date_entered'', PStr ''2015-06-01'')],
           PDict [(''__lingsync_datum_id'', PStr ''d3''), (''__lingsync_session_id'', PStr ''s1''),
                  (''date_entered'', PStr ''2015-06-03'')]]
          [PDict (dict_set old_schemata_collection ''__lingsync_session_id'' (PStr ''s1''))]
          (Map.empty, []) []))
   \<and> dict_get c ''contents''
       = PStr (join [CHR 0x0A] (map (\<lambda>t. ''form['' @ str_int (snd t) @ '']'')
           (sort [(''2015-06-02'', 1), (''2015-06-01'', 2), (''2015-06-03'', 3)])))
   \<and> sort [(''2015-06-02'', 1 :: int), (''2015-06-01'', 2), (''2015-06-03'', 3)]
       = [(''2015-06-01'', 2), (''2015-06-02'', 1), (''2015-06-03'', 3)]"
proof -
  define rm where "rm = empty_map
    \<lparr> rm_forms := [PStr ''d1'' \<mapsto> PInt 1, PStr ''d2'' \<mapsto> PInt 2, PStr ''d3'' \<mapsto> PInt 3] \<rparr>"
  define forms where "forms =
    [PDict [(''__lingsync_datum_id'', PStr ''d1''), (''__lingsync_session_id'', PStr ''s1''),
            (''date_entered'', PStr ''2015-06-02'')],
     PDict [(''__lingsync_datum_id'', PStr ''d2''), (''__lingsync_session_id'', PStr ''s1''),
            (''date_entered'', PStr ''2015-06-01'')],
     PDict [(''__lingsync_datum_id'', PStr ''d3''), (''__lingsync_session_id'', PStr ''s1''),
            (''date_entered'', PStr ''2015-06-03'')]]"
  define collection where
    "collection = dict_set old_schemata_collection ''__lingsync_session_id'' (PStr ''s1'')"
  define typed :: "(string \<times> int) list" where
    "typed = [(''2015-06-02'', 1), (''2015-06-01'', 2), (''2015-06-03'', 3)]"
  have h1: "prepare_collection (\<lambda>v. ''?'') rm forms (PDict collection)
      = Some (collection, [(PStr ''2015-06-02'', PInt 1), (PStr ''2015-06-01'', PInt 2),
                           (PStr ''2015-06-03'', PInt 3)])"
    unfolding rm_def forms_def collection_def by code_simp
  have h2: "typed_contents [(PStr ''2015-06-02'', PInt 1), (PStr ''2015-06-01'', PInt 2),
                      (PStr ''2015-06-03'', PInt 3)] = Some typed"
    unfolding typed_def by simp
  have "append_migration_tag (PInt 9)
       (dict_set collection ''contents'' (PStr (contents_string typed))) \<noteq> None"
    unfolding collection_def typed_def by code_simp
  then obtain c where h3: "append_migration_tag (PInt 9)
       (dict_set collection ''contents'' (PStr (contents_string typed))) = Some c"
    by blast
  have order: "sort typed = [(''2015-06-01'', 2), (''2015-06-02'', 1), (''2015-06-03'', 3)]"
    unfolding typed_def by code_simp
  note inst = collection_contents_order [OF h1 h2 h3, of "[]"
      "\<lambda>tr req. Reply (PDict [(''id'', PInt 5)])" "[]" "(Map.empty, [])"]
  have "\<exists>c.
     prepare_collection (\<lambda>v. ''?'') rm forms (PDict collection)
     = Some (collection, [(PStr ''2015-06-02'', PInt 1), (PStr ''2015-06-01'', PInt 2),
              (PStr ''2015-06-03'', PInt 3)])
   \<and> typed_contents [(PStr ''2015-06-02'', PInt 1), (PStr ''2015-06-01'', PInt 2),
                      (PStr ''2015-06-03'', PInt 3)]
     = Some typed
   \<and> append_migration_tag (PInt 9)
       (dict_set collection ''contents'' (PStr (contents_string typed))) = Some c
   \<and> prefix ([] @ [Create ''collections'' (PDict c)])
       (snd (create_collections (\<lambda>v. ''?'') (\<lambda>tr req. Reply (PDict [(''id'', PInt 5)])) (PInt 9)
          rm forms [PDict collection] (Map.empty, []) []))
   \<and> dict_get c ''contents''
       = PStr (join [CHR 0x0A] (map (\<lambda>t. ''form['' @ str_int (snd t) @ '']'') (sort typed)))
   \<and> sort typed = [(''2015-06-01'', 2), (''2015-06-02'', 1), (''2015-06-03'', 3)]"
    apply (rule exI [of _ c])
    apply (intro conjI)
         apply (rule h1)
        apply (rule h2)
       apply (rule h3)
      apply (rule inst [THEN conjunct1])
     apply (rule inst [THEN conjunct2, THEN conjunct1])
    apply (rule order)
    done
  then show ?thesis
    unfolding rm_def forms_def collection_def typed_def .
qed

text \<open>
  The example of the claim fails: with the entry dates t1 = 2015-06-02, t2 = 2015-06-01
  and t3 = 2015-06-03 of the forms 1, 2 and 3, so that t3 > t1 > t2, the contents list
  the forms in the order 2, 1, 3 of t2, t1, t3, not in the order of t1, t2, t3.
\<close>

theorem collection_order_counterexample:
  "''2015-06-02'' < ''2015-06-03'' \<and> ''2015-06-01'' < ''2015-06-02''
   \<and> map (\<lambda>req. case req of Create res (PDict c) \<Rightarrow> dict_get c ''contents'' | _ \<Rightarrow> PNone)
       (snd (create_collections (\<lambda>v. ''?'') (\<lambda>tr req. Reply (PDict [(''id'', PInt 5)])) (PInt 9)
          (empty_map \<lparr> rm_forms := [PStr ''d1'' \<mapsto> PInt 1, PStr ''d2'' \<mapsto> PInt 2, PStr ''d3'' \<mapsto> PInt 3] \<rparr>)
          [PDict [(''__lingsync_datum_id'', PStr ''d1''), (''__lingsync_session_id'', PStr ''s1''),
                  (''date_entered'', PStr ''2015-06-02'')],
           PDict [(''__lingsync_datum_id'', PStr ''d2''), (''__lingsync_session_id'', PStr ''s1''),
                  (''date_entered'', PStr ''2015-06-01'')],
           PDict [(''__lingsync_datum_id'', PStr ''d3''), (''__lingsync_session_id'', PStr ''s1''),
                  (''date_entered'', PStr ''2015-06-03'')]]
          [PDict (dict_set old_schemata_collection ''__lingsync_session_id'' (PStr ''s1''))]
          (Map.empty, []) []))
     = [PStr (''form[2]'' @ [CHR 0x0A] @ ''form[1]'' @ [CHR 0x0A] @ ''form[3]'')]"
  by code_simp

end
